theory Spec2Isabelle
  imports Main "HOL-Library.Word" "HOL-Library.Code_Target_Numeral"
begin

unbundle bit_operations_syntax

section \<open>Reading uftrace data directories: a model of \<open>utils/data-file.c\<close>\<close>

text \<open>
  The theory follows \<open>utils/data-file.c\<close> function by function. Files are byte strings
  (\<open>string\<close>, one \<open>char\<close> per byte). A function that can end the process (\<open>pr_err\<close>,
  \<open>pr_err_ns\<close>, \<open>assert\<close>) returns an \<open>outcome\<close>, whose \<open>Aborted\<close> branch names the exit
  taken. Declarations that live in headers outside the file (\<open>uftrace.h\<close>, \<open>mcount.h\<close>,
  \<open>utils.h\<close>) are gathered in the record \<open>abi\<close> and passed as a parameter.
\<close>

subsection \<open>Machine integers and the C library\<close>

type_synonym u16 = "16 word"
type_synonym u32 = "32 word"
type_synonym u64 = "64 word"

text \<open>\<open>bswap_16\<close>, \<open>bswap_32\<close>, \<open>bswap_64\<close> of \<open>byteswap.h\<close>, as the masks and shifts of
  the C library's constant forms.\<close>

definition bswap_16 :: "u16 \<Rightarrow> u16" where
  "bswap_16 x = (drop_bit 8 x AND 0xff) OR push_bit 8 (x AND 0xff)"

definition bswap_32 :: "u32 \<Rightarrow> u32" where
  "bswap_32 x =
     drop_bit 24 (x AND 0xff000000) OR drop_bit 8 (x AND 0x00ff0000) OR
     push_bit 8 (x AND 0x0000ff00) OR push_bit 24 (x AND 0x000000ff)"

definition bswap_64 :: "u64 \<Rightarrow> u64" where
  "bswap_64 x =
     drop_bit 56 (x AND 0xff00000000000000) OR drop_bit 40 (x AND 0x00ff000000000000) OR
     drop_bit 24 (x AND 0x0000ff0000000000) OR drop_bit 8 (x AND 0x000000ff00000000) OR
     push_bit 8 (x AND 0x00000000ff000000) OR push_bit 24 (x AND 0x0000000000ff0000) OR
     push_bit 40 (x AND 0x000000000000ff00) OR push_bit 56 (x AND 0x00000000000000ff)"

text \<open>The bytes of a word, least significant first: its representation in memory and on
  disk on a little-endian machine, and the reverse of it on a big-endian one.\<close>

definition byte_at :: "'a::len word \<Rightarrow> nat \<Rightarrow> 8 word" where
  "byte_at w i = ucast (drop_bit (8 * i) w)"

definition bytes_of :: "nat \<Rightarrow> 'a::len word \<Rightarrow> 8 word list" where
  "bytes_of n w = map (byte_at w) [0..<n]"

text \<open>\<open>errno\<close> after a failed \<open>fopen\<close> or \<open>open\<close>, with the Linux numbers.\<close>

datatype errno = ENOENT | EIO | ENOMEM | EACCES | ENOTDIR | EISDIR | ENFILE | EMFILE
  | ENAMETOOLONG | ELOOP

fun errno_value :: "errno \<Rightarrow> int" where
  "errno_value ENOENT = 2"
| "errno_value EIO = 5"
| "errno_value ENOMEM = 12"
| "errno_value EACCES = 13"
| "errno_value ENOTDIR = 20"
| "errno_value EISDIR = 21"
| "errno_value ENFILE = 23"
| "errno_value EMFILE = 24"
| "errno_value ENAMETOOLONG = 36"
| "errno_value ELOOP = 40"

subsection \<open>Exits, diagnostics and the file system\<close>

datatype abort =
    Cannot_open_file string      \<comment> \<open>\<open>pr_err("cannot open %s file")\<close>, also the writers' \<open>pr_err\<close>\<close>
  | Not_recorded string          \<comment> \<open>\<open>pr_err(RECORD_MSG, exename)\<close> after "cannot find"\<close>
  | Cannot_read_header           \<comment> \<open>\<open>pr_err("cannot read header data")\<close>\<close>
  | Invalid_magic                \<comment> \<open>\<open>pr_err("invalid magic string found!")\<close>\<close>
  | Unsupported_version u32      \<comment> \<open>\<open>pr_err("unsupported file version: %u")\<close>\<close>
  | Cannot_read_info             \<comment> \<open>\<open>pr_err("cannot read ftrace header info!")\<close>\<close>
  | Invalid_task_txt             \<comment> \<open>\<open>pr_err_ns("invalid task.txt format")\<close>\<close>
  | Assertion_failed             \<comment> \<open>\<open>assert(s)\<close>\<close>

datatype 'a outcome = Returned 'a | Aborted abort

datatype diag = Log string | Warn string

text \<open>The observable trace of a run: the paths handed to \<open>fopen\<close>/\<open>open\<close>, in order, and
  the messages of \<open>pr_log\<close> and \<open>pr_warn\<close> (\<open>pr_dbg\<close> is left out).\<close>

record io =
  opened :: "string list"
  diags :: "diag list"

definition io0 :: io where
  "io0 = \<lparr>opened = [], diags = []\<rparr>"

definition note_open :: "string \<Rightarrow> io \<Rightarrow> io" where
  "note_open path w = w\<lparr>opened := opened w @ [path]\<rparr>"

definition emit :: "diag \<Rightarrow> io \<Rightarrow> io" where
  "emit d w = w\<lparr>diags := diags w @ [d]\<rparr>"

subsection \<open>Messages and the session registry\<close>

text \<open>The fields of \<open>struct ftrace_msg_task\<close>, \<open>ftrace_msg_sess\<close> and \<open>ftrace_msg_dlopen\<close>
  that the file uses. \<open>tid\<close>, \<open>pid\<close> and \<open>namelen\<close> are \<open>int\<close>s: 32 bits, read as signed
  numbers with \<open>sint\<close>; \<open>time\<close> and \<open>base_addr\<close> are 64 bits. The session id is a \<open>char\<close>
  array: the list of its bytes, as many as the array has.\<close>

record task_msg =
  t_time :: u64
  t_pid :: u32
  t_tid :: u32

record sess_msg =
  s_task :: task_msg
  s_sid :: string
  s_namelen :: u32

record dlopen_msg =
  d_task :: task_msg
  d_base_addr :: u64
  d_sid :: string
  d_namelen :: u32

record uftrace_session =
  ss_sid :: string
  ss_pid :: u32
  ss_start_time :: u64
  ss_exename :: string
  ss_dirname :: string
  ss_sym_rel_addr :: bool
  ss_dlopens :: "(u64 \<times> u64 \<times> string) list"

record uftrace_task =
  tk_tid :: u32
  tk_pid :: u32
  tk_time :: u64
  tk_forked :: bool

record uftrace_session_link =
  sessions :: "uftrace_session list"
  tasks :: "uftrace_task list"

text \<open>\<open>RB_ROOT\<close>, \<open>RB_ROOT\<close>, \<open>NULL\<close>: the registry that \<open>open_data_file\<close> starts from.\<close>

definition empty_link :: uftrace_session_link where
  "empty_link = \<lparr>sessions = [], tasks = []\<rparr>"

text \<open>Modelled from the spec: \<open>get_session_from_sid\<close> (session.c) is not part of the file.
  "find-session-by-id(id)": sessions are keyed by session id.\<close>

definition get_session_from_sid :: "uftrace_session_link \<Rightarrow> string \<Rightarrow> uftrace_session option" where
  "get_session_from_sid sess sid = find (\<lambda>s. ss_sid s = sid) (sessions sess)"

text \<open>Modelled from the spec: \<open>create_session\<close> (session.c) is not part of the file.
  "create-or-update-session(session-event, directory, symbol-addressing-mode)"; "entities
  are created once per distinct id encountered in the log".\<close>

definition create_session ::
  "uftrace_session_link \<Rightarrow> sess_msg \<Rightarrow> string \<Rightarrow> string \<Rightarrow> bool \<Rightarrow> uftrace_session_link" where
  "create_session sess smsg dirname exename sym_rel_addr =
     (case get_session_from_sid sess (s_sid smsg) of
        None \<Rightarrow>
          sess\<lparr>sessions := sessions sess @
            [\<lparr>ss_sid = s_sid smsg, ss_pid = t_pid (s_task smsg),
              ss_start_time = t_time (s_task smsg), ss_exename = exename,
              ss_dirname = dirname, ss_sym_rel_addr = sym_rel_addr, ss_dlopens = []\<rparr>]\<rparr>
      | Some _ \<Rightarrow>
          sess\<lparr>sessions := map (\<lambda>s. if ss_sid s = s_sid smsg
              then s\<lparr>ss_pid := t_pid (s_task smsg), ss_start_time := t_time (s_task smsg),
                     ss_exename := exename, ss_dirname := dirname,
                     ss_sym_rel_addr := sym_rel_addr\<rparr>
              else s) (sessions sess)\<rparr>)"

text \<open>Modelled from the spec: \<open>create_task\<close> (session.c) is not part of the file.
  "create-or-update-task(task-event, is-fork, needs-session)", one entity per distinct
  id. After a fork the message carries the child's pid in \<open>tid\<close> and the parent's in \<open>pid\<close>.\<close>

definition create_task ::
  "uftrace_session_link \<Rightarrow> task_msg \<Rightarrow> bool \<Rightarrow> bool \<Rightarrow> uftrace_session_link" where
  "create_task sess tmsg fork needs_session =
     (let t = \<lparr>tk_tid = t_tid tmsg, tk_pid = t_pid tmsg, tk_time = t_time tmsg,
               tk_forked = fork\<rparr>
      in if \<exists>x \<in> set (tasks sess). tk_tid x = t_tid tmsg
         then sess\<lparr>tasks := map (\<lambda>x. if tk_tid x = t_tid tmsg then t else x) (tasks sess)\<rparr>
         else sess\<lparr>tasks := tasks sess @ [t]\<rparr>)"

text \<open>Modelled from the spec: \<open>session_add_dlopen\<close> (session.c) is not part of the file.
  "attach-dlopen-to-session(session, timestamp, base, libname)". The C function gets a
  pointer into the registry; here the session is named by its id.\<close>

definition session_add_dlopen ::
  "uftrace_session_link \<Rightarrow> uftrace_session \<Rightarrow> u64 \<Rightarrow> u64 \<Rightarrow> string \<Rightarrow> uftrace_session_link" where
  "session_add_dlopen sess s timestamp base_addr libname =
     sess\<lparr>sessions := map (\<lambda>x. if ss_sid x = ss_sid s
         then x\<lparr>ss_dlopens := ss_dlopens x @ [(timestamp, base_addr, libname)]\<rparr>
         else x) (sessions sess)\<rparr>"

subsection \<open>Declarations taken from the headers\<close>

text \<open>Constants, macros and struct layouts of \<open>uftrace.h\<close> and \<open>libmcount/mcount.h\<close>:
  none of them is in \<open>data-file.c\<close>, so every function below takes them as \<open>abi\<close>.
  The three decoders read a struct out of the bytes \<open>read_all\<close> delivered.\<close>

record abi =
  FTRACE_MSG_MAGIC :: nat
  FTRACE_MSG_SESSION :: nat
  FTRACE_MSG_TID :: nat
  FTRACE_MSG_FORK_END :: nat
  msg_magic :: "string \<Rightarrow> nat"
  msg_type :: "string \<Rightarrow> nat"
  sizeof_smsg :: nat
  decode_smsg :: "string \<Rightarrow> sess_msg"
  sizeof_tmsg :: nat
  decode_tmsg :: "string \<Rightarrow> task_msg"
  RECORD_MAGIC :: u64
  UFTRACE_MAGIC_STR :: string
  UFTRACE_FILE_VERSION_MIN :: u32
  UFTRACE_FILE_VERSION :: u32
  TASK_SESSION :: u64
  SYM_REL_ADDR :: u64
  ARGUMENT :: u64
  RETVAL :: u64
  MAX_STACK :: u64
  KERNEL :: u64
  MCOUNT_RSTACK_MAX :: u16
  UFTRACE_DIR_NAME :: string
  UFTRACE_DIR_OLD_NAME :: string

text \<open>Modelled from the spec: \<open>struct ftrace_msg\<close> is declared in \<open>uftrace.h\<close>. The
  envelope is "a small fixed-size message envelope \<open>{magic:u32-like, type:u32-like}\<close>",
  eight bytes.\<close>

definition sizeof_msg :: nat where
  "sizeof_msg = 8"

subsection \<open>\<open>read_task_file\<close>\<close>

text \<open>Modelled from the spec: \<open>read_all\<close> (utils.c) is not part of the file. It delivers
  exactly \<open>size\<close> bytes and returns 0, or returns a negative value on "any short/failed read".
  The result is the bytes delivered and the rest of the file, or \<open>None\<close> for the negative
  value.\<close>

definition read_all :: "string \<Rightarrow> nat \<Rightarrow> (string \<times> string) option" where
  "read_all fd sz = (if sz \<le> length fd then Some (take sz fd, drop sz fd) else None)"

text \<open>An \<open>int\<close> passed where \<open>size_t\<close> is expected (64 bits).\<close>

definition to_size_t :: "int \<Rightarrow> nat" where
  "to_size_t n = nat (n mod 2 ^ 64)"

text \<open>C's \<open>%\<close>: the remainder of the division that truncates towards zero.\<close>

definition c_rem :: "int \<Rightarrow> int \<Rightarrow> int" where
  "c_rem a b = sgn a * (\<bar>a\<bar> mod \<bar>b\<bar>)"

text \<open>The \<open>FTRACE_MSG_SESSION\<close> case, lines 55 to 61: the payload is read into \<open>smsg\<close>,
  \<open>smsg.namelen\<close> bytes into \<open>buf\<close>, and \<open>8 - (smsg.namelen % 8)\<close> bytes into \<open>pad\<close> when
  \<open>smsg.namelen % 8\<close> is not 0. The result is the payload, the name bytes and the rest of the
  file, or \<open>None\<close> when one of the reads fails (\<open>goto out\<close>).\<close>

definition read_session_payload :: "abi \<Rightarrow> string \<Rightarrow> (sess_msg \<times> string \<times> string) option" where
  "read_session_payload a fd =
     (case read_all fd (sizeof_smsg a) of
        None \<Rightarrow> None
      | Some (raw, fd1) \<Rightarrow>
          let smsg = decode_smsg a raw in
          (case read_all fd1 (to_size_t (sint (s_namelen smsg))) of
             None \<Rightarrow> None
           | Some (buf, fd2) \<Rightarrow>
               if c_rem (sint (s_namelen smsg)) 8 \<noteq> 0 then
                 (case read_all fd2 (to_size_t (8 - c_rem (sint (s_namelen smsg)) 8)) of
                    None \<Rightarrow> None
                  | Some (pad, fd3) \<Rightarrow> Some (smsg, buf, fd3))
               else Some (smsg, buf, fd2)))"

text \<open>The \<open>while\<close> loop. The result is \<open>ret\<close> and the registry, with the trace;
  \<open>goto out\<close> returns -1, leaving the loop by a failed envelope read returns 0. No path of
  the loop ends the process; the result has the type of the text reader's.\<close>

function read_task_loop ::
  "abi \<Rightarrow> string \<Rightarrow> bool \<Rightarrow> bool \<Rightarrow> uftrace_session_link \<Rightarrow> io \<Rightarrow> string \<Rightarrow>
   (int \<times> uftrace_session_link) outcome \<times> io" where
  "read_task_loop a dirname needs_session sym_rel_addr sess w fd =
     (case read_all fd sizeof_msg of
        None \<Rightarrow> (Returned (0, sess), w)
      | Some (msg, fd1) \<Rightarrow>
          if msg_magic a msg \<noteq> FTRACE_MSG_MAGIC a then (Returned (- 1, sess), w)
          else if msg_type a msg = FTRACE_MSG_SESSION a then
            (case read_session_payload a fd1 of
               None \<Rightarrow> (Returned (- 1, sess), w)
             | Some (smsg, buf, fd2) \<Rightarrow>
                 read_task_loop a dirname needs_session sym_rel_addr
                   (if needs_session then create_session sess smsg dirname buf sym_rel_addr
                    else sess) w fd2)
          else if msg_type a msg = FTRACE_MSG_TID a then
            (case read_all fd1 (sizeof_tmsg a) of
               None \<Rightarrow> (Returned (- 1, sess), w)
             | Some (raw, fd2) \<Rightarrow>
                 read_task_loop a dirname needs_session sym_rel_addr
                   (create_task sess (decode_tmsg a raw) False needs_session) w fd2)
          else if msg_type a msg = FTRACE_MSG_FORK_END a then
            (case read_all fd1 (sizeof_tmsg a) of
               None \<Rightarrow> (Returned (- 1, sess), w)
             | Some (raw, fd2) \<Rightarrow>
                 read_task_loop a dirname needs_session sym_rel_addr
                   (create_task sess (decode_tmsg a raw) True needs_session) w fd2)
          else (Returned (- 1, sess), emit (Log ''invalid contents in task file'') w))"
  by pat_completeness auto
termination
  by (relation "measure (\<lambda>(a, dirname, needs_session, sym_rel_addr, sess, w, fd). length fd)")
     (auto simp: read_all_def read_session_payload_def sizeof_msg_def Let_def
           split: if_splits option.splits)

declare read_task_loop.simps [simp del]

text \<open>The file system as the functions see it: what opening a path for reading gives
  (the content, or \<open>errno\<close>), and whether opening it for append fails.\<close>

record filesystem =
  files :: "string \<Rightarrow> errno + string"
  append_error :: "string \<Rightarrow> errno option"

text \<open>\<open>snprintf(buf, sizeof(buf), ...)\<close>: at most \<open>sizeof(buf) - 1\<close> characters are stored.\<close>

definition snprintf :: "nat \<Rightarrow> string \<Rightarrow> string" where
  "snprintf sz s = take (sz - 1) s"

definition read_task_file ::
  "abi \<Rightarrow> filesystem \<Rightarrow> uftrace_session_link \<Rightarrow> string \<Rightarrow> bool \<Rightarrow> bool \<Rightarrow> io \<Rightarrow>
   (int \<times> uftrace_session_link) outcome \<times> io" where
  "read_task_file a fs sess dirname needs_session sym_rel_addr w =
     (let buf = snprintf 1024 (dirname @ ''/task'');
          w1 = note_open buf w
      in case files fs buf of
           Inl e \<Rightarrow> (Returned (- 1, sess), w1)
         | Inr fd \<Rightarrow> read_task_loop a dirname needs_session sym_rel_addr sess w1 fd)"

subsection \<open>The C library's text functions\<close>

text \<open>\<open>isspace\<close>, \<open>isdigit\<close> and \<open>isxdigit\<close> in the C locale.\<close>

definition isspace :: "char \<Rightarrow> bool" where
  "isspace c = (let n = (of_char c :: nat) in n = 32 \<or> (9 \<le> n \<and> n \<le> 13))"

definition isdigit :: "char \<Rightarrow> bool" where
  "isdigit c = (let n = (of_char c :: nat) in 48 \<le> n \<and> n \<le> 57)"

definition isxdigit :: "char \<Rightarrow> bool" where
  "isxdigit c = (let n = (of_char c :: nat) in
     (48 \<le> n \<and> n \<le> 57) \<or> (97 \<le> n \<and> n \<le> 102) \<or> (65 \<le> n \<and> n \<le> 70))"

definition digit_val :: "char \<Rightarrow> nat" where
  "digit_val c = (let n = (of_char c :: nat) in
     if 97 \<le> n then n - 87 else if 65 \<le> n then n - 55 else n - 48)"

definition digits_value :: "nat \<Rightarrow> string \<Rightarrow> nat" where
  "digits_value base ds = foldl (\<lambda>acc c. base * acc + digit_val c) 0 ds"

text \<open>What \<open>strtoul\<close> and \<open>strtol\<close> make of a sign and the value of the digits (64-bit
  \<open>long\<close>): out of range gives \<open>ULONG_MAX\<close>, \<open>LONG_MAX\<close> or \<open>LONG_MIN\<close>; a negated unsigned
  value wraps.\<close>

definition strtoul_value :: "bool \<Rightarrow> nat \<Rightarrow> u64" where
  "strtoul_value neg n =
     (if 2 ^ 64 \<le> n then - 1 else if neg then - of_nat n else of_nat n)"

definition strtol_value :: "bool \<Rightarrow> nat \<Rightarrow> int" where
  "strtol_value neg n =
     (if neg then (if 2 ^ 63 < n then - (2 ^ 63) else - int n)
      else (if 2 ^ 63 \<le> n then 2 ^ 63 - 1 else int n))"

definition scan_sign :: "string \<Rightarrow> bool \<times> string" where
  "scan_sign s =
     (case s of
        [] \<Rightarrow> (False, [])
      | c # cs \<Rightarrow> if c = CHR ''-'' then (True, cs) else if c = CHR ''+'' then (False, cs)
                 else (False, s))"

text \<open>The conversions of \<open>sscanf\<close> that the file uses. Each one gives the converted value
  and the rest of the input, or fails. \<open>%lu\<close>, \<open>%d\<close>, \<open>%lx\<close> and \<open>%s\<close> skip white space
  first; \<open>%d\<close> stores the \<open>long\<close> it read into an \<open>int\<close>.\<close>

definition scan_lu :: "string \<Rightarrow> (u64 \<times> string) option" where
  "scan_lu s =
     (let (neg, s1) = scan_sign (dropWhile isspace s);
          ds = takeWhile isdigit s1
      in if ds = [] then None
         else Some (strtoul_value neg (digits_value 10 ds), dropWhile isdigit s1))"

definition scan_d :: "string \<Rightarrow> (u32 \<times> string) option" where
  "scan_d s =
     (let (neg, s1) = scan_sign (dropWhile isspace s);
          ds = takeWhile isdigit s1
      in if ds = [] then None
         else Some (word_of_int (strtol_value neg (digits_value 10 ds)), dropWhile isdigit s1))"

definition strip_0x :: "string \<Rightarrow> string" where
  "strip_0x s =
     (case s of
        c # x # r \<Rightarrow> if c = CHR ''0'' \<and> (x = CHR ''x'' \<or> x = CHR ''X'') then c # r else s
      | _ \<Rightarrow> s)"

definition scan_lx :: "string \<Rightarrow> (u64 \<times> string) option" where
  "scan_lx s =
     (let (neg, s1) = scan_sign (dropWhile isspace s);
          s2 = strip_0x s1;
          ds = takeWhile isxdigit s2
      in if ds = [] then None
         else Some (strtoul_value neg (digits_value 16 ds), dropWhile isxdigit s2))"

definition scan_s :: "string \<Rightarrow> (string \<times> string) option" where
  "scan_s s =
     (let s1 = dropWhile isspace s;
          tok = takeWhile (\<lambda>c. \<not> isspace c) s1
      in if tok = [] then None else Some (tok, dropWhile (\<lambda>c. \<not> isspace c) s1))"

text \<open>A format is a list of directives; \<open>sscanf\<close> gives the values converted before the
  first directive that fails, in order. \<open>Skip_not c\<close> is \<open>%*[^c]\<close>, which assigns nothing.\<close>

datatype directive = Lit char | Space | Conv_lu | Conv_d | Conv_lx | Conv_s | Skip_not char

datatype conv = C_ulong u64 | C_int u32 | C_str string

fun sscanf :: "string \<Rightarrow> directive list \<Rightarrow> conv list" where
  "sscanf s [] = []"
| "sscanf s (Lit c # ds) =
     (case s of [] \<Rightarrow> [] | x # xs \<Rightarrow> if x = c then sscanf xs ds else [])"
| "sscanf s (Space # ds) = sscanf (dropWhile isspace s) ds"
| "sscanf s (Conv_lu # ds) =
     (case scan_lu s of None \<Rightarrow> [] | Some (v, r) \<Rightarrow> C_ulong v # sscanf r ds)"
| "sscanf s (Conv_d # ds) =
     (case scan_d s of None \<Rightarrow> [] | Some (v, r) \<Rightarrow> C_int v # sscanf r ds)"
| "sscanf s (Conv_lx # ds) =
     (case scan_lx s of None \<Rightarrow> [] | Some (v, r) \<Rightarrow> C_ulong v # sscanf r ds)"
| "sscanf s (Conv_s # ds) =
     (case scan_s s of None \<Rightarrow> [] | Some (v, r) \<Rightarrow> C_str v # sscanf r ds)"
| "sscanf s (Skip_not c # ds) =
     (if takeWhile (\<lambda>x. x \<noteq> c) s = [] then [] else sscanf (dropWhile (\<lambda>x. x \<noteq> c) s) ds)"

text \<open>The pointer arguments of \<open>sscanf\<close>: the \<open>i\<close>-th converted value goes through the
  \<open>i\<close>-th setter; a variable whose conversion was not reached keeps its value.\<close>

fun assign :: "('s \<Rightarrow> conv \<Rightarrow> 's) list \<Rightarrow> conv list \<Rightarrow> 's \<Rightarrow> 's" where
  "assign (f # fs) (v # vs) st = assign fs vs (f st v)"
| "assign _ _ st = st"

text \<open>Strings in memory. A pointer into a buffer is the list of the bytes from its target
  on, and the string it points to ends before the first NUL. What lies after the end of
  the list is not modelled: a string that reaches the end of the list ends there.\<close>

definition cstr :: "string \<Rightarrow> string" where
  "cstr s = takeWhile (\<lambda>c. c \<noteq> CHR 0x00) s"

text \<open>Bytes stored at the start of a buffer: the bytes behind them stay as they were.\<close>

definition store :: "string \<Rightarrow> string \<Rightarrow> string" where
  "store buf bs = bs @ drop (length bs) buf"

text \<open>\<open>strstr\<close>: a pointer to the first occurrence of \<open>needle\<close> in the string, or \<open>NULL\<close>.\<close>

fun strstr :: "string \<Rightarrow> string \<Rightarrow> string option" where
  "strstr [] needle = (if needle = [] then Some [] else None)"
| "strstr (c # cs) needle =
     (if take (length needle) (cstr (c # cs)) = needle then Some (c # cs)
      else if c = CHR 0x00 then None
      else strstr cs needle)"

text \<open>\<open>pos = strrchr(s, '"'); if (pos) *pos = '\0';\<close>: the string \<open>s\<close> cut at its last
  double quote.\<close>

definition cut_last_quote :: "string \<Rightarrow> string" where
  "cut_last_quote s =
     (if CHR 0x22 \<in> set s then rev (tl (dropWhile (\<lambda>c. c \<noteq> CHR 0x22) (rev s))) else s)"

text \<open>The same statements seen from the buffer: the string starts \<open>off\<close> bytes into \<open>line\<close>,
  and the byte of its last double quote becomes NUL.\<close>

definition cut_in_buffer :: "string \<Rightarrow> nat \<Rightarrow> string" where
  "cut_in_buffer line off =
     (let s = cstr (drop off line)
      in if CHR 0x22 \<in> set s then line[off + length (cut_last_quote s) := CHR 0x00] else line)"

text \<open>\<open>getline\<close> stores the line and a NUL at the start of its buffer, which it makes longer
  when the line needs it; the bytes of the buffer behind them are those of earlier lines.\<close>

definition getline :: "string \<Rightarrow> string \<Rightarrow> string" where
  "getline buf ln = store buf (ln @ [CHR 0x00])"

text \<open>\<open>getline\<close> until it fails: the lines of the content, each with its newline, and a
  last line without one when the content does not end in a newline.\<close>

fun getlines :: "string \<Rightarrow> string \<Rightarrow> string list" where
  "getlines acc [] = (if acc = [] then [] else [rev acc])"
| "getlines acc (c # cs) =
     (if c = CHR 0x0A then rev (c # acc) # getlines [] cs else getlines (c # acc) cs)"

text \<open>\<open>printf\<close>'s \<open>%lu\<close> (\<open>PRIu64\<close>), \<open>%09lu\<close>, \<open>%d\<close> and \<open>%lx\<close> (\<open>PRIx64\<close>).\<close>

definition digit_char :: "nat \<Rightarrow> char" where
  "digit_char d = (if d < 10 then char_of (48 + d) else char_of (87 + d))"

fun digits :: "nat \<Rightarrow> nat \<Rightarrow> string" where
  "digits base n =
     (if base < 2 \<or> n < base then [digit_char n]
      else digits base (n div base) @ [digit_char (n mod base)])"

declare digits.simps [simp del]

definition print_lu :: "u64 \<Rightarrow> string" where
  "print_lu v = digits 10 (unat v)"

definition print_09lu :: "u64 \<Rightarrow> string" where
  "print_09lu v = replicate (9 - length (print_lu v)) CHR ''0'' @ print_lu v"

definition print_d :: "u32 \<Rightarrow> string" where
  "print_d v =
     (if sint v < 0 then CHR ''-'' # digits 10 (nat (- sint v)) else digits 10 (nat (sint v)))"

definition print_lx :: "u64 \<Rightarrow> string" where
  "print_lx v = digits 16 (unat v)"

text \<open>The format strings of the file, read into directives.\<close>

function parse_fmt :: "string \<Rightarrow> directive list" where
  "parse_fmt s =
     (if s = [] then []
      else if isspace (hd s) then Space # parse_fmt (tl s)
      else if take 3 s = ''%lu'' then Conv_lu # parse_fmt (drop 3 s)
      else if take 3 s = ''%lx'' then Conv_lx # parse_fmt (drop 3 s)
      else if take 2 s = ''%d'' then Conv_d # parse_fmt (drop 2 s)
      else if take 2 s = ''%s'' then Conv_s # parse_fmt (drop 2 s)
      else if take 4 s = ''%*[^'' \<and> take 1 (drop 5 s) = '']''
        then Skip_not (s ! 4) # parse_fmt (drop 6 s)
      else Lit (hd s) # parse_fmt (tl s))"
  by pat_completeness auto
termination
  by (relation "measure length") auto

declare parse_fmt.simps [simp del]

subsection \<open>\<open>read_task_txt_file\<close>\<close>

text \<open>Modelled from the spec: \<open>NSEC_PER_SEC\<close> is defined in \<open>utils.h\<close>. "compose timestamp =
  sec x 10^9 + nsec".\<close>

definition NSEC_PER_SEC :: u64 where
  "NSEC_PER_SEC = 1000000000"

text \<open>The automatic variables that \<open>sscanf\<close> writes to, and the buffer of \<open>getline\<close>. The
  variables are not initialised, and a line that does not match leaves them as the lines
  before left them. \<open>l_line\<close> is the memory at \<open>line\<close>: on entry, what the memory that
  \<open>getline\<close> is going to allocate holds.\<close>

record txt_locals =
  l_sec :: u64
  l_nsec :: u64
  l_tmsg :: task_msg
  l_smsg :: sess_msg
  l_dlop :: dlopen_msg
  l_line :: string

text \<open>\<open>%s\<close> with \<open>(char *)&smsg.sid\<close> stores the token and a NUL from the start of the \<open>sid\<close>
  array. The bytes that do not fit go to the fields behind the array, \<open>unused\<close> and
  \<open>namelen\<close>, which is assigned before it is used, and after them to memory whose layout
  the file does not fix: of all these the model keeps the array.\<close>

definition store_field :: "string \<Rightarrow> string \<Rightarrow> string" where
  "store_field field tok = take (length field) (store field (tok @ [CHR 0x00]))"

fun set_sec :: "txt_locals \<Rightarrow> conv \<Rightarrow> txt_locals" where
  "set_sec l (C_ulong v) = l\<lparr>l_sec := v\<rparr>"
| "set_sec l _ = l"

fun set_nsec :: "txt_locals \<Rightarrow> conv \<Rightarrow> txt_locals" where
  "set_nsec l (C_ulong v) = l\<lparr>l_nsec := v\<rparr>"
| "set_nsec l _ = l"

fun set_tmsg_tid :: "txt_locals \<Rightarrow> conv \<Rightarrow> txt_locals" where
  "set_tmsg_tid l (C_int v) = l\<lparr>l_tmsg := (l_tmsg l)\<lparr>t_tid := v\<rparr>\<rparr>"
| "set_tmsg_tid l _ = l"

fun set_tmsg_pid :: "txt_locals \<Rightarrow> conv \<Rightarrow> txt_locals" where
  "set_tmsg_pid l (C_int v) = l\<lparr>l_tmsg := (l_tmsg l)\<lparr>t_pid := v\<rparr>\<rparr>"
| "set_tmsg_pid l _ = l"

fun set_smsg_pid :: "txt_locals \<Rightarrow> conv \<Rightarrow> txt_locals" where
  "set_smsg_pid l (C_int v) = l\<lparr>l_smsg := (l_smsg l)\<lparr>s_task := (s_task (l_smsg l))\<lparr>t_pid := v\<rparr>\<rparr>\<rparr>"
| "set_smsg_pid l _ = l"

fun set_smsg_sid :: "txt_locals \<Rightarrow> conv \<Rightarrow> txt_locals" where
  "set_smsg_sid l (C_str v) = l\<lparr>l_smsg := (l_smsg l)\<lparr>s_sid := store_field (s_sid (l_smsg l)) v\<rparr>\<rparr>"
| "set_smsg_sid l _ = l"

fun set_dlop_tid :: "txt_locals \<Rightarrow> conv \<Rightarrow> txt_locals" where
  "set_dlop_tid l (C_int v) = l\<lparr>l_dlop := (l_dlop l)\<lparr>d_task := (d_task (l_dlop l))\<lparr>t_tid := v\<rparr>\<rparr>\<rparr>"
| "set_dlop_tid l _ = l"

fun set_dlop_sid :: "txt_locals \<Rightarrow> conv \<Rightarrow> txt_locals" where
  "set_dlop_sid l (C_str v) = l\<lparr>l_dlop := (l_dlop l)\<lparr>d_sid := store_field (d_sid (l_dlop l)) v\<rparr>\<rparr>"
| "set_dlop_sid l _ = l"

fun set_dlop_base :: "txt_locals \<Rightarrow> conv \<Rightarrow> txt_locals" where
  "set_dlop_base l (C_ulong v) = l\<lparr>l_dlop := (l_dlop l)\<lparr>d_base_addr := v\<rparr>\<rparr>"
| "set_dlop_base l _ = l"

text \<open>The four \<open>sscanf\<close> calls on \<open>line + 5\<close>, the string five bytes into the buffer.\<close>

definition scan_task :: "string \<Rightarrow> txt_locals \<Rightarrow> txt_locals" where
  "scan_task line l =
     assign [set_sec, set_nsec, set_tmsg_tid, set_tmsg_pid]
       (sscanf (cstr (drop 5 line)) (parse_fmt ''timestamp=%lu.%lu tid=%d pid=%d'')) l"

definition scan_fork :: "string \<Rightarrow> txt_locals \<Rightarrow> txt_locals" where
  "scan_fork line l =
     assign [set_sec, set_nsec, set_tmsg_tid, set_tmsg_pid]
       (sscanf (cstr (drop 5 line)) (parse_fmt ''timestamp=%lu.%lu pid=%d ppid=%d'')) l"

definition scan_sess :: "string \<Rightarrow> txt_locals \<Rightarrow> txt_locals" where
  "scan_sess line l =
     assign [set_sec, set_nsec, set_smsg_pid, set_smsg_sid]
       (sscanf (cstr (drop 5 line)) (parse_fmt ''timestamp=%lu.%lu %*[^i]id=%d sid=%s'')) l"

definition scan_dlop :: "string \<Rightarrow> txt_locals \<Rightarrow> txt_locals" where
  "scan_dlop line l =
     assign [set_sec, set_nsec, set_dlop_tid, set_dlop_sid, set_dlop_base]
       (sscanf (cstr (drop 5 line)) (parse_fmt ''timestamp=%lu.%lu tid=%d sid=%s base=%lx'')) l"

text \<open>\<open>(uint64_t)sec * NSEC_PER_SEC + nsec\<close>.\<close>

definition compose_time :: "txt_locals \<Rightarrow> u64" where
  "compose_time l = l_sec l * NSEC_PER_SEC + l_nsec l"

text \<open>The branches of the loop body; \<open>line\<close> is \<open>l_line\<close> of the state. The name after a
  marker of eight characters starts nine bytes after \<open>pos\<close>, \<open>exename = pos + 8 + 1\<close>, and is
  cut at its last double quote.\<close>

definition task_line ::
  "bool \<Rightarrow> txt_locals \<times> uftrace_session_link \<Rightarrow> (txt_locals \<times> uftrace_session_link) outcome" where
  "task_line needs_session st =
     (let l1 = scan_task (l_line (fst st)) (fst st);
          l2 = l1\<lparr>l_tmsg := (l_tmsg l1)\<lparr>t_time := compose_time l1\<rparr>\<rparr>
      in Returned (l2, create_task (snd st) (l_tmsg l2) False needs_session))"

definition fork_line ::
  "bool \<Rightarrow> txt_locals \<times> uftrace_session_link \<Rightarrow> (txt_locals \<times> uftrace_session_link) outcome" where
  "fork_line needs_session st =
     (let l1 = scan_fork (l_line (fst st)) (fst st);
          l2 = l1\<lparr>l_tmsg := (l_tmsg l1)\<lparr>t_time := compose_time l1\<rparr>\<rparr>
      in Returned (l2, create_task (snd st) (l_tmsg l2) True needs_session))"

definition sess_line ::
  "string \<Rightarrow> bool \<Rightarrow> bool \<Rightarrow> txt_locals \<times> uftrace_session_link \<Rightarrow>
   (txt_locals \<times> uftrace_session_link) outcome" where
  "sess_line dirname needs_session sym_rel_addr st =
     (if \<not> needs_session then Returned st
      else
        let line = l_line (fst st);
            l1 = scan_sess line (fst st)
        in case strstr line ''exename='' of
             None \<Rightarrow> Aborted Invalid_task_txt
           | Some pos \<Rightarrow>
               let exename = cut_last_quote (cstr (drop 9 pos));
                   l2 = l1\<lparr>l_line := cut_in_buffer line (length line - length pos + 9)\<rparr>;
                   smsg = (l_smsg l2)
                     \<lparr>s_task := (s_task (l_smsg l2))
                        \<lparr>t_tid := t_pid (s_task (l_smsg l2)), t_time := compose_time l2\<rparr>,
                      s_namelen := of_nat (length exename)\<rparr>
               in Returned (l2\<lparr>l_smsg := smsg\<rparr>,
                    create_session (snd st) smsg dirname exename sym_rel_addr))"

definition dlop_line ::
  "bool \<Rightarrow> txt_locals \<times> uftrace_session_link \<Rightarrow> (txt_locals \<times> uftrace_session_link) outcome" where
  "dlop_line needs_session st =
     (if \<not> needs_session then Returned st
      else
        let line = l_line (fst st);
            l1 = scan_dlop line (fst st)
        in case strstr line ''libname='' of
             None \<Rightarrow> Aborted Invalid_task_txt
           | Some pos \<Rightarrow>
               let exename = cut_last_quote (cstr (drop 9 pos));
                   l2 = l1\<lparr>l_line := cut_in_buffer line (length line - length pos + 9)\<rparr>;
                   dlop = (l_dlop l2)
                     \<lparr>d_task := (d_task (l_dlop l2))
                        \<lparr>t_pid := t_tid (d_task (l_dlop l2)), t_time := compose_time l2\<rparr>,
                      d_namelen := of_nat (length exename)\<rparr>
               in case get_session_from_sid (snd st) (d_sid dlop) of
                    None \<Rightarrow> Aborted Assertion_failed
                  | Some s \<Rightarrow>
                      Returned (l2\<lparr>l_dlop := dlop\<rparr>,
                        session_add_dlopen (snd st) s (t_time (d_task dlop))
                          (d_base_addr dlop) exename))"

text \<open>The body of the \<open>while\<close> loop: the \<open>strncmp\<close> chain on the first four characters of
  the line.\<close>

definition process_line ::
  "string \<Rightarrow> bool \<Rightarrow> bool \<Rightarrow> txt_locals \<times> uftrace_session_link \<Rightarrow>
   (txt_locals \<times> uftrace_session_link) outcome" where
  "process_line dirname needs_session sym_rel_addr st =
     (let tag = take 4 (cstr (l_line (fst st)))
      in if tag = ''TASK'' then task_line needs_session st
         else if tag = ''FORK'' then fork_line needs_session st
         else if tag = ''SESS'' then sess_line dirname needs_session sym_rel_addr st
         else if tag = ''DLOP'' then dlop_line needs_session st
         else Returned st)"

text \<open>The loop over the lines that \<open>getline\<close> delivers.\<close>

definition got_line ::
  "txt_locals \<times> uftrace_session_link \<Rightarrow> string \<Rightarrow> txt_locals \<times> uftrace_session_link" where
  "got_line st ln = ((fst st)\<lparr>l_line := getline (l_line (fst st)) ln\<rparr>, snd st)"

fun read_lines ::
  "string \<Rightarrow> bool \<Rightarrow> bool \<Rightarrow> txt_locals \<times> uftrace_session_link \<Rightarrow> string list \<Rightarrow>
   (txt_locals \<times> uftrace_session_link) outcome" where
  "read_lines dirname needs_session sym_rel_addr st [] = Returned st"
| "read_lines dirname needs_session sym_rel_addr st (ln # rest) =
     (case process_line dirname needs_session sym_rel_addr (got_line st ln) of
        Aborted e \<Rightarrow> Aborted e
      | Returned st' \<Rightarrow> read_lines dirname needs_session sym_rel_addr st' rest)"

text \<open>\<open>read_task_txt_file\<close>; \<open>stack\<close> is what the automatic variables and the memory of
  \<open>getline\<close> hold on entry.\<close>

definition read_task_txt_file ::
  "filesystem \<Rightarrow> txt_locals \<Rightarrow> uftrace_session_link \<Rightarrow> string \<Rightarrow> bool \<Rightarrow> bool \<Rightarrow> io \<Rightarrow>
   (int \<times> uftrace_session_link) outcome \<times> io" where
  "read_task_txt_file fs stack sess dirname needs_session sym_rel_addr w =
     (let fname = dirname @ ''/'' @ ''task.txt'';
          w1 = note_open fname w
      in case files fs fname of
           Inl e \<Rightarrow> (Returned (- errno_value e, sess), w1)
         | Inr content \<Rightarrow>
             (case read_lines dirname needs_session sym_rel_addr (stack, sess)
                     (getlines [] content) of
                Aborted e \<Rightarrow> (Aborted e, w1)
              | Returned st \<Rightarrow> (Returned (0, snd st), w1)))"

subsection \<open>The writers\<close>

definition snprint_timestamp :: "nat \<Rightarrow> u64 \<Rightarrow> string" where
  "snprint_timestamp sz timestamp =
     snprintf sz (print_lu (timestamp div NSEC_PER_SEC) @ ''.'' @
                  print_09lu (timestamp mod NSEC_PER_SEC))"

text \<open>\<open>fopen(fname, "a")\<close>, \<open>fprintf\<close>, \<open>fclose\<close>: the line is added at the end of the file,
  which is created when it was not there.\<close>

definition append_file :: "filesystem \<Rightarrow> string \<Rightarrow> string \<Rightarrow> filesystem outcome" where
  "append_file fs fname line =
     (case append_error fs fname of
        Some e \<Rightarrow> Aborted (Cannot_open_file fname)
      | None \<Rightarrow>
          Returned (fs\<lparr>files := (files fs)(fname :=
            (case files fs fname of
               Inr content \<Rightarrow> Inr (content @ line)
             | Inl e \<Rightarrow> if e = ENOENT then Inr line else Inl e))\<rparr>))"

definition write_task_info :: "filesystem \<Rightarrow> string \<Rightarrow> task_msg \<Rightarrow> filesystem outcome" where
  "write_task_info fs dirname tmsg =
     append_file fs (dirname @ ''/'' @ ''task.txt'')
       (''TASK timestamp='' @ snprint_timestamp 128 (t_time tmsg) @
        '' tid='' @ print_d (t_tid tmsg) @ '' pid='' @ print_d (t_pid tmsg) @ [CHR 0x0A])"

definition write_fork_info :: "filesystem \<Rightarrow> string \<Rightarrow> task_msg \<Rightarrow> filesystem outcome" where
  "write_fork_info fs dirname tmsg =
     append_file fs (dirname @ ''/'' @ ''task.txt'')
       (''FORK timestamp='' @ snprint_timestamp 128 (t_time tmsg) @
        '' pid='' @ print_d (t_tid tmsg) @ '' ppid='' @ print_d (t_pid tmsg) @ [CHR 0x0A])"

definition write_session_info ::
  "filesystem \<Rightarrow> string \<Rightarrow> sess_msg \<Rightarrow> string \<Rightarrow> filesystem outcome" where
  "write_session_info fs dirname smsg exename =
     append_file fs (dirname @ ''/'' @ ''task.txt'')
       (''SESS timestamp='' @ snprint_timestamp 128 (t_time (s_task smsg)) @
        '' pid='' @ print_d (t_pid (s_task smsg)) @ '' sid='' @ s_sid smsg @
        '' exename='' @ [CHR 0x22] @ exename @ [CHR 0x22, CHR 0x0A])"

definition write_dlopen_info ::
  "filesystem \<Rightarrow> string \<Rightarrow> dlopen_msg \<Rightarrow> string \<Rightarrow> filesystem outcome" where
  "write_dlopen_info fs dirname dmsg libname =
     append_file fs (dirname @ ''/'' @ ''task.txt'')
       (''DLOP timestamp='' @ snprint_timestamp 128 (t_time (d_task dmsg)) @
        '' tid='' @ print_d (t_tid (d_task dmsg)) @ '' sid='' @ d_sid dmsg @
        '' base='' @ print_lx (d_base_addr dmsg) @
        '' libname='' @ [CHR 0x22] @ libname @ [CHR 0x22, CHR 0x0A])"

subsection \<open>\<open>open_data_file\<close>\<close>

text \<open>The fields of \<open>struct ftrace_file_header\<close> that the file reads or writes, of
  \<open>struct opts\<close> and of \<open>struct ftrace_file_handle\<close>. The widths of the header fields are
  those of the \<open>bswap\<close> calls. \<open>hd_fstack_args\<close> and \<open>k_symbols\<close> record the calls of
  \<open>setup_fstack_args\<close> and \<open>load_kernel_symbol\<close>.\<close>

record file_header =
  h_magic :: string
  h_version :: u32
  h_endian :: "8 word"
  h_feat_mask :: u64
  h_info_mask :: u64
  h_max_stack :: u16

record ftrace_info =
  i_exename :: "string option"
  i_argspec :: "string option"

record kernel_data =
  k_pevent :: "nat option"
  k_output_dir :: "string option"
  k_skip_out :: bool
  k_symbols :: "string option"

record opts =
  o_dirname :: string
  o_exename :: "string option"
  o_depth :: int
  o_threshold :: u64
  o_range :: "u64 \<times> u64"
  o_kernel_skip_out :: bool

record handle =
  hd_dirname :: string
  hd_depth :: int
  hd_nr_tasks :: int
  hd_tasks :: "nat list"
  hd_time_filter :: u64
  hd_time_range :: "u64 \<times> u64"
  hd_sessions :: uftrace_session_link
  hd_kernel :: kernel_data
  hd_hdr :: file_header
  hd_needs_byte_swap :: bool
  hd_needs_bit_swap :: bool
  hd_info :: ftrace_info
  hd_fstack_args :: "string option option"

text \<open>The header's layout in the file, from \<open>uftrace.h\<close>: the size of the struct and what
  \<open>fread\<close> leaves in its fields on this machine.\<close>

record header_layout =
  sizeof_hdr :: nat
  decode_hdr :: "string \<Rightarrow> file_header"

text \<open>The machine that reads. Modelled from the spec: \<open>get_elf_endian\<close> (utils.h) gives
  "the running machine's endianness" as the header's tag encodes it. "Compilers may pack
  bitfields most-significant-bit-first or least-significant-bit-first".\<close>

datatype bit_order = Lsb_first | Msb_first

record machine =
  get_elf_endian :: "8 word"
  bitfield_order :: bit_order

text \<open>The collaborators in other files, as far as \<open>open_data_file\<close> looks at them:
  \<open>read_ftrace_info\<close> reads the rest of the \<open>info\<close> file under the info mask and gives its
  return value and \<open>handle->info\<close>; \<open>setup_kernel_data\<close> gives its return value.\<close>

record externals =
  read_ftrace_info :: "u64 \<Rightarrow> string \<Rightarrow> int \<times> ftrace_info"
  setup_kernel_data :: "kernel_data \<Rightarrow> int"

text \<open>Modelled from the spec: \<open>struct uftrace_record\<close> is declared in \<open>uftrace.h\<close>. "A short
  magic tag occupies a known bit range within the second word": bits 3 to 5, as the comment
  in \<open>check_data_order\<close> says, when the compiler fills a storage unit from the least
  significant bit. Three bits come before the field, so a compiler that fills from the most
  significant bit puts it at bits 58 to 60. \<open>data.s.magic\<close> is that field of \<open>data.d[1]\<close>.\<close>

fun record_magic :: "bit_order \<Rightarrow> u64 \<Rightarrow> u64" where
  "record_magic Lsb_first d1 = take_bit 3 (drop_bit 3 d1)"
| "record_magic Msb_first d1 = take_bit 3 (drop_bit 58 d1)"

definition check_data_order :: "abi \<Rightarrow> machine \<Rightarrow> handle \<Rightarrow> handle" where
  "check_data_order a m handle =
     (let h1 = handle\<lparr>hd_needs_byte_swap := (get_elf_endian m \<noteq> h_endian (hd_hdr handle))\<rparr>;
          d1 = push_bit 3 (RECORD_MAGIC a)
      in h1\<lparr>hd_needs_bit_swap := (record_magic (bitfield_order m) d1 \<noteq> RECORD_MAGIC a)\<rparr>)"

text \<open>\<open>PATH_MAX\<close> of \<open>limits.h\<close> and the path of the header file.\<close>

definition PATH_MAX :: nat where
  "PATH_MAX = 4096"

definition info_path :: "string \<Rightarrow> string" where
  "info_path dirname = snprintf PATH_MAX (dirname @ ''/info'')"

text \<open>From \<open>retry:\<close> to the end of the \<open>if (fp == NULL)\<close> block. \<open>Returned None\<close> is
  \<open>goto out\<close>; otherwise the result is the open file and \<open>again\<close>.\<close>

function fopen_info ::
  "abi \<Rightarrow> filesystem \<Rightarrow> opts \<Rightarrow> string \<Rightarrow> bool \<Rightarrow> io \<Rightarrow> (string \<times> bool) option outcome \<times> io" where
  "fopen_info a fs opts buf again w =
     (case files fs buf of
        Inr fp \<Rightarrow> (Returned (Some (fp, again)), note_open buf w)
      | Inl e \<Rightarrow>
          let w1 = note_open buf w;
              buf1 = (if again then info_path (o_dirname opts) else buf)
          in if e = ENOENT then
               (if \<not> again \<and> o_dirname opts = UFTRACE_DIR_NAME a
                then fopen_info a fs opts (info_path (UFTRACE_DIR_OLD_NAME a)) True w1
                else
                  let w2 = emit (Log (''cannot find '' @ buf1 @ '' file!'')) w1
                  in case o_exename opts of
                       Some exename \<Rightarrow> (Aborted (Not_recorded exename), w2)
                     | None \<Rightarrow> (Returned None, w2))
             else (Aborted (Cannot_open_file buf1), w1))"
  by pat_completeness auto
termination
  by (relation "measure (\<lambda>(a, fs, opts, buf, again, w). if again then 0 else 1)") auto

declare fopen_info.simps [simp del]

text \<open>The assignments to the handle after the file is open.\<close>

definition init_handle :: "opts \<Rightarrow> handle \<Rightarrow> handle" where
  "init_handle opts handle =
     handle\<lparr>hd_dirname := o_dirname opts, hd_depth := o_depth opts, hd_nr_tasks := 0,
            hd_tasks := [], hd_time_filter := o_threshold opts, hd_time_range := o_range opts,
            hd_sessions := empty_link,
            hd_kernel := (hd_kernel handle)\<lparr>k_pevent := None\<rparr>\<rparr>"

text \<open>\<open>fread\<close> of the header, which gives the header as the file has it, and the \<open>memcmp\<close>
  with the magic string; the result is the handle and the rest of the stream.\<close>

definition fread_header :: "header_layout \<Rightarrow> string \<Rightarrow> file_header" where
  "fread_header lay fp = decode_hdr lay (take (sizeof_hdr lay) fp)"

definition read_header ::
  "abi \<Rightarrow> header_layout \<Rightarrow> string \<Rightarrow> handle \<Rightarrow> (handle \<times> string) outcome" where
  "read_header a lay fp handle =
     (if length fp < sizeof_hdr lay then Aborted Cannot_read_header
      else
        let h1 = handle\<lparr>hd_hdr := fread_header lay fp\<rparr>
        in if h_magic (hd_hdr h1) \<noteq> UFTRACE_MAGIC_STR a then Aborted Invalid_magic
           else Returned (h1, drop (sizeof_hdr lay) fp))"

text \<open>The \<open>if (handle->needs_byte_swap)\<close> block.\<close>

definition swap_header :: "handle \<Rightarrow> handle" where
  "swap_header handle =
     (if hd_needs_byte_swap handle then
        handle\<lparr>hd_hdr := (hd_hdr handle)
          \<lparr>h_version := bswap_32 (h_version (hd_hdr handle)),
           h_feat_mask := bswap_64 (h_feat_mask (hd_hdr handle)),
           h_info_mask := bswap_64 (h_info_mask (hd_hdr handle)),
           h_max_stack := bswap_16 (h_max_stack (hd_hdr handle))\<rparr>\<rparr>
      else handle)"

definition check_version :: "abi \<Rightarrow> handle \<Rightarrow> unit outcome" where
  "check_version a handle =
     (if h_version (hd_hdr handle) < UFTRACE_FILE_VERSION_MIN a \<or>
         h_version (hd_hdr handle) > UFTRACE_FILE_VERSION a
      then Aborted (Unsupported_version (h_version (hd_hdr handle)))
      else Returned ())"

text \<open>The \<open>if (handle->hdr.feat_mask & TASK_SESSION)\<close> block: \<open>task.txt\<close> first, then the
  old \<open>task\<close> file, then the warning.\<close>

definition load_sessions ::
  "abi \<Rightarrow> filesystem \<Rightarrow> txt_locals \<Rightarrow> opts \<Rightarrow> handle \<Rightarrow> io \<Rightarrow> handle outcome \<times> io" where
  "load_sessions a fs stack opts handle w =
     (if h_feat_mask (hd_hdr handle) AND TASK_SESSION a \<noteq> 0 then
        let sym_rel = (h_feat_mask (hd_hdr handle) AND SYM_REL_ADDR a \<noteq> 0)
        in case read_task_txt_file fs stack (hd_sessions handle) (o_dirname opts) True sym_rel w of
             (Aborted e, w1) \<Rightarrow> (Aborted e, w1)
           | (Returned (r1, sess1), w1) \<Rightarrow>
               if r1 < 0 then
                 (case read_task_file a fs sess1 (o_dirname opts) True sym_rel w1 of
                    (Aborted e, w2) \<Rightarrow> (Aborted e, w2)
                  | (Returned (r2, sess2), w2) \<Rightarrow>
                      (Returned (handle\<lparr>hd_sessions := sess2\<rparr>),
                       if r2 < 0 then emit (Warn ''invalid task file'') w2 else w2))
               else (Returned (handle\<lparr>hd_sessions := sess1\<rparr>), w1)
      else (Returned handle, w))"

text \<open>From \<open>setup_fstack_args\<close> to \<open>ret = 0\<close>.\<close>

definition finish_open :: "abi \<Rightarrow> externals \<Rightarrow> opts \<Rightarrow> handle \<Rightarrow> handle" where
  "finish_open a ext opts handle =
     (let feat = h_feat_mask (hd_hdr handle);
          h1 = (if feat AND (ARGUMENT a OR RETVAL a) \<noteq> 0
                then handle\<lparr>hd_fstack_args := Some (i_argspec (hd_info handle))\<rparr> else handle);
          h2 = (if feat AND MAX_STACK a = 0
                then h1\<lparr>hd_hdr := (hd_hdr h1)\<lparr>h_max_stack := MCOUNT_RSTACK_MAX a\<rparr>\<rparr> else h1)
      in if feat AND KERNEL a \<noteq> 0 then
           let k1 = (hd_kernel h2)\<lparr>k_output_dir := Some (o_dirname opts),
                                    k_skip_out := o_kernel_skip_out opts\<rparr>
           in h2\<lparr>hd_kernel := (if setup_kernel_data ext k1 = 0
                                then k1\<lparr>k_symbols := Some (o_dirname opts)\<rparr> else k1)\<rparr>
         else h2)"

text \<open>From \<open>if (again)\<close> to the assignment of \<open>opts->exename\<close>: the header is read,
  normalised and checked, and \<open>read_ftrace_info\<close> has filled \<open>handle->info\<close>. The result is
  \<open>opts\<close> and the handle as they are before the task files are read.\<close>

definition open_header ::
  "abi \<Rightarrow> header_layout \<Rightarrow> machine \<Rightarrow> externals \<Rightarrow> opts \<Rightarrow> handle \<Rightarrow> string \<Rightarrow> bool \<Rightarrow>
   (opts \<times> handle) outcome" where
  "open_header a lay m ext opts handle fp again =
     (let opts1 = (if again then opts\<lparr>o_dirname := UFTRACE_DIR_OLD_NAME a\<rparr> else opts)
      in case read_header a lay fp (init_handle opts1 handle) of
           Aborted e \<Rightarrow> Aborted e
         | Returned (h1, rest) \<Rightarrow>
             let h2 = swap_header (check_data_order a m h1)
             in case check_version a h2 of
                  Aborted e \<Rightarrow> Aborted e
                | Returned _ \<Rightarrow>
                    let (r, info) = read_ftrace_info ext (h_info_mask (hd_hdr h2)) rest
                    in if r < 0 then Aborted Cannot_read_info
                       else Returned
                         (if o_exename opts1 = None
                          then opts1\<lparr>o_exename := i_exename info\<rparr> else opts1,
                          h2\<lparr>hd_info := info\<rparr>))"

text \<open>\<open>open_data_file\<close> with the header file open: the return value with the caller's
  \<open>opts\<close> and \<open>handle\<close> as the function leaves them.\<close>

definition open_data_file_opened ::
  "abi \<Rightarrow> header_layout \<Rightarrow> machine \<Rightarrow> externals \<Rightarrow> filesystem \<Rightarrow> txt_locals \<Rightarrow>
   opts \<Rightarrow> handle \<Rightarrow> string \<Rightarrow> bool \<Rightarrow> io \<Rightarrow> (int \<times> opts \<times> handle) outcome \<times> io" where
  "open_data_file_opened a lay m ext fs stack opts handle fp again w1 =
     (case open_header a lay m ext opts handle fp again of
        Aborted e \<Rightarrow> (Aborted e, w1)
      | Returned (opts2, h3) \<Rightarrow>
          (case load_sessions a fs stack opts2 h3 w1 of
             (Aborted e, w2) \<Rightarrow> (Aborted e, w2)
           | (Returned h4, w2) \<Rightarrow> (Returned (0, opts2, finish_open a ext opts2 h4), w2)))"

text \<open>\<open>open_data_file\<close>. \<open>stack\<close> is what the automatic variables of \<open>read_task_txt_file\<close>
  hold on entry.\<close>

definition open_data_file ::
  "abi \<Rightarrow> header_layout \<Rightarrow> machine \<Rightarrow> externals \<Rightarrow> filesystem \<Rightarrow> txt_locals \<Rightarrow>
   opts \<Rightarrow> handle \<Rightarrow> io \<Rightarrow> (int \<times> opts \<times> handle) outcome \<times> io" where
  "open_data_file a lay m ext fs stack opts handle w =
     (case fopen_info a fs opts (info_path (o_dirname opts)) False w of
        (Aborted e, w1) \<Rightarrow> (Aborted e, w1)
      | (Returned None, w1) \<Rightarrow> (Returned (- 1, opts, handle), w1)
      | (Returned (Some (fp, again)), w1) \<Rightarrow>
          open_data_file_opened a lay m ext fs stack opts handle fp again w1)"

subsection \<open>The old \<open>task\<close> file, message by message\<close>

text \<open>The sizes that the \<open>SESSION\<close> case hands to \<open>read_all\<close> for the name and the padding,
  as functions of \<open>smsg.namelen\<close>: \<open>(size_t)namelen\<close>, and \<open>8 - (namelen % 8)\<close> when
  \<open>namelen % 8\<close> is not 0, in C's arithmetic.\<close>

definition name_size :: "u32 \<Rightarrow> nat" where
  "name_size n = to_size_t (sint n)"

definition pad_size :: "u32 \<Rightarrow> nat" where
  "pad_size n = (if c_rem (sint n) 8 \<noteq> 0 then to_size_t (8 - c_rem (sint n) 8) else 0)"

text \<open>The padding that follows a name of \<open>n\<close> bytes, in the spec's words: \<open>8 - (namelen mod 8)\<close>
  bytes when \<open>namelen\<close> is not a multiple of 8, none when it is.\<close>

definition pad_len :: "int \<Rightarrow> nat" where
  "pad_len n = (if n mod 8 = 0 then 0 else 8 - nat (n mod 8))"

text \<open>A message of the file: the envelope and the payload, and for a \<open>SESSION\<close> message the
  name and the padding. A message is whole when the envelope has eight bytes, the magic
  and the type of its kind, and every part has the size that the loop reads.\<close>

datatype legacy_message =
    Session_message string string string string
  | Tid_message string string
  | Fork_end_message string string

fun message_bytes :: "legacy_message \<Rightarrow> string" where
  "message_bytes (Session_message env raw name pad) = env @ raw @ name @ pad"
| "message_bytes (Tid_message env raw) = env @ raw"
| "message_bytes (Fork_end_message env raw) = env @ raw"

fun whole_message :: "abi \<Rightarrow> legacy_message \<Rightarrow> bool" where
  "whole_message a (Session_message env raw name pad) \<longleftrightarrow>
     length env = sizeof_msg \<and> msg_magic a env = FTRACE_MSG_MAGIC a \<and>
     msg_type a env = FTRACE_MSG_SESSION a \<and> length raw = sizeof_smsg a \<and>
     length name = name_size (s_namelen (decode_smsg a raw)) \<and>
     length pad = pad_size (s_namelen (decode_smsg a raw))"
| "whole_message a (Tid_message env raw) \<longleftrightarrow>
     length env = sizeof_msg \<and> msg_magic a env = FTRACE_MSG_MAGIC a \<and>
     msg_type a env = FTRACE_MSG_TID a \<and> length raw = sizeof_tmsg a"
| "whole_message a (Fork_end_message env raw) \<longleftrightarrow>
     length env = sizeof_msg \<and> msg_magic a env = FTRACE_MSG_MAGIC a \<and>
     msg_type a env = FTRACE_MSG_FORK_END a \<and> length raw = sizeof_tmsg a"

text \<open>What a message does to the registry, in the spec's words: a \<open>SESSION\<close> message emits
  a Session event "only if session reconstruction was requested by the caller", a \<open>TID\<close>
  message emits NewTask, a \<open>FORK_END\<close> message emits ForkEnd.\<close>

fun apply_message ::
  "abi \<Rightarrow> string \<Rightarrow> bool \<Rightarrow> bool \<Rightarrow> uftrace_session_link \<Rightarrow> legacy_message \<Rightarrow>
   uftrace_session_link" where
  "apply_message a dirname needs_session sym_rel_addr sess (Session_message env raw name pad) =
     (if needs_session then create_session sess (decode_smsg a raw) dirname name sym_rel_addr
      else sess)"
| "apply_message a dirname needs_session sym_rel_addr sess (Tid_message env raw) =
     create_task sess (decode_tmsg a raw) False needs_session"
| "apply_message a dirname needs_session sym_rel_addr sess (Fork_end_message env raw) =
     create_task sess (decode_tmsg a raw) True needs_session"

text \<open>The ways in which what is left of the file, \<open>t\<close>, does not begin with a whole message:
  fewer bytes than an envelope; an envelope with another magic; an envelope with the magic
  and a type that is none of the three; an envelope with the magic and one of the three
  types, and fewer bytes behind it than the payload of that type.\<close>

definition envelope_short :: "string \<Rightarrow> bool" where
  "envelope_short t \<longleftrightarrow> length t < sizeof_msg"

definition bad_magic :: "abi \<Rightarrow> string \<Rightarrow> bool" where
  "bad_magic a t \<longleftrightarrow>
     sizeof_msg \<le> length t \<and> msg_magic a (take sizeof_msg t) \<noteq> FTRACE_MSG_MAGIC a"

definition bad_type :: "abi \<Rightarrow> string \<Rightarrow> bool" where
  "bad_type a t \<longleftrightarrow>
     sizeof_msg \<le> length t \<and> msg_magic a (take sizeof_msg t) = FTRACE_MSG_MAGIC a \<and>
     msg_type a (take sizeof_msg t) \<notin>
       {FTRACE_MSG_SESSION a, FTRACE_MSG_TID a, FTRACE_MSG_FORK_END a}"

definition payload_short :: "abi \<Rightarrow> string \<Rightarrow> bool" where
  "payload_short a t \<longleftrightarrow>
     sizeof_msg \<le> length t \<and> msg_magic a (take sizeof_msg t) = FTRACE_MSG_MAGIC a \<and>
     (let ty = msg_type a (take sizeof_msg t); body = drop sizeof_msg t
      in (ty = FTRACE_MSG_SESSION a \<and>
            (length body < sizeof_smsg a \<or>
             length body < sizeof_smsg a +
               name_size (s_namelen (decode_smsg a (take (sizeof_smsg a) body))) +
               pad_size (s_namelen (decode_smsg a (take (sizeof_smsg a) body))))) \<or>
         (ty \<in> {FTRACE_MSG_TID a, FTRACE_MSG_FORK_END a} \<and> length body < sizeof_tmsg a))"

subsection \<open>\<open>task.txt\<close>, line by line\<close>

text \<open>The session id of a \<open>DLOP\<close> line: what \<open>sscanf\<close> on the line that the state holds leaves
  in \<open>dlop.sid\<close>. The two ways in which a line ends the process, as conditions on the state
  that holds the line: a \<open>SESS\<close> line without \<open>exename=\<close> or a \<open>DLOP\<close> line without
  \<open>libname=\<close>; a \<open>DLOP\<close> line with \<open>libname=\<close> whose session id is the id of no session of the
  registry.\<close>

definition dlop_line_sid :: "txt_locals \<times> uftrace_session_link \<Rightarrow> string" where
  "dlop_line_sid st = d_sid (l_dlop (scan_dlop (l_line (fst st)) (fst st)))"



text \<open>The state holds a \<open>SESS\<close> line, and \<open>sscanf\<close> on it leaves \<open>sid\<close> in \<open>smsg.sid\<close>.\<close>

definition sess_line_sid :: "txt_locals \<times> uftrace_session_link \<Rightarrow> string \<Rightarrow> bool" where
  "sess_line_sid st sid \<longleftrightarrow>
     take 4 (cstr (l_line (fst st))) = ''SESS'' \<and>
     s_sid (l_smsg (scan_sess (l_line (fst st)) (fst st))) = sid"

subsection \<open>An instance of the parameters\<close>

text \<open>Concrete values for the declarations that the functions take as parameters, to run
  the model on concrete files: little-endian fields at fixed offsets, an envelope of two
  16-bit fields and a length, a task payload of 16 bytes, a session payload of 40 bytes
  and a header of 40 bytes.\<close>

definition le_nat :: "string \<Rightarrow> nat" where
  "le_nat s = foldr (\<lambda>c n. of_char c + 256 * n) s 0"

fun le_bytes :: "nat \<Rightarrow> nat \<Rightarrow> string" where
  "le_bytes 0 n = []"
| "le_bytes (Suc k) n = char_of (n mod 256) # le_bytes k (n div 256)"

definition field :: "nat \<Rightarrow> nat \<Rightarrow> string \<Rightarrow> nat" where
  "field off len raw = le_nat (take len (drop off raw))"

definition sample_decode_tmsg :: "string \<Rightarrow> task_msg" where
  "sample_decode_tmsg raw =
     \<lparr>t_time = of_nat (field 0 8 raw), t_pid = of_nat (field 8 4 raw),
      t_tid = of_nat (field 12 4 raw)\<rparr>"

definition sample_decode_smsg :: "string \<Rightarrow> sess_msg" where
  "sample_decode_smsg raw =
     \<lparr>s_task = sample_decode_tmsg (take 16 raw), s_sid = cstr (take 16 (drop 16 raw)),
      s_namelen = of_nat (field 36 4 raw)\<rparr>"

definition sample_abi :: abi where
  "sample_abi =
     \<lparr>FTRACE_MSG_MAGIC = 0xface, FTRACE_MSG_SESSION = 6, FTRACE_MSG_TID = 3,
      FTRACE_MSG_FORK_END = 5, msg_magic = field 0 2, msg_type = field 2 2,
      sizeof_smsg = 40, decode_smsg = sample_decode_smsg,
      sizeof_tmsg = 16, decode_tmsg = sample_decode_tmsg,
      RECORD_MAGIC = 5, UFTRACE_MAGIC_STR = ''Ftrace!'' @ [CHR 0x00],
      UFTRACE_FILE_VERSION_MIN = 3, UFTRACE_FILE_VERSION = 4,
      TASK_SESSION = 2, SYM_REL_ADDR = 32, ARGUMENT = 8, RETVAL = 16, MAX_STACK = 64,
      KERNEL = 4, MCOUNT_RSTACK_MAX = 1024,
      UFTRACE_DIR_NAME = ''uftrace.data'', UFTRACE_DIR_OLD_NAME = ''ftrace.dir''\<rparr>"

definition sample_decode_hdr :: "string \<Rightarrow> file_header" where
  "sample_decode_hdr raw =
     \<lparr>h_magic = take 8 raw, h_version = of_nat (field 8 4 raw),
      h_endian = of_nat (field 14 1 raw), h_feat_mask = of_nat (field 16 8 raw),
      h_info_mask = of_nat (field 24 8 raw), h_max_stack = of_nat (field 32 2 raw)\<rparr>"

definition sample_layout :: header_layout where
  "sample_layout = \<lparr>sizeof_hdr = 40, decode_hdr = sample_decode_hdr\<rparr>"

text \<open>A header as a little-endian producer writes it, and the same header written by a
  big-endian one.\<close>

definition le_header :: "nat \<Rightarrow> nat \<Rightarrow> nat \<Rightarrow> nat \<Rightarrow> string" where
  "le_header version feat info_mask max_stack =
     ''Ftrace!'' @ [CHR 0x00] @ le_bytes 4 version @ le_bytes 2 40 @ [CHR 0x01, CHR 0x02] @
     le_bytes 8 feat @ le_bytes 8 info_mask @ le_bytes 2 max_stack @ le_bytes 6 0"

definition be_header :: "nat \<Rightarrow> nat \<Rightarrow> nat \<Rightarrow> nat \<Rightarrow> string" where
  "be_header version feat info_mask max_stack =
     ''Ftrace!'' @ [CHR 0x00] @ rev (le_bytes 4 version) @ rev (le_bytes 2 40) @
     [CHR 0x02, CHR 0x02] @ rev (le_bytes 8 feat) @ rev (le_bytes 8 info_mask) @
     rev (le_bytes 2 max_stack) @ le_bytes 6 0"

definition x86_64 :: machine where
  "x86_64 = \<lparr>get_elf_endian = 1, bitfield_order = Lsb_first\<rparr>"

definition big_endian_machine :: machine where
  "big_endian_machine = \<lparr>get_elf_endian = 2, bitfield_order = Msb_first\<rparr>"

definition sample_ext :: externals where
  "sample_ext =
     \<lparr>read_ftrace_info = (\<lambda>mask rest. (0, \<lparr>i_exename = Some ''/bin/app'', i_argspec = None\<rparr>)),
      setup_kernel_data = (\<lambda>k. - 1)\<rparr>"

text \<open>Automatic variables that hold zeros, with session id arrays of 16 bytes, and no memory
  modelled at \<open>line\<close>.\<close>

definition stack0 :: txt_locals where
  "stack0 =
     (let t = \<lparr>t_time = 0, t_pid = 0, t_tid = 0\<rparr>
      in \<lparr>l_sec = 0, l_nsec = 0, l_tmsg = t,
          l_smsg = \<lparr>s_task = t, s_sid = replicate 16 (CHR 0x00), s_namelen = 0\<rparr>,
          l_dlop = \<lparr>d_task = t, d_base_addr = 0, d_sid = replicate 16 (CHR 0x00),
                    d_namelen = 0\<rparr>,
          l_line = []\<rparr>)"

definition opts0 :: "string \<Rightarrow> opts" where
  "opts0 dirname =
     \<lparr>o_dirname = dirname, o_exename = None, o_depth = 0, o_threshold = 0,
      o_range = (0, 0), o_kernel_skip_out = False\<rparr>"

definition handle0 :: handle where
  "handle0 =
     \<lparr>hd_dirname = [], hd_depth = 0, hd_nr_tasks = 0, hd_tasks = [], hd_time_filter = 0,
      hd_time_range = (0, 0), hd_sessions = empty_link,
      hd_kernel = \<lparr>k_pevent = None, k_output_dir = None, k_skip_out = False,
                   k_symbols = None\<rparr>,
      hd_hdr = \<lparr>h_magic = [], h_version = 0, h_endian = 0, h_feat_mask = 0,
                h_info_mask = 0, h_max_stack = 0\<rparr>,
      hd_needs_byte_swap = False, hd_needs_bit_swap = False,
      hd_info = \<lparr>i_exename = None, i_argspec = None\<rparr>, hd_fstack_args = None\<rparr>"

text \<open>A file system given by the files that exist; every other path is absent.\<close>

definition fs_of :: "(string \<times> string) list \<Rightarrow> filesystem" where
  "fs_of fl =
     \<lparr>files = (\<lambda>p. case map_of fl p of Some c \<Rightarrow> Inr c | None \<Rightarrow> Inl ENOENT),
      append_error = (\<lambda>p. None)\<rparr>"

text \<open>Messages of the old \<open>task\<close> file in the layout of \<open>sample_abi\<close>.\<close>

definition envelope :: "nat \<Rightarrow> nat \<Rightarrow> string" where
  "envelope magic type = le_bytes 2 magic @ le_bytes 2 type @ le_bytes 4 0"

definition task_payload :: "nat \<Rightarrow> nat \<Rightarrow> nat \<Rightarrow> string" where
  "task_payload time pid tid = le_bytes 8 time @ le_bytes 4 pid @ le_bytes 4 tid"

definition sess_payload :: "nat \<Rightarrow> nat \<Rightarrow> string \<Rightarrow> nat \<Rightarrow> string" where
  "sess_payload time pid sid namelen =
     task_payload time pid pid @ sid @ replicate (16 - length sid) (CHR 0x00) @
     le_bytes 4 0 @ le_bytes 4 namelen"

text \<open>An old \<open>task\<close> file that starts with a whole \<open>SESSION\<close> message (a name of five bytes
  and its padding) and goes on with an envelope whose magic is wrong.\<close>

definition partial_task_file :: string where
  "partial_task_file =
     envelope 0xface 6 @ sess_payload 7 5 ''abc'' 5 @ ''hello'' @ le_bytes 3 0 @
     envelope 0xfacf 3"









section \<open>Properties\<close>

subsection \<open>Byte reversal\<close>

lemma byte_masks:
  "(0xff :: 'a::len word) = mask 8"
  "(0xff00 :: 'a::len word) = push_bit 8 (mask 8)"
  "(0xff0000 :: 'a::len word) = push_bit 16 (mask 8)"
  "(0xff000000 :: 'a::len word) = push_bit 24 (mask 8)"
  "(0xff00000000 :: 'a::len word) = push_bit 32 (mask 8)"
  "(0xff0000000000 :: 'a::len word) = push_bit 40 (mask 8)"
  "(0xff000000000000 :: 'a::len word) = push_bit 48 (mask 8)"
  "(0xff00000000000000 :: 'a::len word) = push_bit 56 (mask 8)"
  by (simp_all add: mask_eq_exp_minus_1 push_bit_eq_mult)

lemma bytes_of_bswap_16: "bytes_of 2 (bswap_16 w) = rev (bytes_of 2 w)"
  apply (simp add: bytes_of_def byte_at_def bswap_16_def numeral_2_eq_2 byte_masks)
  apply (intro conjI; rule bit_word_eqI; auto simp add: bit_simps)
  done

lemma bytes_of_bswap_32: "bytes_of 4 (bswap_32 w) = rev (bytes_of 4 w)"
  apply (simp add: bytes_of_def byte_at_def bswap_32_def upt_rec byte_masks)
  apply (intro conjI; rule bit_word_eqI; auto simp add: bit_simps)
  done

lemma bytes_of_bswap_64: "bytes_of 8 (bswap_64 w) = rev (bytes_of 8 w)"
  apply (simp add: bytes_of_def byte_at_def bswap_64_def upt_rec byte_masks)
  apply (intro conjI; rule bit_word_eqI; auto simp add: bit_simps)
  done

subsection \<open>The stages of \<open>open_data_file\<close>\<close>

lemma fopen_info_direct:
  "files fs buf = Inr fp \<Longrightarrow>
   fopen_info a fs opts buf again w = (Returned (Some (fp, again)), note_open buf w)"
  by (simp add: fopen_info.simps)

lemma fopen_info_again:
  "fopen_info a fs opts buf True w =
     (case files fs buf of
        Inr fp \<Rightarrow> (Returned (Some (fp, True)), note_open buf w)
      | Inl e \<Rightarrow>
          if e = ENOENT then
            (case o_exename opts of
               Some exename \<Rightarrow> (Aborted (Not_recorded exename),
                 emit (Log (''cannot find '' @ info_path (o_dirname opts) @ '' file!''))
                   (note_open buf w))
             | None \<Rightarrow> (Returned None,
                 emit (Log (''cannot find '' @ info_path (o_dirname opts) @ '' file!''))
                   (note_open buf w)))
          else (Aborted (Cannot_open_file (info_path (o_dirname opts))), note_open buf w))"
  by (simp add: fopen_info.simps Let_def split: sum.splits option.splits)

lemma open_data_file_opened:
  assumes "fst (fopen_info a fs opts (info_path (o_dirname opts)) False w) = Returned (Some (fp, again))"
  shows "open_data_file a lay m ext fs stack opts handle w =
         open_data_file_opened a lay m ext fs stack opts handle fp again
           (snd (fopen_info a fs opts (info_path (o_dirname opts)) False w))"
  using assms
  by (cases "fopen_info a fs opts (info_path (o_dirname opts)) False w")
     (simp add: open_data_file_def)

lemma load_sessions_keeps:
  "load_sessions a fs stack opts h w = (Returned h', w') \<Longrightarrow>
     hd_hdr h' = hd_hdr h \<and> hd_needs_byte_swap h' = hd_needs_byte_swap h \<and>
     hd_needs_bit_swap h' = hd_needs_bit_swap h \<and> hd_dirname h' = hd_dirname h \<and>
     hd_info h' = hd_info h"
  by (auto simp: load_sessions_def Let_def split: if_splits prod.splits outcome.splits)

lemma finish_open_flags:
  "hd_needs_byte_swap (finish_open a ext opts h) = hd_needs_byte_swap h"
  "hd_needs_bit_swap (finish_open a ext opts h) = hd_needs_bit_swap h"
  "hd_sessions (finish_open a ext opts h) = hd_sessions h"
  "hd_dirname (finish_open a ext opts h) = hd_dirname h"
  by (simp_all add: finish_open_def Let_def)

lemma finish_open_hdr:
  "h_version (hd_hdr (finish_open a ext opts h)) = h_version (hd_hdr h)"
  "h_feat_mask (hd_hdr (finish_open a ext opts h)) = h_feat_mask (hd_hdr h)"
  "h_info_mask (hd_hdr (finish_open a ext opts h)) = h_info_mask (hd_hdr h)"
  "h_max_stack (hd_hdr (finish_open a ext opts h)) =
     (if h_feat_mask (hd_hdr h) AND MAX_STACK a = 0 then MCOUNT_RSTACK_MAX a
      else h_max_stack (hd_hdr h))"
  by (simp_all add: finish_open_def Let_def)

lemma swap_header_fields:
  "hd_dirname (swap_header h) = hd_dirname h"
  "hd_sessions (swap_header h) = hd_sessions h"
  "hd_needs_byte_swap (swap_header h) = hd_needs_byte_swap h"
  "hd_needs_bit_swap (swap_header h) = hd_needs_bit_swap h"
  by (simp_all add: swap_header_def)

lemma check_data_order_fields:
  "hd_dirname (check_data_order a m h) = hd_dirname h"
  "hd_sessions (check_data_order a m h) = hd_sessions h"
  "hd_hdr (check_data_order a m h) = hd_hdr h"
  "hd_needs_byte_swap (check_data_order a m h) = (get_elf_endian m \<noteq> h_endian (hd_hdr h))"
  "hd_needs_bit_swap (check_data_order a m h) =
     (record_magic (bitfield_order m) (push_bit 3 (RECORD_MAGIC a)) \<noteq> RECORD_MAGIC a)"
  by (simp_all add: check_data_order_def Let_def)

lemma init_handle_fields:
  "hd_dirname (init_handle opts h) = o_dirname opts"
  "hd_sessions (init_handle opts h) = empty_link"
  "hd_hdr (init_handle opts h) = hd_hdr h"
  by (simp_all add: init_handle_def)

text \<open>The version that \<open>open_data_file\<close> checks: the header's, byte-swapped when the
  endianness tags differ.\<close>

lemma open_header_version:
  fixes m :: machine
  assumes "sizeof_hdr lay \<le> length fp"
    and "h_magic (fread_header lay fp) = UFTRACE_MAGIC_STR a"
  defines "v \<equiv> (if get_elf_endian m \<noteq> h_endian (fread_header lay fp)
                 then bswap_32 (h_version (fread_header lay fp))
                 else h_version (fread_header lay fp))"
  shows "v < UFTRACE_FILE_VERSION_MIN a \<or> UFTRACE_FILE_VERSION a < v \<Longrightarrow>
           open_header a lay m ext opts handle fp again = Aborted (Unsupported_version v)"
    and "UFTRACE_FILE_VERSION_MIN a \<le> v \<Longrightarrow> v \<le> UFTRACE_FILE_VERSION a \<Longrightarrow>
           open_header a lay m ext opts handle fp again \<noteq> Aborted (Unsupported_version u)"
  using assms(1,2) unfolding v_def
  by (auto simp: open_header_def read_header_def check_version_def Let_def swap_header_def
                 check_data_order_def
           split: prod.splits if_splits)

text \<open>What the header stage leaves in the handle when it succeeds.\<close>

lemma open_header_Returned:
  assumes "open_header a lay m ext opts handle fp again = Returned (opts2, h3)"
  defines "raw \<equiv> fread_header lay fp"
  shows "sizeof_hdr lay \<le> length fp" and "h_magic raw = UFTRACE_MAGIC_STR a"
    and "hd_needs_byte_swap h3 = (get_elf_endian m \<noteq> h_endian raw)"
    and "hd_needs_bit_swap h3 =
           (record_magic (bitfield_order m) (push_bit 3 (RECORD_MAGIC a)) \<noteq> RECORD_MAGIC a)"
    and "hd_hdr h3 =
           (if get_elf_endian m \<noteq> h_endian raw
            then raw\<lparr>h_version := bswap_32 (h_version raw),
                     h_feat_mask := bswap_64 (h_feat_mask raw),
                     h_info_mask := bswap_64 (h_info_mask raw),
                     h_max_stack := bswap_16 (h_max_stack raw)\<rparr>
            else raw)"
    and "o_dirname opts2 = (if again then UFTRACE_DIR_OLD_NAME a else o_dirname opts)"
    and "hd_dirname h3 = o_dirname opts2" and "hd_sessions h3 = empty_link"
  using assms(1) unfolding raw_def
  by (auto simp: open_header_def read_header_def check_version_def Let_def swap_header_def
                 check_data_order_def init_handle_def
           split: prod.splits if_splits)

lemma open_data_file_opened_Returned:
  assumes "fst (open_data_file_opened a lay m ext fs stack opts handle fp again w1) =
             Returned (r, opts', h')"
  shows "\<exists>h3 h4 w2. r = 0 \<and> open_header a lay m ext opts handle fp again = Returned (opts', h3) \<and>
           load_sessions a fs stack opts' h3 w1 = (Returned h4, w2) \<and>
           h' = finish_open a ext opts' h4"
  using assms
  by (auto simp: open_data_file_opened_def split: outcome.splits prod.splits)

lemma open_data_file_Returned_0:
  assumes "fst (open_data_file a lay m ext fs stack opts handle w) = Returned (0, opts', h')"
  shows "\<exists>fp again w1. fopen_info a fs opts (info_path (o_dirname opts)) False w =
             (Returned (Some (fp, again)), w1) \<and>
           fst (open_data_file_opened a lay m ext fs stack opts handle fp again w1) =
             Returned (0, opts', h')"
  using assms
  by (auto simp: open_data_file_def split: outcome.splits prod.splits option.splits)

subsection \<open>How the readers can end\<close>

lemma read_task_loop_result:
  "(\<exists>sess'. fst (read_task_loop a dirname needs_session sym_rel_addr sess w fd) = Returned (0, sess')) \<or>
   (\<exists>sess'. fst (read_task_loop a dirname needs_session sym_rel_addr sess w fd) = Returned (- 1, sess'))"
proof (induction a dirname needs_session sym_rel_addr sess w fd rule: read_task_loop.induct)
  case (1 a dirname needs_session sym_rel_addr sess w fd)
  then show ?case
    apply (subst (1 2) read_task_loop.simps)
    apply (auto split: option.splits if_splits prod.splits)
    done
qed

lemma read_task_loop_opened:
  "opened (snd (read_task_loop a dirname needs_session sym_rel_addr sess w fd)) = opened w"
proof (induction a dirname needs_session sym_rel_addr sess w fd rule: read_task_loop.induct)
  case (1 a dirname needs_session sym_rel_addr sess w fd)
  then show ?case
    apply (subst read_task_loop.simps)
    apply (auto simp: emit_def split: option.splits if_splits prod.splits)
    done
qed

lemma read_task_file_result:
  "(\<exists>sess'. fst (read_task_file a fs sess dirname needs_session sym_rel_addr w) = Returned (0, sess')) \<or>
   (\<exists>sess'. fst (read_task_file a fs sess dirname needs_session sym_rel_addr w) = Returned (- 1, sess'))"
  using read_task_loop_result
  by (auto simp: read_task_file_def Let_def split: sum.splits)

lemma read_task_file_opened:
  "opened (snd (read_task_file a fs sess dirname needs_session sym_rel_addr w)) =
     opened w @ [snprintf 1024 (dirname @ ''/task'')]"
  by (auto simp: read_task_file_def Let_def read_task_loop_opened note_open_def split: sum.splits)

lemma process_line_abort:
  "process_line dirname needs_session sym_rel_addr st = Aborted e \<Longrightarrow>
     e = Invalid_task_txt \<or> e = Assertion_failed"
  by (auto simp: process_line_def task_line_def fork_line_def sess_line_def dlop_line_def Let_def
           split: if_splits option.splits)

lemma read_lines_abort:
  "read_lines dirname needs_session sym_rel_addr st ls = Aborted e \<Longrightarrow>
     e = Invalid_task_txt \<or> e = Assertion_failed"
  by (induction ls arbitrary: st) (auto split: outcome.splits dest: process_line_abort)

lemma errno_value_pos: "0 < errno_value e"
  by (cases e) simp_all

lemma read_task_txt_file_result:
  "read_task_txt_file fs stack sess dirname needs_session sym_rel_addr w =
     (case files fs (dirname @ ''/task.txt'') of
        Inl e \<Rightarrow> (Returned (- errno_value e, sess), note_open (dirname @ ''/task.txt'') w)
      | Inr content \<Rightarrow>
          (case read_lines dirname needs_session sym_rel_addr (stack, sess) (getlines [] content) of
             Aborted e \<Rightarrow> (Aborted e, note_open (dirname @ ''/task.txt'') w)
           | Returned st \<Rightarrow> (Returned (0, snd st), note_open (dirname @ ''/task.txt'') w)))"
  by (simp add: read_task_txt_file_def Let_def)

lemma load_sessions_abort:
  "fst (load_sessions a fs stack opts h w) = Aborted e \<Longrightarrow>
     e = Invalid_task_txt \<or> e = Assertion_failed"
  using read_task_file_result [of a fs "hd_sessions h" "o_dirname opts" True
          "h_feat_mask (hd_hdr h) AND SYM_REL_ADDR a \<noteq> 0"
          "note_open (o_dirname opts @ ''/task.txt'') w"]
  by (auto simp: load_sessions_def Let_def read_task_txt_file_result
           split: if_splits sum.splits outcome.splits prod.splits dest: read_lines_abort)

subsection \<open>Evaluating the instance\<close>

lemma length_le_bytes: "length (le_bytes k n) = k"
  by (induction k arbitrary: n) auto

lemma length_le_header: "length (le_header v f i s) = 40"
  by (simp add: le_header_def length_le_bytes)

lemma length_be_header: "length (be_header v f i s) = 40"
  by (simp add: be_header_def length_le_bytes)

lemma sizeof_hdr_sample: "sizeof_hdr sample_layout = 40"
  by (simp add: sample_layout_def)

lemma fopen_info_sample:
  "fopen_info a (fs_of ((''d/info'', c) # fl)) (opts0 ''d'')
     (info_path (o_dirname (opts0 ''d''))) False io0 =
   (Returned (Some (c, False)), \<lparr>opened = [''d/info''], diags = []\<rparr>)"
  by (simp add: fopen_info.simps fs_of_def opts0_def info_path_def snprintf_def PATH_MAX_def
        note_open_def io0_def)

lemma fread_le_2: "fread_header sample_layout (le_header 2 0 0 0) =
  \<lparr>h_magic = ''Ftrace!'' @ [CHR 0x00], h_version = 2, h_endian = 1, h_feat_mask = 0,
   h_info_mask = 0, h_max_stack = 0\<rparr>"
  by code_simp

lemma fread_le_3: "fread_header sample_layout (le_header 3 0 0 0) =
  \<lparr>h_magic = ''Ftrace!'' @ [CHR 0x00], h_version = 3, h_endian = 1, h_feat_mask = 0,
   h_info_mask = 0, h_max_stack = 0\<rparr>"
  by code_simp

lemma fread_le_4: "fread_header sample_layout (le_header 4 0 0 0) =
  \<lparr>h_magic = ''Ftrace!'' @ [CHR 0x00], h_version = 4, h_endian = 1, h_feat_mask = 0,
   h_info_mask = 0, h_max_stack = 0\<rparr>"
  by code_simp

lemma fread_le_5: "fread_header sample_layout (le_header 5 0 0 0) =
  \<lparr>h_magic = ''Ftrace!'' @ [CHR 0x00], h_version = 5, h_endian = 1, h_feat_mask = 0,
   h_info_mask = 0, h_max_stack = 0\<rparr>"
  by code_simp

subsection \<open>The version check\<close>

text \<open>
  C3. With the header file open, its header read and its magic string right,
  \<open>open_data_file\<close> ends the process with "unsupported file version" when the version (as
  checked: byte-swapped when the endianness tags differ) is below \<open>UFTRACE_FILE_VERSION_MIN\<close>
  or above \<open>UFTRACE_FILE_VERSION\<close>, and does not end that way for a version from the
  minimum to the maximum, both included.
\<close>

theorem open_data_file_version_bounds:
  fixes m :: machine
  assumes "fst (fopen_info a fs opts (info_path (o_dirname opts)) False w) =
             Returned (Some (fp, again))"
    and "sizeof_hdr lay \<le> length fp"
    and "h_magic (fread_header lay fp) = UFTRACE_MAGIC_STR a"
  shows "let v = (if get_elf_endian m \<noteq> h_endian (fread_header lay fp)
                  then bswap_32 (h_version (fread_header lay fp))
                  else h_version (fread_header lay fp));
             r = fst (open_data_file a lay m ext fs stack opts handle w)
         in (v < UFTRACE_FILE_VERSION_MIN a \<or> UFTRACE_FILE_VERSION a < v \<longrightarrow>
               r = Aborted (Unsupported_version v)) \<and>
            (UFTRACE_FILE_VERSION_MIN a \<le> v \<and> v \<le> UFTRACE_FILE_VERSION a \<longrightarrow>
               (\<forall>u. r \<noteq> Aborted (Unsupported_version u)))"
proof -
  define v where "v = (if get_elf_endian m \<noteq> h_endian (fread_header lay fp)
                  then bswap_32 (h_version (fread_header lay fp))
                  else h_version (fread_header lay fp))"
  define w1 where "w1 = snd (fopen_info a fs opts (info_path (o_dirname opts)) False w)"
  have eq: "open_data_file a lay m ext fs stack opts handle w =
      open_data_file_opened a lay m ext fs stack opts handle fp again w1"
    unfolding w1_def by (rule open_data_file_opened [OF assms(1)])
  have low: "fst (open_data_file a lay m ext fs stack opts handle w) =
      Aborted (Unsupported_version v)"
    if "v < UFTRACE_FILE_VERSION_MIN a \<or> UFTRACE_FILE_VERSION a < v"
    using open_header_version(1) [OF assms(2,3), where m = m] that
    by (simp add: eq open_data_file_opened_def v_def)
  have ok: "fst (open_data_file a lay m ext fs stack opts handle w) \<noteq>
      Aborted (Unsupported_version u)"
    if "UFTRACE_FILE_VERSION_MIN a \<le> v" "v \<le> UFTRACE_FILE_VERSION a" for u
  proof
    assume ab: "fst (open_data_file a lay m ext fs stack opts handle w) =
      Aborted (Unsupported_version u)"
    show False
    proof (cases "open_header a lay m ext opts handle fp again")
      case (Aborted e)
      with ab have "e = Unsupported_version u"
        by (simp add: eq open_data_file_opened_def)
      with Aborted open_header_version(2) [OF assms(2,3), where m = m] that show False
        by (simp add: v_def)
    next
      case (Returned x)
      obtain opts2 h3 where x: "x = (opts2, h3)" by (cases x)
      from ab Returned x
      have "fst (load_sessions a fs stack opts2 h3 w1) = Aborted (Unsupported_version u)"
        by (auto simp: eq open_data_file_opened_def split: prod.splits outcome.splits)
      then show False
        by (auto dest: load_sessions_abort)
    qed
  qed
  show ?thesis
    using low ok by (simp add: Let_def v_def)
qed

theorem open_data_file_version_bounds_witness:
  "fst (open_data_file sample_abi sample_layout x86_64 sample_ext
          (fs_of [(''d/info'', le_header 2 0 0 0)]) stack0 (opts0 ''d'') handle0 io0) =
     Aborted (Unsupported_version 2) \<and>
   (\<forall>u. fst (open_data_file sample_abi sample_layout x86_64 sample_ext
          (fs_of [(''d/info'', le_header 3 0 0 0)]) stack0 (opts0 ''d'') handle0 io0) \<noteq>
     Aborted (Unsupported_version u)) \<and>
   (\<forall>u. fst (open_data_file sample_abi sample_layout x86_64 sample_ext
          (fs_of [(''d/info'', le_header 4 0 0 0)]) stack0 (opts0 ''d'') handle0 io0) \<noteq>
     Aborted (Unsupported_version u)) \<and>
   fst (open_data_file sample_abi sample_layout x86_64 sample_ext
          (fs_of [(''d/info'', le_header 5 0 0 0)]) stack0 (opts0 ''d'') handle0 io0) =
     Aborted (Unsupported_version 5)"
proof -
  have f: "fst (fopen_info sample_abi (fs_of [(''d/info'', c)]) (opts0 ''d'')
      (info_path (o_dirname (opts0 ''d''))) False io0) = Returned (Some (c, False))" for c
    by (simp add: fopen_info_sample)
  have s: "sizeof_hdr sample_layout \<le> length (le_header v 0 0 0)" for v
    by (simp add: sizeof_hdr_sample length_le_header)
  have c: "UFTRACE_FILE_VERSION_MIN sample_abi = 3" "UFTRACE_FILE_VERSION sample_abi = 4"
    "UFTRACE_MAGIC_STR sample_abi = ''Ftrace!'' @ [CHR 0x00]" "get_elf_endian x86_64 = 1"
    by (simp_all add: sample_abi_def x86_64_def)
  show ?thesis
    using
      open_data_file_version_bounds [OF f s, where v1 = 2 and m = x86_64 and ext = sample_ext
        and stack = stack0 and handle = handle0]
      open_data_file_version_bounds [OF f s, where v1 = 3 and m = x86_64 and ext = sample_ext
        and stack = stack0 and handle = handle0]
      open_data_file_version_bounds [OF f s, where v1 = 4 and m = x86_64 and ext = sample_ext
        and stack = stack0 and handle = handle0]
      open_data_file_version_bounds [OF f s, where v1 = 5 and m = x86_64 and ext = sample_ext
        and stack = stack0 and handle = handle0]
    by (simp add: fread_le_2 fread_le_3 fread_le_4 fread_le_5 c Let_def)
qed

subsection \<open>Header normalisation\<close>

text \<open>The header that the version check and everything after it see.\<close>

lemma open_header_eval:
  fixes m :: machine
  assumes "sizeof_hdr lay \<le> length fp"
    and "h_magic (fread_header lay fp) = UFTRACE_MAGIC_STR a"
  shows "open_header a lay m ext opts handle fp again =
     (let raw = fread_header lay fp;
          swap = (get_elf_endian m \<noteq> h_endian raw);
          hdr = (if swap
                 then raw\<lparr>h_version := bswap_32 (h_version raw),
                          h_feat_mask := bswap_64 (h_feat_mask raw),
                          h_info_mask := bswap_64 (h_info_mask raw),
                          h_max_stack := bswap_16 (h_max_stack raw)\<rparr>
                 else raw);
          opts1 = (if again then opts\<lparr>o_dirname := UFTRACE_DIR_OLD_NAME a\<rparr> else opts);
          ri = read_ftrace_info ext (h_info_mask hdr) (drop (sizeof_hdr lay) fp)
      in if h_version hdr < UFTRACE_FILE_VERSION_MIN a \<or> UFTRACE_FILE_VERSION a < h_version hdr
         then Aborted (Unsupported_version (h_version hdr))
         else if fst ri < 0 then Aborted Cannot_read_info
         else Returned
           (if o_exename opts1 = None then opts1\<lparr>o_exename := i_exename (snd ri)\<rparr> else opts1,
            (init_handle opts1 handle)
              \<lparr>hd_hdr := hdr, hd_needs_byte_swap := swap,
               hd_needs_bit_swap :=
                 (record_magic (bitfield_order m) (push_bit 3 (RECORD_MAGIC a)) \<noteq> RECORD_MAGIC a),
               hd_info := snd ri\<rparr>))"
  using assms
  by (auto simp: open_header_def read_header_def check_version_def Let_def swap_header_def
                 check_data_order_def init_handle_def
           split: prod.splits)

lemma load_sessions_none:
  "h_feat_mask (hd_hdr h) AND TASK_SESSION a = 0 \<Longrightarrow>
     load_sessions a fs stack opts h w = (Returned h, w)"
  by (simp add: load_sessions_def)

lemma open_data_file_no_sessions:
  assumes "files fs (info_path (o_dirname opts)) = Inr fp"
    and "open_header a lay m ext opts handle fp False = Returned (opts2, h3)"
    and "h_feat_mask (hd_hdr h3) AND TASK_SESSION a = 0"
  shows "open_data_file a lay m ext fs stack opts handle w =
     (Returned (0, opts2, finish_open a ext opts2 h3), note_open (info_path (o_dirname opts)) w)"
  using assms
  by (simp add: open_data_file_def fopen_info_direct open_data_file_opened_def load_sessions_none)

lemma record_magic_lsb:
  assumes "x < 8"
  shows "record_magic Lsb_first (push_bit 3 x) = x"
proof -
  have "take_bit 3 x = x"
    using assms less_mask_eq [of x 3] by (simp add: take_bit_eq_mask)
  moreover have "record_magic Lsb_first (push_bit 3 x) = take_bit 3 x"
    by (rule bit_word_eqI) (auto simp: bit_simps)
  ultimately show ?thesis by simp
qed

lemma record_magic_msb:
  assumes "x < 8"
  shows "record_magic Msb_first (push_bit 3 x) = 0"
proof -
  have x: "take_bit 3 x = x"
    using assms less_mask_eq [of x 3] by (simp add: take_bit_eq_mask)
  have "record_magic Msb_first (push_bit 3 (take_bit 3 x)) = 0"
    by (rule bit_word_eqI) (auto simp: bit_simps)
  then show ?thesis by (simp add: x)
qed

text \<open>
  C2. \<open>check_data_order\<close> stores the record magic shifted left by three in the second word of
  the scratch buffer, reads the \<open>magic\<close> bit-field of the record laid over it, and sets
  \<open>needs_bit_swap\<close> exactly when that field differs from the magic. With the bit-field at
  bits 3 to 5 the flag stays unset, with the opposite allocation order it is set (for a
  magic that fits the three bits and is not zero). A successful \<open>open_data_file\<close> leaves
  that one decision in the handle.
\<close>

theorem bit_swap_detection:
  "hd_needs_bit_swap (check_data_order a m handle) =
     (record_magic (bitfield_order m) (push_bit 3 (RECORD_MAGIC a)) \<noteq> RECORD_MAGIC a) \<and>
   (RECORD_MAGIC a < 8 \<and> bitfield_order m = Lsb_first \<longrightarrow>
      \<not> hd_needs_bit_swap (check_data_order a m handle)) \<and>
   (RECORD_MAGIC a < 8 \<and> RECORD_MAGIC a \<noteq> 0 \<and> bitfield_order m = Msb_first \<longrightarrow>
      hd_needs_bit_swap (check_data_order a m handle)) \<and>
   (fst (open_data_file a lay m ext fs stack opts handle w) = Returned (0, opts', h') \<longrightarrow>
      hd_needs_bit_swap h' = hd_needs_bit_swap (check_data_order a m handle))"
proof -
  have cached: "hd_needs_bit_swap h' = hd_needs_bit_swap (check_data_order a m handle)"
    if "fst (open_data_file a lay m ext fs stack opts handle w) = Returned (0, opts', h')"
  proof -
    from open_data_file_Returned_0 [OF that] obtain fp again w1 where
      "fst (open_data_file_opened a lay m ext fs stack opts handle fp again w1) =
         Returned (0, opts', h')"
      by blast
    from open_data_file_opened_Returned [OF this] obtain h3 h4 w2 where
      h3: "open_header a lay m ext opts handle fp again = Returned (opts', h3)"
      and h4: "load_sessions a fs stack opts' h3 w1 = (Returned h4, w2)"
      and h': "h' = finish_open a ext opts' h4"
      by blast
    show ?thesis
      using open_header_Returned(4) [OF h3] load_sessions_keeps [OF h4]
      by (simp add: h' finish_open_flags check_data_order_fields)
  qed
  show ?thesis
    using cached
    by (auto simp: check_data_order_fields record_magic_lsb record_magic_msb
             simp del: record_magic.simps)
qed

lemma fread_le_4_max: "fread_header sample_layout (le_header 4 64 0 300) =
  \<lparr>h_magic = ''Ftrace!'' @ [CHR 0x00], h_version = 4, h_endian = 1, h_feat_mask = 64,
   h_info_mask = 0, h_max_stack = 300\<rparr>"
  by code_simp

lemma sample_consts:
  "UFTRACE_FILE_VERSION_MIN sample_abi = 3" "UFTRACE_FILE_VERSION sample_abi = 4"
  "UFTRACE_MAGIC_STR sample_abi = ''Ftrace!'' @ [CHR 0x00]" "RECORD_MAGIC sample_abi = 5"
  "TASK_SESSION sample_abi = 2" "MAX_STACK sample_abi = 64" "MCOUNT_RSTACK_MAX sample_abi = 1024"
  "UFTRACE_DIR_NAME sample_abi = ''uftrace.data''" "UFTRACE_DIR_OLD_NAME sample_abi = ''ftrace.dir''"
  "get_elf_endian x86_64 = 1" "bitfield_order x86_64 = Lsb_first"
  "get_elf_endian big_endian_machine = 2" "bitfield_order big_endian_machine = Msb_first"
  "read_ftrace_info sample_ext = (\<lambda>mask rest. (0, \<lparr>i_exename = Some ''/bin/app'', i_argspec = None\<rparr>))"
  by (simp_all add: sample_abi_def x86_64_def big_endian_machine_def sample_ext_def)

lemma sample_files:
  "files (fs_of ((p, c) # fl)) p = Inr c"
  "info_path (o_dirname (opts0 ''d'')) = ''d/info''"
  by (simp_all add: fs_of_def opts0_def info_path_def snprintf_def PATH_MAX_def)

lemma open_le_4_max:
  "\<exists>opts' h'. open_data_file sample_abi sample_layout x86_64 sample_ext
      (fs_of [(''d/info'', le_header 4 64 0 300)]) stack0 (opts0 ''d'') handle0 io0 =
    (Returned (0, opts', h'), note_open ''d/info'' io0)"
proof -
  have "\<exists>opts2 h3. open_header sample_abi sample_layout x86_64 sample_ext (opts0 ''d'') handle0
      (le_header 4 64 0 300) False = Returned (opts2, h3) \<and>
      h_feat_mask (hd_hdr h3) AND TASK_SESSION sample_abi = 0"
    by (simp add: open_header_eval sizeof_hdr_sample length_le_header fread_le_4_max
          sample_consts Let_def)
  then obtain opts2 h3 where
    "open_header sample_abi sample_layout x86_64 sample_ext (opts0 ''d'') handle0
      (le_header 4 64 0 300) False = Returned (opts2, h3)"
    "h_feat_mask (hd_hdr h3) AND TASK_SESSION sample_abi = 0"
    by blast
  from open_data_file_no_sessions [OF _ this, of _ stack0 io0] show ?thesis
    by (simp add: sample_files)
qed

theorem bit_swap_detection_witness:
  "\<not> hd_needs_bit_swap (check_data_order sample_abi x86_64 handle0) \<and>
   hd_needs_bit_swap (check_data_order sample_abi big_endian_machine handle0) \<and>
   (\<exists>opts' h'. fst (open_data_file sample_abi sample_layout x86_64 sample_ext
        (fs_of [(''d/info'', le_header 4 64 0 300)]) stack0 (opts0 ''d'') handle0 io0) =
      Returned (0, opts', h') \<and> \<not> hd_needs_bit_swap h')"
proof -
  obtain opts' h' where r: "fst (open_data_file sample_abi sample_layout x86_64 sample_ext
        (fs_of [(''d/info'', le_header 4 64 0 300)]) stack0 (opts0 ''d'') handle0 io0) =
      Returned (0, opts', h')"
    using open_le_4_max by force
  have "\<not> hd_needs_bit_swap (check_data_order sample_abi x86_64 handle0) \<and>
        hd_needs_bit_swap h' = hd_needs_bit_swap (check_data_order sample_abi x86_64 handle0)"
    using bit_swap_detection [where a = sample_abi and m = x86_64 and handle = handle0
        and lay = sample_layout and ext = sample_ext and stack = stack0 and opts = "opts0 ''d''"
        and fs = "fs_of [(''d/info'', le_header 4 64 0 300)]" and w = io0
        and opts' = opts' and h' = h'] r
    by (simp add: sample_consts)
  moreover have "hd_needs_bit_swap (check_data_order sample_abi big_endian_machine handle0)"
    using bit_swap_detection [where a = sample_abi and m = big_endian_machine
        and handle = handle0]
    by (simp add: sample_consts)
  ultimately show ?thesis
    using r by auto
qed

text \<open>
  C1, as the code has it. After a successful \<open>open_data_file\<close>, \<open>needs_byte_swap\<close> is set
  exactly when the header's endianness tag differs from the machine's. When it is set, the
  version, the feature mask and the info mask have the bytes of the header's fields in
  reverse order; when it is not, they are the header's fields. The maximum stack depth
  follows the same rule when the feature mask (as normalised) has the \<open>MAX_STACK\<close> bit, and
  is \<open>MCOUNT_RSTACK_MAX\<close> otherwise.
\<close>

theorem header_byte_order:
  fixes m :: machine
  assumes "fst (open_data_file a lay m ext fs stack opts handle w) = Returned (0, opts', h')"
    and "fst (fopen_info a fs opts (info_path (o_dirname opts)) False w) =
           Returned (Some (fp, again))"
  shows "let raw = fread_header lay fp; hdr = hd_hdr h'
         in hd_needs_byte_swap h' = (h_endian raw \<noteq> get_elf_endian m) \<and>
            (if h_endian raw \<noteq> get_elf_endian m
             then bytes_of 4 (h_version hdr) = rev (bytes_of 4 (h_version raw)) \<and>
                  bytes_of 8 (h_feat_mask hdr) = rev (bytes_of 8 (h_feat_mask raw)) \<and>
                  bytes_of 8 (h_info_mask hdr) = rev (bytes_of 8 (h_info_mask raw)) \<and>
                  (if h_feat_mask hdr AND MAX_STACK a = 0
                   then h_max_stack hdr = MCOUNT_RSTACK_MAX a
                   else bytes_of 2 (h_max_stack hdr) = rev (bytes_of 2 (h_max_stack raw)))
             else h_version hdr = h_version raw \<and>
                  h_feat_mask hdr = h_feat_mask raw \<and>
                  h_info_mask hdr = h_info_mask raw \<and>
                  (if h_feat_mask hdr AND MAX_STACK a = 0
                   then h_max_stack hdr = MCOUNT_RSTACK_MAX a
                   else h_max_stack hdr = h_max_stack raw))"
proof -
  define w1 where "w1 = snd (fopen_info a fs opts (info_path (o_dirname opts)) False w)"
  have "fst (open_data_file_opened a lay m ext fs stack opts handle fp again w1) =
      Returned (0, opts', h')"
    using assms(1) open_data_file_opened [OF assms(2), of lay m ext stack handle]
    by (simp add: w1_def)
  from open_data_file_opened_Returned [OF this] obtain h3 h4 w2 where
    h3: "open_header a lay m ext opts handle fp again = Returned (opts', h3)"
    and h4: "load_sessions a fs stack opts' h3 w1 = (Returned h4, w2)"
    and h': "h' = finish_open a ext opts' h4"
    by blast
  note hdr = open_header_Returned(3,5) [OF h3] load_sessions_keeps [OF h4]
  show ?thesis
    using hdr
    by (auto simp: Let_def h' finish_open_flags finish_open_hdr bytes_of_bswap_16
          bytes_of_bswap_32 bytes_of_bswap_64)
qed

lemma fread_be_4_max: "fread_header sample_layout (be_header 4 64 0 300) =
  \<lparr>h_magic = ''Ftrace!'' @ [CHR 0x00], h_version = 0x04000000, h_endian = 2,
   h_feat_mask = 0x4000000000000000, h_info_mask = 0, h_max_stack = 0x2C01\<rparr>"
  by code_simp

lemma fread_be_4_nomax: "fread_header sample_layout (be_header 4 0 0 300) =
  \<lparr>h_magic = ''Ftrace!'' @ [CHR 0x00], h_version = 0x04000000, h_endian = 2,
   h_feat_mask = 0, h_info_mask = 0, h_max_stack = 0x2C01\<rparr>"
  by code_simp

lemma bswap_samples:
  "bswap_32 0x04000000 = 4" "bswap_64 0x4000000000000000 = 64" "bswap_64 0 = 0"
  "bswap_16 0x2C01 = 300"
  by (simp_all add: bswap_16_def bswap_32_def bswap_64_def)

lemma finish_open_hd_hdr:
  "hd_hdr (finish_open a ext opts h) =
     (if h_feat_mask (hd_hdr h) AND MAX_STACK a = 0
      then (hd_hdr h)\<lparr>h_max_stack := MCOUNT_RSTACK_MAX a\<rparr> else hd_hdr h)"
  by (simp add: finish_open_def Let_def)

lemma open_be_4_max:
  "\<exists>opts' h'. open_data_file sample_abi sample_layout x86_64 sample_ext
      (fs_of [(''d/info'', be_header 4 64 0 300)]) stack0 (opts0 ''d'') handle0 io0 =
    (Returned (0, opts', h'), note_open ''d/info'' io0) \<and>
    hd_hdr h' = \<lparr>h_magic = ''Ftrace!'' @ [CHR 0x00], h_version = 4, h_endian = 2,
      h_feat_mask = 64, h_info_mask = 0, h_max_stack = 300\<rparr>"
proof -
  have "\<exists>opts2 h3. open_header sample_abi sample_layout x86_64 sample_ext (opts0 ''d'') handle0
      (be_header 4 64 0 300) False = Returned (opts2, h3) \<and>
      h_feat_mask (hd_hdr h3) AND TASK_SESSION sample_abi = 0 \<and>
      hd_hdr h3 = \<lparr>h_magic = ''Ftrace!'' @ [CHR 0x00], h_version = 4, h_endian = 2,
        h_feat_mask = 64, h_info_mask = 0, h_max_stack = 300\<rparr>"
    by (simp add: open_header_eval sizeof_hdr_sample length_be_header fread_be_4_max
          sample_consts bswap_samples Let_def)
  then obtain opts2 h3 where h3:
    "open_header sample_abi sample_layout x86_64 sample_ext (opts0 ''d'') handle0
      (be_header 4 64 0 300) False = Returned (opts2, h3)"
    "h_feat_mask (hd_hdr h3) AND TASK_SESSION sample_abi = 0"
    and hdr: "hd_hdr h3 = \<lparr>h_magic = ''Ftrace!'' @ [CHR 0x00], h_version = 4, h_endian = 2,
        h_feat_mask = 64, h_info_mask = 0, h_max_stack = 300\<rparr>"
    by blast
  from open_data_file_no_sessions [OF _ h3, of _ stack0 io0] hdr show ?thesis
    by (simp add: sample_files finish_open_hd_hdr sample_consts)
qed

theorem header_byte_order_witness:
  "\<exists>opts' h'. fst (open_data_file sample_abi sample_layout x86_64 sample_ext
        (fs_of [(''d/info'', be_header 4 64 0 300)]) stack0 (opts0 ''d'') handle0 io0) =
      Returned (0, opts', h') \<and>
    h_endian (fread_header sample_layout (be_header 4 64 0 300)) = 2 \<and>
    get_elf_endian x86_64 = 1 \<and>
    hd_needs_byte_swap h' \<and>
    h_version (hd_hdr h') = 4 \<and>
    bytes_of 4 (h_version (hd_hdr h')) = rev (bytes_of 4 (0x04000000 :: u32)) \<and>
    h_feat_mask (hd_hdr h') = 64 \<and>
    bytes_of 8 (h_feat_mask (hd_hdr h')) = rev (bytes_of 8 (0x4000000000000000 :: u64)) \<and>
    bytes_of 8 (h_info_mask (hd_hdr h')) = rev (bytes_of 8 (0 :: u64)) \<and>
    h_max_stack (hd_hdr h') = 300 \<and>
    bytes_of 2 (h_max_stack (hd_hdr h')) = rev (bytes_of 2 (0x2C01 :: u16))"
proof -
  obtain opts' h' where r: "fst (open_data_file sample_abi sample_layout x86_64 sample_ext
        (fs_of [(''d/info'', be_header 4 64 0 300)]) stack0 (opts0 ''d'') handle0 io0) =
      Returned (0, opts', h')"
    and hdr: "hd_hdr h' = \<lparr>h_magic = ''Ftrace!'' @ [CHR 0x00], h_version = 4, h_endian = 2,
      h_feat_mask = 64, h_info_mask = 0, h_max_stack = 300\<rparr>"
    using open_be_4_max by force
  have f: "fst (fopen_info sample_abi (fs_of [(''d/info'', be_header 4 64 0 300)]) (opts0 ''d'')
      (info_path (o_dirname (opts0 ''d''))) False io0) =
      Returned (Some (be_header 4 64 0 300, False))"
    by (simp add: fopen_info_sample)
  have "hd_needs_byte_swap h' \<and>
    bytes_of 4 (h_version (hd_hdr h')) = rev (bytes_of 4 (0x04000000 :: u32)) \<and>
    bytes_of 8 (h_feat_mask (hd_hdr h')) = rev (bytes_of 8 (0x4000000000000000 :: u64)) \<and>
    bytes_of 8 (h_info_mask (hd_hdr h')) = rev (bytes_of 8 (0 :: u64)) \<and>
    bytes_of 2 (h_max_stack (hd_hdr h')) = rev (bytes_of 2 (0x2C01 :: u16))"
    using header_byte_order [OF r f]
    by (simp add: fread_be_4_max sample_consts Let_def hdr)
  then show ?thesis
    using r hdr by (simp add: fread_be_4_max sample_consts)
qed

text \<open>
  C1 as stated fails for the maximum stack depth: a big-endian header without the
  \<open>MAX_STACK\<close> feature, read on a little-endian machine, has the bytes \<open>01 2C\<close> in the field,
  whose reversal reads 300, and \<open>open_data_file\<close> leaves 1024 there.
\<close>

theorem header_byte_order_counterexample:
  "open_data_file sample_abi sample_layout x86_64 sample_ext
      (fs_of [(''d/info'', be_header 4 0 0 300)]) stack0 (opts0 ''d'') handle0 io0 =
    (Returned (0, (opts0 ''d'')\<lparr>o_exename := Some ''/bin/app''\<rparr>,
       handle0\<lparr>hd_dirname := ''d'',
         hd_hdr := \<lparr>h_magic = ''Ftrace!'' @ [CHR 0x00], h_version = 4, h_endian = 2,
           h_feat_mask = 0, h_info_mask = 0, h_max_stack = 1024\<rparr>,
         hd_needs_byte_swap := True,
         hd_info := \<lparr>i_exename = Some ''/bin/app'', i_argspec = None\<rparr>\<rparr>),
     \<lparr>opened = [''d/info''], diags = []\<rparr>) \<and>
   h_endian (fread_header sample_layout (be_header 4 0 0 300)) \<noteq> get_elf_endian x86_64 \<and>
   rev (bytes_of 2 (h_max_stack (fread_header sample_layout (be_header 4 0 0 300)))) =
     bytes_of 2 (300 :: u16) \<and>
   bytes_of 2 (1024 :: u16) \<noteq> bytes_of 2 (300 :: u16)"
proof -
  have "open_data_file sample_abi sample_layout x86_64 sample_ext
      (fs_of [(''d/info'', be_header 4 0 0 300)]) stack0 (opts0 ''d'') handle0 io0 =
    (Returned (0, (opts0 ''d'')\<lparr>o_exename := Some ''/bin/app''\<rparr>,
       handle0\<lparr>hd_dirname := ''d'',
         hd_hdr := \<lparr>h_magic = ''Ftrace!'' @ [CHR 0x00], h_version = 4, h_endian = 2,
           h_feat_mask = 0, h_info_mask = 0, h_max_stack = 1024\<rparr>,
         hd_needs_byte_swap := True,
         hd_info := \<lparr>i_exename = Some ''/bin/app'', i_argspec = None\<rparr>\<rparr>),
     \<lparr>opened = [''d/info''], diags = []\<rparr>)"
    apply (simp add: open_data_file_def fopen_info_sample open_data_file_opened_def
        open_header_eval sizeof_hdr_sample length_be_header fread_be_4_nomax sample_consts
        bswap_samples Let_def load_sessions_def)
    apply (simp add: finish_open_def sample_abi_def handle0_def opts0_def init_handle_def
        empty_link_def Let_def)
    done
  moreover have "rev (bytes_of 2 (0x2C01 :: u16)) = bytes_of 2 (300 :: u16)"
    "bytes_of 2 (1024 :: u16) \<noteq> bytes_of 2 (300 :: u16)"
    by (simp_all add: bytes_of_def byte_at_def upt_rec)
  ultimately show ?thesis
    by (simp add: fread_be_4_nomax sample_consts)
qed

subsection \<open>The directory fallback\<close>

lemma read_task_txt_file_opened:
  "opened (snd (read_task_txt_file fs stack sess dirname needs_session sym_rel_addr w)) =
     opened w @ [dirname @ ''/task.txt'']"
  by (simp add: read_task_txt_file_result note_open_def split: sum.splits outcome.splits)

lemma read_task_txt_file_fails_iff:
  "(\<exists>r sess'. fst (read_task_txt_file fs stack sess dirname needs_session sym_rel_addr w) =
       Returned (r, sess') \<and> r < 0) \<longleftrightarrow>
   (\<exists>e. files fs (dirname @ ''/task.txt'') = Inl e)"
  using errno_value_pos
  by (auto simp: read_task_txt_file_result split: sum.splits outcome.splits)

text \<open>The paths that the session block opens: \<open>task.txt\<close>, and the old \<open>task\<close> file exactly
  when \<open>task.txt\<close> could not be opened.\<close>

lemma load_sessions_opened:
  "opened (snd (load_sessions a fs stack opts h w)) =
     opened w @
     (if h_feat_mask (hd_hdr h) AND TASK_SESSION a = 0 then []
      else case files fs (o_dirname opts @ ''/task.txt'') of
             Inl e \<Rightarrow> [o_dirname opts @ ''/task.txt'', snprintf 1024 (o_dirname opts @ ''/task'')]
           | Inr content \<Rightarrow> [o_dirname opts @ ''/task.txt''])"
proof (cases "h_feat_mask (hd_hdr h) AND TASK_SESSION a = 0")
  case True
  then show ?thesis by (simp add: load_sessions_def)
next
  case False
  show ?thesis
  proof (cases "files fs (o_dirname opts @ ''/task.txt'')")
    case (Inl e)
    define w1 where "w1 = note_open (o_dirname opts @ ''/task.txt'') w"
    define rt where "rt = read_task_file a fs (hd_sessions h) (o_dirname opts) True
        (h_feat_mask (hd_hdr h) AND SYM_REL_ADDR a \<noteq> 0) w1"
    have o: "opened (snd rt) = opened w @
        [o_dirname opts @ ''/task.txt'', snprintf 1024 (o_dirname opts @ ''/task'')]"
      by (simp add: rt_def read_task_file_opened w1_def note_open_def)
    have "load_sessions a fs stack opts h w =
        (case rt of
           (Aborted e, w2) \<Rightarrow> (Aborted e, w2)
         | (Returned (r2, sess2), w2) \<Rightarrow>
             (Returned (h\<lparr>hd_sessions := sess2\<rparr>),
              if r2 < 0 then emit (Warn ''invalid task file'') w2 else w2))"
      using False Inl errno_value_pos [of e]
      by (simp add: load_sessions_def Let_def read_task_txt_file_result rt_def w1_def)
    then show ?thesis
      using o False Inl
      by (cases rt) (auto simp: emit_def split: outcome.splits)
  next
    case (Inr content)
    with False show ?thesis
      by (auto simp: load_sessions_def Let_def read_task_txt_file_result note_open_def
               split: prod.splits outcome.splits)
  qed
qed

lemma open_data_file_opened_paths:
  "\<exists>rest. opened (snd (open_data_file_opened a lay m ext fs stack opts handle fp again w1)) =
      opened w1 @ rest \<and>
    set rest \<subseteq> {(if again then UFTRACE_DIR_OLD_NAME a else o_dirname opts) @ ''/task.txt'',
                 snprintf 1024 ((if again then UFTRACE_DIR_OLD_NAME a else o_dirname opts) @ ''/task'')}"
proof (cases "open_header a lay m ext opts handle fp again")
  case (Aborted e)
  then show ?thesis by (simp add: open_data_file_opened_def)
next
  case (Returned x)
  obtain opts2 h3 where x: "x = (opts2, h3)" by (cases x)
  have d: "o_dirname opts2 = (if again then UFTRACE_DIR_OLD_NAME a else o_dirname opts)"
    using open_header_Returned(6) [OF Returned [unfolded x]] .
  have "snd (open_data_file_opened a lay m ext fs stack opts handle fp again w1) =
      snd (load_sessions a fs stack opts2 h3 w1)"
    using Returned x by (auto simp: open_data_file_opened_def split: prod.splits outcome.splits)
  then show ?thesis
    using d by (auto simp: load_sessions_opened split: sum.splits)
qed

text \<open>
  C5. When the header file of the configured directory is not found and the directory is
  \<open>UFTRACE_DIR_NAME\<close>, \<open>open_data_file\<close> opens the header file of \<open>UFTRACE_DIR_OLD_NAME\<close>, once:
  these are its two \<open>fopen\<close> calls for a header, whatever the second gives. When the second
  succeeds and the function returns, \<open>opts->dirname\<close> and \<open>handle->dirname\<close> are the old name
  and every file opened afterwards lies in that directory. A first \<open>fopen\<close> that fails
  otherwise than with \<open>ENOENT\<close> ends the process after that one call.
\<close>

theorem directory_fallback:
  "(files fs (info_path (o_dirname opts)) = Inl ENOENT \<and> o_dirname opts = UFTRACE_DIR_NAME a \<longrightarrow>
      opened (snd (fopen_info a fs opts (info_path (o_dirname opts)) False w)) =
        opened w @ [info_path (UFTRACE_DIR_NAME a), info_path (UFTRACE_DIR_OLD_NAME a)] \<and>
      (\<exists>rest. opened (snd (open_data_file a lay m ext fs stack opts handle w)) =
          opened w @ [info_path (UFTRACE_DIR_NAME a), info_path (UFTRACE_DIR_OLD_NAME a)] @ rest \<and>
        set rest \<subseteq> {UFTRACE_DIR_OLD_NAME a @ ''/task.txt'',
                     snprintf 1024 (UFTRACE_DIR_OLD_NAME a @ ''/task'')}) \<and>
      (\<forall>fp r opts' h'. files fs (info_path (UFTRACE_DIR_OLD_NAME a)) = Inr fp \<and>
          fst (open_data_file a lay m ext fs stack opts handle w) = Returned (r, opts', h') \<longrightarrow>
          r = 0 \<and> o_dirname opts' = UFTRACE_DIR_OLD_NAME a \<and>
          hd_dirname h' = UFTRACE_DIR_OLD_NAME a)) \<and>
   (\<forall>e. files fs (info_path (o_dirname opts)) = Inl e \<and> e \<noteq> ENOENT \<longrightarrow>
      open_data_file a lay m ext fs stack opts handle w =
        (Aborted (Cannot_open_file (info_path (o_dirname opts))),
         note_open (info_path (o_dirname opts)) w))"
  (is "(?nf \<and> ?dn \<longrightarrow> ?once \<and> ?after \<and> ?names) \<and> ?other")
proof (intro conjI impI)
  show ?other
    by (simp add: open_data_file_def fopen_info.simps)
next
  assume both: "?nf \<and> ?dn"
  have nf: ?nf using both by (rule conjunct1)
  have dn: ?dn using both by (rule conjunct2)
  define w1 where "w1 = note_open (info_path (UFTRACE_DIR_NAME a)) w"
  define w2 where "w2 = note_open (info_path (UFTRACE_DIR_OLD_NAME a)) w1"
  have step: "fopen_info a fs opts (info_path (o_dirname opts)) False w =
      fopen_info a fs opts (info_path (UFTRACE_DIR_OLD_NAME a)) True w1"
    using nf dn by (subst fopen_info.simps) (simp add: w1_def)
  have op: "opened (snd (fopen_info a fs opts (info_path (UFTRACE_DIR_OLD_NAME a)) True w1)) =
      opened w @ [info_path (UFTRACE_DIR_NAME a), info_path (UFTRACE_DIR_OLD_NAME a)]"
    by (simp add: fopen_info_again w1_def note_open_def emit_def
          split: sum.splits option.splits)
  show ?once
    using op by (simp add: step)
  show ?after
  proof (cases "files fs (info_path (UFTRACE_DIR_OLD_NAME a))")
    case (Inl e)
    then have "snd (open_data_file a lay m ext fs stack opts handle w) =
        snd (fopen_info a fs opts (info_path (UFTRACE_DIR_OLD_NAME a)) True w1)"
      by (simp add: open_data_file_def step fopen_info_again split: option.splits)
    with op show ?thesis by simp
  next
    case (Inr fp)
    then have eq: "open_data_file a lay m ext fs stack opts handle w =
        open_data_file_opened a lay m ext fs stack opts handle fp True w2"
      by (simp add: open_data_file_def step fopen_info_again w2_def)
    from open_data_file_opened_paths [of a lay m ext fs stack opts handle fp True w2]
    show ?thesis
      by (auto simp: eq w2_def w1_def note_open_def)
  qed
  show ?names
  proof (intro allI impI, elim conjE)
    fix fp r opts' h'
    assume fp: "files fs (info_path (UFTRACE_DIR_OLD_NAME a)) = Inr fp"
      and ret: "fst (open_data_file a lay m ext fs stack opts handle w) = Returned (r, opts', h')"
    have eq: "open_data_file a lay m ext fs stack opts handle w =
        open_data_file_opened a lay m ext fs stack opts handle fp True w2"
      using fp by (simp add: open_data_file_def step fopen_info_again w2_def)
    from ret have "fst (open_data_file_opened a lay m ext fs stack opts handle fp True w2) =
        Returned (r, opts', h')"
      by (simp add: eq)
    from open_data_file_opened_Returned [OF this] obtain h3 h4 w3 where
      r: "r = 0"
      and h3: "open_header a lay m ext opts handle fp True = Returned (opts', h3)"
      and h4: "load_sessions a fs stack opts' h3 w2 = (Returned h4, w3)"
      and h': "h' = finish_open a ext opts' h4"
      by blast
    show "r = 0 \<and> o_dirname opts' = UFTRACE_DIR_OLD_NAME a \<and>
        hd_dirname h' = UFTRACE_DIR_OLD_NAME a"
      using r open_header_Returned(6,7) [OF h3] load_sessions_keeps [OF h4]
      by (simp add: h' finish_open_flags)
  qed
qed

lemma info_path_short: "length dirname < 4000 \<Longrightarrow> info_path dirname = dirname @ ''/info''"
  by (simp add: info_path_def snprintf_def PATH_MAX_def)

lemma fopen_info_fallback:
  assumes "files fs (info_path (o_dirname opts)) = Inl ENOENT"
    and "o_dirname opts = UFTRACE_DIR_NAME a"
    and "files fs (info_path (UFTRACE_DIR_OLD_NAME a)) = Inr fp"
  shows "fopen_info a fs opts (info_path (o_dirname opts)) False w =
     (Returned (Some (fp, True)),
      note_open (info_path (UFTRACE_DIR_OLD_NAME a)) (note_open (info_path (o_dirname opts)) w))"
  using assms by (subst fopen_info.simps) (simp add: fopen_info_again)

lemma fs_of_lookup:
  "files (fs_of fl) p = (case map_of fl p of Some c \<Rightarrow> Inr c | None \<Rightarrow> Inl ENOENT)"
  by (simp add: fs_of_def)

lemma open_legacy_dir:
  "open_data_file sample_abi sample_layout x86_64 sample_ext
      (fs_of [(''ftrace.dir/info'', le_header 4 0 0 0)]) stack0 (opts0 ''uftrace.data'')
      handle0 io0 =
    (Returned (0, (opts0 ''ftrace.dir'')\<lparr>o_exename := Some ''/bin/app''\<rparr>,
       handle0\<lparr>hd_dirname := ''ftrace.dir'',
         hd_hdr := \<lparr>h_magic = ''Ftrace!'' @ [CHR 0x00], h_version = 4, h_endian = 1,
           h_feat_mask = 0, h_info_mask = 0, h_max_stack = 1024\<rparr>,
         hd_info := \<lparr>i_exename = Some ''/bin/app'', i_argspec = None\<rparr>\<rparr>),
     \<lparr>opened = [''uftrace.data/info'', ''ftrace.dir/info''], diags = []\<rparr>)"
proof -
  have "fopen_info sample_abi (fs_of [(''ftrace.dir/info'', le_header 4 0 0 0)])
      (opts0 ''uftrace.data'') (info_path (o_dirname (opts0 ''uftrace.data''))) False io0 =
    (Returned (Some (le_header 4 0 0 0, True)),
     \<lparr>opened = [''uftrace.data/info'', ''ftrace.dir/info''], diags = []\<rparr>)"
    by (subst fopen_info_fallback [where fp = "le_header 4 0 0 0"])
       (simp_all add: fs_of_lookup sample_consts info_path_short opts0_def note_open_def io0_def)
  then show ?thesis
    apply (simp add: open_data_file_def open_data_file_opened_def
        open_header_eval sizeof_hdr_sample length_le_header fread_le_4 sample_consts
        Let_def load_sessions_def)
    apply (simp add: finish_open_def sample_abi_def handle0_def opts0_def init_handle_def
        empty_link_def Let_def)
    done
qed

theorem directory_fallback_witness:
  "files (fs_of [(''ftrace.dir/info'', le_header 4 0 0 0)])
      (info_path (o_dirname (opts0 ''uftrace.data''))) = Inl ENOENT \<and>
   o_dirname (opts0 ''uftrace.data'') = UFTRACE_DIR_NAME sample_abi \<and>
   opened (snd (fopen_info sample_abi (fs_of [(''ftrace.dir/info'', le_header 4 0 0 0)])
      (opts0 ''uftrace.data'') (info_path (o_dirname (opts0 ''uftrace.data''))) False io0)) =
     [''uftrace.data/info'', ''ftrace.dir/info''] \<and>
   open_data_file sample_abi sample_layout x86_64 sample_ext
      (fs_of [(''ftrace.dir/info'', le_header 4 0 0 0)]) stack0 (opts0 ''uftrace.data'')
      handle0 io0 =
    (Returned (0, (opts0 ''ftrace.dir'')\<lparr>o_exename := Some ''/bin/app''\<rparr>,
       handle0\<lparr>hd_dirname := ''ftrace.dir'',
         hd_hdr := \<lparr>h_magic = ''Ftrace!'' @ [CHR 0x00], h_version = 4, h_endian = 1,
           h_feat_mask = 0, h_info_mask = 0, h_max_stack = 1024\<rparr>,
         hd_info := \<lparr>i_exename = Some ''/bin/app'', i_argspec = None\<rparr>\<rparr>),
     \<lparr>opened = [''uftrace.data/info'', ''ftrace.dir/info''], diags = []\<rparr>) \<and>
   open_data_file sample_abi sample_layout x86_64 sample_ext
      \<lparr>files = (\<lambda>p. Inl EACCES), append_error = (\<lambda>p. None)\<rparr> stack0 (opts0 ''uftrace.data'')
      handle0 io0 =
    (Aborted (Cannot_open_file ''uftrace.data/info''),
     \<lparr>opened = [''uftrace.data/info''], diags = []\<rparr>)"
proof -
  have nf: "files (fs_of [(''ftrace.dir/info'', le_header 4 0 0 0)])
      (info_path (o_dirname (opts0 ''uftrace.data''))) = Inl ENOENT"
    and dn: "o_dirname (opts0 ''uftrace.data'') = UFTRACE_DIR_NAME sample_abi"
    by (simp_all add: fs_of_lookup sample_consts info_path_short opts0_def)
  have p: "info_path (UFTRACE_DIR_NAME sample_abi) = ''uftrace.data/info''"
    "info_path (UFTRACE_DIR_OLD_NAME sample_abi) = ''ftrace.dir/info''"
    "info_path (o_dirname (opts0 ''uftrace.data'')) = ''uftrace.data/info''"
    by (simp_all add: sample_consts info_path_short opts0_def)
  have once: "opened (snd (fopen_info sample_abi (fs_of [(''ftrace.dir/info'', le_header 4 0 0 0)])
      (opts0 ''uftrace.data'') (info_path (o_dirname (opts0 ''uftrace.data''))) False io0)) =
     [''uftrace.data/info'', ''ftrace.dir/info'']"
    using directory_fallback [where a = sample_abi
        and fs = "fs_of [(''ftrace.dir/info'', le_header 4 0 0 0)]"
        and opts = "opts0 ''uftrace.data''" and w = io0 and lay = sample_layout
        and m = x86_64 and ext = sample_ext and stack = stack0 and handle = handle0] nf dn
    by (simp add: p io0_def)
  have other: "open_data_file sample_abi sample_layout x86_64 sample_ext
      \<lparr>files = (\<lambda>p. Inl EACCES), append_error = (\<lambda>p. None)\<rparr> stack0 (opts0 ''uftrace.data'')
      handle0 io0 =
    (Aborted (Cannot_open_file ''uftrace.data/info''),
     \<lparr>opened = [''uftrace.data/info''], diags = []\<rparr>)"
    using directory_fallback [where a = sample_abi
        and fs = "\<lparr>files = (\<lambda>p. Inl EACCES), append_error = (\<lambda>p. None)\<rparr>"
        and opts = "opts0 ''uftrace.data''" and w = io0 and lay = sample_layout
        and m = x86_64 and ext = sample_ext and stack = stack0 and handle = handle0]
    by (simp add: p io0_def note_open_def)
  show ?thesis
    using nf dn once other open_legacy_dir by simp
qed

subsection \<open>The old \<open>task\<close> file\<close>

lemma read_all_sizeof:
  "read_all fd sz = (if sz \<le> length fd then Some (take sz fd, drop sz fd) else None)"
  by (simp add: read_all_def)

lemma to_size_t_nonneg: "0 \<le> n \<Longrightarrow> n < 2 ^ 64 \<Longrightarrow> to_size_t n = nat n"
  by (simp add: to_size_t_def)

lemma c_rem_nonneg: "0 \<le> n \<Longrightarrow> c_rem n 8 = n mod 8"
  by (cases "n = 0") (simp_all add: c_rem_def)

lemma sint_u32_bounds: "- (2 ^ 31) \<le> sint (n :: u32) \<and> sint n < 2 ^ 31"
  using sint_ge [of n] sint_lt [of n] by simp

text \<open>For a \<open>namelen\<close> that is not negative the sizes of the code are those of the spec.\<close>

lemma name_size_nonneg: "0 \<le> sint n \<Longrightarrow> name_size n = nat (sint n)"
  using sint_u32_bounds [of n] by (simp add: name_size_def to_size_t_nonneg)

lemma pad_size_nonneg: "0 \<le> sint n \<Longrightarrow> pad_size n = pad_len (sint n)"
proof -
  assume n: "0 \<le> sint n"
  have r: "c_rem (sint n) 8 = sint n mod 8"
    using n by (rule c_rem_nonneg)
  have b: "0 \<le> sint n mod 8" "sint n mod 8 < 8"
    by simp_all
  show ?thesis
  proof (cases "sint n mod 8 = 0")
    case True
    then show ?thesis by (simp add: pad_size_def pad_len_def r)
  next
    case False
    have "to_size_t (8 - sint n mod 8) = nat (8 - sint n mod 8)"
      using b by (intro to_size_t_nonneg) simp_all
    also have "\<dots> = 8 - nat (sint n mod 8)"
      using b by simp
    finally show ?thesis
      using False by (simp add: pad_size_def pad_len_def r)
  qed
qed


text \<open>The three reads of the \<open>SESSION\<close> case in one: they succeed exactly when the file holds
  the payload, the name and the padding, and leave the file right behind the padding.\<close>

lemma read_session_payload_eq:
  "read_session_payload a fd =
     (if sizeof_smsg a + name_size (s_namelen (decode_smsg a (take (sizeof_smsg a) fd))) +
           pad_size (s_namelen (decode_smsg a (take (sizeof_smsg a) fd))) \<le> length fd
      then Some (decode_smsg a (take (sizeof_smsg a) fd),
             take (name_size (s_namelen (decode_smsg a (take (sizeof_smsg a) fd))))
               (drop (sizeof_smsg a) fd),
             drop (sizeof_smsg a + name_size (s_namelen (decode_smsg a (take (sizeof_smsg a) fd))) +
                   pad_size (s_namelen (decode_smsg a (take (sizeof_smsg a) fd)))) fd)
      else None)"
  by (auto simp: read_session_payload_def read_all_def name_size_def pad_size_def Let_def
        ac_simps)

text \<open>One turn of the \<open>while\<close> loop of \<open>read_task_file\<close>, case by case.\<close>

lemma loop_envelope_fails:
  "length fd < sizeof_msg \<Longrightarrow>
     read_task_loop a dirname ns sr sess w fd = (Returned (0, sess), w)"
  by (subst read_task_loop.simps) (simp add: read_all_sizeof)

lemma loop_bad_magic:
  "sizeof_msg \<le> length fd \<Longrightarrow> msg_magic a (take sizeof_msg fd) \<noteq> FTRACE_MSG_MAGIC a \<Longrightarrow>
     read_task_loop a dirname ns sr sess w fd = (Returned (- 1, sess), w)"
  by (subst read_task_loop.simps) (simp add: read_all_sizeof)

lemma loop_bad_type:
  "sizeof_msg \<le> length fd \<Longrightarrow> msg_magic a (take sizeof_msg fd) = FTRACE_MSG_MAGIC a \<Longrightarrow>
   msg_type a (take sizeof_msg fd) \<noteq> FTRACE_MSG_SESSION a \<Longrightarrow>
   msg_type a (take sizeof_msg fd) \<noteq> FTRACE_MSG_TID a \<Longrightarrow>
   msg_type a (take sizeof_msg fd) \<noteq> FTRACE_MSG_FORK_END a \<Longrightarrow>
     read_task_loop a dirname ns sr sess w fd =
       (Returned (- 1, sess), emit (Log ''invalid contents in task file'') w)"
  by (subst read_task_loop.simps) (simp add: read_all_sizeof)

lemma loop_session:
  "sizeof_msg \<le> length fd \<Longrightarrow> msg_magic a (take sizeof_msg fd) = FTRACE_MSG_MAGIC a \<Longrightarrow>
   msg_type a (take sizeof_msg fd) = FTRACE_MSG_SESSION a \<Longrightarrow>
     read_task_loop a dirname ns sr sess w fd =
       (case read_session_payload a (drop sizeof_msg fd) of
          None \<Rightarrow> (Returned (- 1, sess), w)
        | Some (smsg, buf, rest) \<Rightarrow>
            read_task_loop a dirname ns sr
              (if ns then create_session sess smsg dirname buf sr else sess) w rest)"
  by (subst read_task_loop.simps) (simp add: read_all_sizeof)

lemma loop_task:
  "sizeof_msg \<le> length fd \<Longrightarrow> msg_magic a (take sizeof_msg fd) = FTRACE_MSG_MAGIC a \<Longrightarrow>
   msg_type a (take sizeof_msg fd) \<noteq> FTRACE_MSG_SESSION a \<Longrightarrow>
   msg_type a (take sizeof_msg fd) = FTRACE_MSG_TID a \<or>
   msg_type a (take sizeof_msg fd) = FTRACE_MSG_FORK_END a \<Longrightarrow>
     read_task_loop a dirname ns sr sess w fd =
       (if length fd < sizeof_msg + sizeof_tmsg a then (Returned (- 1, sess), w)
        else read_task_loop a dirname ns sr
          (create_task sess (decode_tmsg a (take (sizeof_tmsg a) (drop sizeof_msg fd)))
             (msg_type a (take sizeof_msg fd) \<noteq> FTRACE_MSG_TID a) ns)
          w (drop (sizeof_msg + sizeof_tmsg a) fd))"
  by (subst read_task_loop.simps) (auto simp: read_all_sizeof add.commute)

text \<open>A payload that the file does not hold ends the loop with -1.\<close>

lemma loop_payload_short:
  assumes "distinct [FTRACE_MSG_SESSION a, FTRACE_MSG_TID a, FTRACE_MSG_FORK_END a]"
    and "payload_short a t"
  shows "read_task_loop a dirname ns sr sess w t = (Returned (- 1, sess), w)"
proof -
  from assms(2) have len: "sizeof_msg \<le> length t"
    and mg: "msg_magic a (take sizeof_msg t) = FTRACE_MSG_MAGIC a"
    by (simp_all add: payload_short_def)
  from assms(2) consider
    (sess) "msg_type a (take sizeof_msg t) = FTRACE_MSG_SESSION a"
      "length (drop sizeof_msg t) < sizeof_smsg a +
         name_size (s_namelen (decode_smsg a (take (sizeof_smsg a) (drop sizeof_msg t)))) +
         pad_size (s_namelen (decode_smsg a (take (sizeof_smsg a) (drop sizeof_msg t))))"
    | (task) "msg_type a (take sizeof_msg t) \<in> {FTRACE_MSG_TID a, FTRACE_MSG_FORK_END a}"
      "length (drop sizeof_msg t) < sizeof_tmsg a"
    by (auto simp: payload_short_def Let_def)
  then show ?thesis
  proof cases
    case sess
    have "read_session_payload a (drop sizeof_msg t) = None"
      using sess(2) by (subst read_session_payload_eq) simp
    then show ?thesis
      by (simp add: loop_session [OF len mg sess(1)])
  next
    case task
    then have ns: "msg_type a (take sizeof_msg t) \<noteq> FTRACE_MSG_SESSION a"
      using assms(1) by auto
    from task(1) have ty: "msg_type a (take sizeof_msg t) = FTRACE_MSG_TID a \<or>
        msg_type a (take sizeof_msg t) = FTRACE_MSG_FORK_END a"
      by simp
    have "length t < sizeof_msg + sizeof_tmsg a"
      using task(2) len by simp
    then show ?thesis
      by (simp add: loop_task [OF len mg ns ty])
  qed
qed

text \<open>A whole message is taken and the loop goes on with the envelope behind it.\<close>

lemma loop_message:
  assumes "distinct [FTRACE_MSG_SESSION a, FTRACE_MSG_TID a, FTRACE_MSG_FORK_END a]"
    and "whole_message a m"
  shows "read_task_loop a dirname ns sr sess w (message_bytes m @ rest) =
     read_task_loop a dirname ns sr (apply_message a dirname ns sr sess m) w rest"
proof (cases m)
  case (Session_message env raw name pad)
  with assms(2) have e: "length env = sizeof_msg" "msg_magic a env = FTRACE_MSG_MAGIC a"
    "msg_type a env = FTRACE_MSG_SESSION a" "length raw = sizeof_smsg a"
    "length name = name_size (s_namelen (decode_smsg a raw))"
    "length pad = pad_size (s_namelen (decode_smsg a raw))"
    by simp_all
  have p: "read_session_payload a (raw @ name @ pad @ rest) =
      Some (decode_smsg a raw, name, rest)"
    by (subst read_session_payload_eq) (simp add: e)
  have "read_task_loop a dirname ns sr sess w (env @ raw @ name @ pad @ rest) =
      read_task_loop a dirname ns sr
        (if ns then create_session sess (decode_smsg a raw) dirname name sr else sess) w rest"
    by (subst loop_session) (simp_all add: e p)
  then show ?thesis
    by (simp add: Session_message)
next
  case (Tid_message env raw)
  with assms(2) have e: "length env = sizeof_msg" "msg_magic a env = FTRACE_MSG_MAGIC a"
    "msg_type a env = FTRACE_MSG_TID a" "length raw = sizeof_tmsg a"
    by simp_all
  have ns: "FTRACE_MSG_TID a \<noteq> FTRACE_MSG_SESSION a"
    using assms(1) by auto
  have "read_task_loop a dirname ns sr sess w (env @ raw @ rest) =
      read_task_loop a dirname ns sr (create_task sess (decode_tmsg a raw) False ns) w rest"
    by (subst loop_task) (simp_all add: e ns)
  then show ?thesis
    by (simp add: Tid_message)
next
  case (Fork_end_message env raw)
  with assms(2) have e: "length env = sizeof_msg" "msg_magic a env = FTRACE_MSG_MAGIC a"
    "msg_type a env = FTRACE_MSG_FORK_END a" "length raw = sizeof_tmsg a"
    by simp_all
  have ns: "FTRACE_MSG_FORK_END a \<noteq> FTRACE_MSG_SESSION a"
    "FTRACE_MSG_FORK_END a \<noteq> FTRACE_MSG_TID a"
    using assms(1) by auto
  have "read_task_loop a dirname ns sr sess w (env @ raw @ rest) =
      read_task_loop a dirname ns sr (create_task sess (decode_tmsg a raw) True ns) w rest"
    by (subst loop_task) (simp_all add: e ns)
  then show ?thesis
    by (simp add: Fork_end_message)
qed

lemma loop_messages:
  assumes "distinct [FTRACE_MSG_SESSION a, FTRACE_MSG_TID a, FTRACE_MSG_FORK_END a]"
    and "\<forall>m \<in> set ms. whole_message a m"
  shows "read_task_loop a dirname ns sr sess w (concat (map message_bytes ms) @ t) =
     read_task_loop a dirname ns sr (foldl (apply_message a dirname ns sr) sess ms) w t"
  using assms(2)
proof (induction ms arbitrary: sess)
  case Nil
  then show ?case by simp
next
  case (Cons m ms)
  have "read_task_loop a dirname ns sr sess w (message_bytes m @ concat (map message_bytes ms) @ t) =
      read_task_loop a dirname ns sr (apply_message a dirname ns sr sess m) w
        (concat (map message_bytes ms) @ t)"
    using Cons.prems by (intro loop_message [OF assms(1)]) simp
  also have "\<dots> = read_task_loop a dirname ns sr
      (foldl (apply_message a dirname ns sr) (apply_message a dirname ns sr sess m) ms) w t"
    using Cons.prems by (intro Cons.IH) simp
  finally show ?case by simp
qed




text \<open>What the loop returns, from how the file ends.\<close>

lemma loop_result:
  assumes "distinct [FTRACE_MSG_SESSION a, FTRACE_MSG_TID a, FTRACE_MSG_FORK_END a]"
    and "\<forall>m \<in> set ms. whole_message a m"
  shows "read_task_loop a dirname ns sr sess w (concat (map message_bytes ms) @ t) =
     (if envelope_short t
        then (Returned (0, foldl (apply_message a dirname ns sr) sess ms), w)
      else if bad_type a t
        then (Returned (- 1, foldl (apply_message a dirname ns sr) sess ms),
              emit (Log ''invalid contents in task file'') w)
      else if bad_magic a t \<or> payload_short a t
        then (Returned (- 1, foldl (apply_message a dirname ns sr) sess ms), w)
      else read_task_loop a dirname ns sr (foldl (apply_message a dirname ns sr) sess ms) w t)"
proof -
  have "read_task_loop a dirname ns sr s w t =
     (if envelope_short t then (Returned (0, s), w)
      else if bad_type a t then (Returned (- 1, s), emit (Log ''invalid contents in task file'') w)
      else if bad_magic a t \<or> payload_short a t then (Returned (- 1, s), w)
      else read_task_loop a dirname ns sr s w t)" for s
    using loop_envelope_fails [of t a dirname ns sr s w]
      loop_bad_magic [of t a dirname ns sr s w]
      loop_bad_type [of t a dirname ns sr s w]
      loop_payload_short [OF assms(1), of t dirname ns sr s w]
    by (auto simp: envelope_short_def bad_magic_def bad_type_def)
  then show ?thesis
    by (subst loop_messages [OF assms]) simp
qed


lemma sample_msg_consts:
  "FTRACE_MSG_MAGIC sample_abi = 0xface" "FTRACE_MSG_SESSION sample_abi = 6"
  "FTRACE_MSG_TID sample_abi = 3" "FTRACE_MSG_FORK_END sample_abi = 5"
  "sizeof_smsg sample_abi = 40" "sizeof_tmsg sample_abi = 16"
  by (simp_all add: sample_abi_def)

lemma task_path: "snprintf 1024 ''d/task'' = ''d/task''"
  by (simp add: snprintf_def)

lemma length_envelope:
  "length (envelope m t) = sizeof_msg" "take sizeof_msg (envelope m t) = envelope m t"
  "take 8 (envelope m t) = envelope m t"
  by (simp_all add: envelope_def sizeof_msg_def length_le_bytes)

lemma sample_envelopes:
  "msg_magic sample_abi (envelope 0xface 6) = 0xface"
  "msg_type sample_abi (envelope 0xface 6) = 6"
  "msg_magic sample_abi (envelope 0xface 3) = 0xface"
  "msg_type sample_abi (envelope 0xface 3) = 3"
  "msg_magic sample_abi (envelope 0xface 5) = 0xface"
  "msg_type sample_abi (envelope 0xface 5) = 5"
  "msg_magic sample_abi (envelope 0xfacf 3) = 0xfacf"
  "msg_magic sample_abi (envelope 0xface 9) = 0xface"
  "msg_type sample_abi (envelope 0xface 9) = 9"
  by code_simp+

lemma sample_session_5:
  "length (sess_payload 7 5 ''abc'' 5) = 40"
  "decode_smsg sample_abi (sess_payload 7 5 ''abc'' 5) =
     \<lparr>s_task = \<lparr>t_time = 7, t_pid = 5, t_tid = 5\<rparr>, s_sid = ''abc'', s_namelen = 5\<rparr>"
  "length (sess_payload 7 5 ''abc'' 8) = 40"
  "decode_smsg sample_abi (sess_payload 7 5 ''abc'' 8) =
     \<lparr>s_task = \<lparr>t_time = 7, t_pid = 5, t_tid = 5\<rparr>, s_sid = ''abc'', s_namelen = 8\<rparr>"
  "length (task_payload 9 5 5) = 16"
  "decode_tmsg sample_abi (task_payload 9 5 5) = \<lparr>t_time = 9, t_pid = 5, t_tid = 5\<rparr>"
  "length (task_payload 11 5 6) = 16"
  "decode_tmsg sample_abi (task_payload 11 5 6) = \<lparr>t_time = 11, t_pid = 5, t_tid = 6\<rparr>"
  by code_simp+



lemma sample_tags:
  "distinct [FTRACE_MSG_SESSION sample_abi, FTRACE_MSG_TID sample_abi,
     FTRACE_MSG_FORK_END sample_abi]"
  by (simp add: sample_msg_consts)

lemma sample_whole_messages:
  "whole_message sample_abi (Tid_message (envelope 0xface 3) (task_payload 9 5 5))"
  "whole_message sample_abi (Fork_end_message (envelope 0xface 5) (task_payload 11 5 6))"
  "whole_message sample_abi
     (Session_message (envelope 0xface 6) (sess_payload 7 5 ''abc'' 5) ''hello'' (le_bytes 3 0))"
  by (simp_all add: sample_msg_consts length_envelope sample_envelopes sample_session_5
        length_le_bytes name_size_nonneg pad_size_nonneg pad_len_def)

lemma sample_rests:
  "envelope_short []" "envelope_short ''abc''"
  "bad_magic sample_abi (envelope 0xfacf 3)"
  "bad_type sample_abi (envelope 0xface 9)"
  "payload_short sample_abi (envelope 0xface 3 @ ''abc'')"
  by (simp_all add: envelope_short_def bad_magic_def bad_type_def payload_short_def
        sample_msg_consts length_envelope sample_envelopes sizeof_msg_def)



subsection \<open>\<open>task.txt\<close> first, then the old \<open>task\<close> file\<close>

lemma open_data_file_sessions:
  assumes "fopen_info a fs opts (info_path (o_dirname opts)) False w =
             (Returned (Some (fp, again)), w1)"
    and "open_header a lay m ext opts handle fp again = Returned (opts2, h3)"
  shows "open_data_file a lay m ext fs stack opts handle w =
     (case load_sessions a fs stack opts2 h3 w1 of
        (Aborted e, w2) \<Rightarrow> (Aborted e, w2)
      | (Returned h4, w2) \<Rightarrow> (Returned (0, opts2, finish_open a ext opts2 h4), w2))"
  using assms by (simp add: open_data_file_def open_data_file_opened_def)

lemma load_sessions_both_fail:
  assumes "h_feat_mask (hd_hdr h) AND TASK_SESSION a \<noteq> 0"
    and "files fs (o_dirname opts @ ''/task.txt'') = Inl e"
    and "read_task_file a fs (hd_sessions h) (o_dirname opts) True
           (h_feat_mask (hd_hdr h) AND SYM_REL_ADDR a \<noteq> 0)
           (note_open (o_dirname opts @ ''/task.txt'') w) = (Returned (r2, sess2), w2)"
    and "r2 < 0"
  shows "load_sessions a fs stack opts h w =
     (Returned (h\<lparr>hd_sessions := sess2\<rparr>), emit (Warn ''invalid task file'') w2)"
  using assms errno_value_pos [of e]
  by (simp add: load_sessions_def Let_def read_task_txt_file_result)

lemma read_task_file_absent:
  "files fs (snprintf 1024 (dirname @ ''/task'')) = Inl e \<Longrightarrow>
     read_task_file a fs sess dirname ns sr w =
       (Returned (- 1, sess), note_open (snprintf 1024 (dirname @ ''/task'')) w)"
  by (simp add: read_task_file_def Let_def)

text \<open>
  C4, as the code has it. With the session bit in the feature mask, \<open>open_data_file\<close> opens
  \<open>task.txt\<close>, and opens the old \<open>task\<close> file exactly when \<open>read_task_txt_file\<close> reported a
  failure, which is when \<open>task.txt\<close> could not be opened. When \<open>read_task_file\<close> reports a
  failure too, \<open>open_data_file\<close> still returns 0, with the warning as its last message, and
  the registry is as \<open>read_task_file\<close> left it: empty when neither file could be opened.
\<close>

theorem session_fallback:
  assumes "fopen_info a fs opts (info_path (o_dirname opts)) False w =
             (Returned (Some (fp, again)), w1)"
    and "open_header a lay m ext opts handle fp again = Returned (opts2, h3)"
    and "h_feat_mask (hd_hdr h3) AND TASK_SESSION a \<noteq> 0"
  shows "let tpath = o_dirname opts2 @ ''/task.txt'';
             bpath = snprintf 1024 (o_dirname opts2 @ ''/task'');
             sym = (h_feat_mask (hd_hdr h3) AND SYM_REL_ADDR a \<noteq> 0);
             res = open_data_file a lay m ext fs stack opts handle w
         in opened (snd res) =
              opened w1 @ (case files fs tpath of Inl e \<Rightarrow> [tpath, bpath] | Inr c \<Rightarrow> [tpath]) \<and>
            ((\<exists>r s. fst (read_task_txt_file fs stack empty_link (o_dirname opts2) True sym w1) =
                 Returned (r, s) \<and> r < 0) \<longleftrightarrow> (\<exists>e. files fs tpath = Inl e)) \<and>
            (\<forall>e r2 sess2 w2.
               files fs tpath = Inl e \<and>
               read_task_file a fs empty_link (o_dirname opts2) True sym (note_open tpath w1) =
                 (Returned (r2, sess2), w2) \<and> r2 < 0 \<longrightarrow>
               res = (Returned (0, opts2, finish_open a ext opts2 (h3\<lparr>hd_sessions := sess2\<rparr>)),
                      emit (Warn ''invalid task file'') w2) \<and>
               hd_sessions (finish_open a ext opts2 (h3\<lparr>hd_sessions := sess2\<rparr>)) = sess2) \<and>
            (\<forall>e e'. files fs tpath = Inl e \<and> files fs bpath = Inl e' \<longrightarrow>
               res = (Returned (0, opts2, finish_open a ext opts2 (h3\<lparr>hd_sessions := empty_link\<rparr>)),
                      emit (Warn ''invalid task file'') (note_open bpath (note_open tpath w1))) \<and>
               hd_sessions (finish_open a ext opts2 (h3\<lparr>hd_sessions := empty_link\<rparr>)) =
                 empty_link)"
proof -
  define tpath where "tpath = o_dirname opts2 @ ''/task.txt''"
  define bpath where "bpath = snprintf 1024 (o_dirname opts2 @ ''/task'')"
  define sym where "sym = (h_feat_mask (hd_hdr h3) AND SYM_REL_ADDR a \<noteq> 0)"
  define res where "res = open_data_file a lay m ext fs stack opts handle w"
  have empty: "hd_sessions h3 = empty_link"
    using open_header_Returned(8) [OF assms(2)] .
  have res: "res = (case load_sessions a fs stack opts2 h3 w1 of
        (Aborted e, w2) \<Rightarrow> (Aborted e, w2)
      | (Returned h4, w2) \<Rightarrow> (Returned (0, opts2, finish_open a ext opts2 h4), w2))"
    unfolding res_def by (rule open_data_file_sessions [OF assms(1,2)])
  have "snd res = snd (load_sessions a fs stack opts2 h3 w1)"
    by (simp add: res split: prod.splits outcome.splits)
  then have paths: "opened (snd res) =
      opened w1 @ (case files fs tpath of Inl e \<Rightarrow> [tpath, bpath] | Inr c \<Rightarrow> [tpath])"
    using assms(3) by (simp add: load_sessions_opened tpath_def bpath_def split: sum.splits)
  have fails: "(\<exists>r s. fst (read_task_txt_file fs stack empty_link (o_dirname opts2) True sym w1) =
        Returned (r, s) \<and> r < 0) \<longleftrightarrow> (\<exists>e. files fs tpath = Inl e)"
    unfolding tpath_def by (rule read_task_txt_file_fails_iff)
  have both: "res = (Returned (0, opts2, finish_open a ext opts2 (h3\<lparr>hd_sessions := sess2\<rparr>)),
        emit (Warn ''invalid task file'') w2) \<and>
      hd_sessions (finish_open a ext opts2 (h3\<lparr>hd_sessions := sess2\<rparr>)) = sess2"
    if "files fs tpath = Inl e"
      "read_task_file a fs empty_link (o_dirname opts2) True sym (note_open tpath w1) =
         (Returned (r2, sess2), w2)" "r2 < 0"
    for e r2 sess2 w2
    using load_sessions_both_fail [OF assms(3), where fs = fs and opts = opts2 and e = e
        and ?r2.0 = r2 and ?sess2.0 = sess2 and w = w1 and ?w2.0 = w2 and stack = stack] that
    by (simp add: res empty tpath_def sym_def finish_open_flags)
  have none: "res = (Returned (0, opts2, finish_open a ext opts2 (h3\<lparr>hd_sessions := empty_link\<rparr>)),
        emit (Warn ''invalid task file'') (note_open bpath (note_open tpath w1))) \<and>
      hd_sessions (finish_open a ext opts2 (h3\<lparr>hd_sessions := empty_link\<rparr>)) = empty_link"
    if "files fs tpath = Inl e" "files fs bpath = Inl e'" for e e'
    using both [OF that(1), where ?r2.0 = "- 1" and ?sess2.0 = empty_link
        and ?w2.0 = "note_open bpath (note_open tpath w1)"] that(2)
    by (simp add: read_task_file_absent bpath_def)
  show ?thesis
    unfolding Let_def tpath_def [symmetric] bpath_def [symmetric] sym_def [symmetric]
      res_def [symmetric]
    using paths fails both none by blast
qed

lemma fread_le_4_sess: "fread_header sample_layout (le_header 4 2 0 0) =
  \<lparr>h_magic = ''Ftrace!'' @ [CHR 0x00], h_version = 4, h_endian = 1, h_feat_mask = 2,
   h_info_mask = 0, h_max_stack = 0\<rparr>"
  by code_simp

lemma open_header_le_4_sess:
  "open_header sample_abi sample_layout x86_64 sample_ext (opts0 ''d'') handle0
      (le_header 4 2 0 0) False =
    Returned ((opts0 ''d'')\<lparr>o_exename := Some ''/bin/app''\<rparr>,
      handle0\<lparr>hd_dirname := ''d'',
        hd_hdr := \<lparr>h_magic = ''Ftrace!'' @ [CHR 0x00], h_version = 4, h_endian = 1,
          h_feat_mask = 2, h_info_mask = 0, h_max_stack = 0\<rparr>,
        hd_info := \<lparr>i_exename = Some ''/bin/app'', i_argspec = None\<rparr>\<rparr>)"
  apply (simp add: open_header_eval sizeof_hdr_sample length_le_header fread_le_4_sess
      sample_consts Let_def)
  apply (simp add: handle0_def opts0_def init_handle_def empty_link_def)
  done

lemma finish_open_plain:
  "h_feat_mask (hd_hdr h) AND (ARGUMENT a OR RETVAL a) = 0 \<Longrightarrow>
   h_feat_mask (hd_hdr h) AND KERNEL a = 0 \<Longrightarrow>
     finish_open a ext opts h =
       (if h_feat_mask (hd_hdr h) AND MAX_STACK a = 0
        then h\<lparr>hd_hdr := (hd_hdr h)\<lparr>h_max_stack := MCOUNT_RSTACK_MAX a\<rparr>\<rparr> else h)"
  by (simp add: finish_open_def Let_def)

lemma sample_feat_consts:
  "ARGUMENT sample_abi = 8" "RETVAL sample_abi = 16" "KERNEL sample_abi = 4"
  "SYM_REL_ADDR sample_abi = 32"
  by (simp_all add: sample_abi_def)

theorem session_fallback_witness:
  "open_data_file sample_abi sample_layout x86_64 sample_ext
      (fs_of [(''d/info'', le_header 4 2 0 0)]) stack0 (opts0 ''d'') handle0 io0 =
    (Returned (0, (opts0 ''d'')\<lparr>o_exename := Some ''/bin/app''\<rparr>,
       handle0\<lparr>hd_dirname := ''d'',
         hd_hdr := \<lparr>h_magic = ''Ftrace!'' @ [CHR 0x00], h_version = 4, h_endian = 1,
           h_feat_mask = 2, h_info_mask = 0, h_max_stack = 1024\<rparr>,
         hd_info := \<lparr>i_exename = Some ''/bin/app'', i_argspec = None\<rparr>,
         hd_sessions := empty_link\<rparr>),
     \<lparr>opened = [''d/info'', ''d/task.txt'', ''d/task''],
      diags = [Warn ''invalid task file'']\<rparr>)"
proof -
  have f: "fopen_info sample_abi (fs_of [(''d/info'', le_header 4 2 0 0)]) (opts0 ''d'')
      (info_path (o_dirname (opts0 ''d''))) False io0 =
    (Returned (Some (le_header 4 2 0 0, False)), \<lparr>opened = [''d/info''], diags = []\<rparr>)"
    by (rule fopen_info_sample)
  note th = session_fallback [OF f open_header_le_4_sess, where stack = stack0]
  have absent: "files (fs_of [(''d/info'', le_header 4 2 0 0)]) ''d/task.txt'' = Inl ENOENT"
    "files (fs_of [(''d/info'', le_header 4 2 0 0)]) ''d/task'' = Inl ENOENT"
    by (simp_all add: fs_of_lookup)
  show ?thesis
    using th absent
    by (simp add: Let_def sample_consts sample_feat_consts opts0_def task_path
          finish_open_plain note_open_def emit_def handle0_def)
qed

lemma read_partial_task_file:
  "read_task_file sample_abi (fs_of [(''d/info'', c), (''d/task'', partial_task_file)])
      empty_link ''d'' True False w =
    (Returned (- 1,
       \<lparr>sessions = [\<lparr>ss_sid = ''abc'', ss_pid = 5, ss_start_time = 7, ss_exename = ''hello'',
           ss_dirname = ''d'', ss_sym_rel_addr = False, ss_dlopens = []\<rparr>],
        tasks = []\<rparr>),
     note_open ''d/task'' w)"
proof -
  have "read_task_loop sample_abi ''d'' True False empty_link (note_open ''d/task'' w)
      (concat (map message_bytes [Session_message (envelope 0xface 6)
         (sess_payload 7 5 ''abc'' 5) ''hello'' (le_bytes 3 0)]) @ envelope 0xfacf 3) =
    (Returned (- 1, foldl (apply_message sample_abi ''d'' True False) empty_link
        [Session_message (envelope 0xface 6) (sess_payload 7 5 ''abc'' 5) ''hello''
           (le_bytes 3 0)]), note_open ''d/task'' w)"
    by (subst loop_result [OF sample_tags])
       (simp_all add: sample_whole_messages sample_rests bad_type_def envelope_short_def
          length_envelope sample_envelopes sample_msg_consts sizeof_msg_def
          del: whole_message.simps)
  then show ?thesis
    by (simp add: read_task_file_def task_path fs_of_lookup Let_def create_session_def
          get_session_from_sid_def empty_link_def partial_task_file_def sample_session_5)
qed

text \<open>
  C4 as stated fails where it says that the registry is left empty: with no \<open>task.txt\<close> and
  an old \<open>task\<close> file that is cut short after a whole \<open>SESSION\<close> message, both readers report
  a failure, \<open>open_data_file\<close> returns 0 after the warning, and the registry holds the
  session.
\<close>

theorem session_fallback_counterexample:
  "fst (read_task_txt_file (fs_of [(''d/info'', le_header 4 2 0 0), (''d/task'', partial_task_file)])
      stack0 empty_link ''d'' True False \<lparr>opened = [''d/info''], diags = []\<rparr>) =
     Returned (- 2, empty_link) \<and>
   fst (read_task_file sample_abi
      (fs_of [(''d/info'', le_header 4 2 0 0), (''d/task'', partial_task_file)])
      empty_link ''d'' True False \<lparr>opened = [''d/info'', ''d/task.txt''], diags = []\<rparr>) =
     Returned (- 1,
       \<lparr>sessions = [\<lparr>ss_sid = ''abc'', ss_pid = 5, ss_start_time = 7, ss_exename = ''hello'',
           ss_dirname = ''d'', ss_sym_rel_addr = False, ss_dlopens = []\<rparr>],
        tasks = []\<rparr>) \<and>
   open_data_file sample_abi sample_layout x86_64 sample_ext
      (fs_of [(''d/info'', le_header 4 2 0 0), (''d/task'', partial_task_file)])
      stack0 (opts0 ''d'') handle0 io0 =
    (Returned (0, (opts0 ''d'')\<lparr>o_exename := Some ''/bin/app''\<rparr>,
       handle0\<lparr>hd_dirname := ''d'',
         hd_hdr := \<lparr>h_magic = ''Ftrace!'' @ [CHR 0x00], h_version = 4, h_endian = 1,
           h_feat_mask = 2, h_info_mask = 0, h_max_stack = 1024\<rparr>,
         hd_info := \<lparr>i_exename = Some ''/bin/app'', i_argspec = None\<rparr>,
         hd_sessions :=
           \<lparr>sessions = [\<lparr>ss_sid = ''abc'', ss_pid = 5, ss_start_time = 7,
               ss_exename = ''hello'', ss_dirname = ''d'', ss_sym_rel_addr = False,
               ss_dlopens = []\<rparr>],
            tasks = []\<rparr>\<rparr>),
     \<lparr>opened = [''d/info'', ''d/task.txt'', ''d/task''],
      diags = [Warn ''invalid task file'']\<rparr>)"
proof -
  define fs where "fs = fs_of [(''d/info'', le_header 4 2 0 0), (''d/task'', partial_task_file)]"
  have tx: "read_task_txt_file fs stack0 empty_link ''d'' True False w =
      (Returned (- 2, empty_link), note_open ''d/task.txt'' w)" for w
    by (simp add: read_task_txt_file_result fs_def fs_of_lookup)
  have old: "read_task_file sample_abi fs empty_link ''d'' True False w =
    (Returned (- 1,
       \<lparr>sessions = [\<lparr>ss_sid = ''abc'', ss_pid = 5, ss_start_time = 7, ss_exename = ''hello'',
           ss_dirname = ''d'', ss_sym_rel_addr = False, ss_dlopens = []\<rparr>],
        tasks = []\<rparr>),
     note_open ''d/task'' w)" for w
    unfolding fs_def by (rule read_partial_task_file)
  have f: "fopen_info sample_abi fs (opts0 ''d'') (info_path (o_dirname (opts0 ''d''))) False io0 =
    (Returned (Some (le_header 4 2 0 0, False)), \<lparr>opened = [''d/info''], diags = []\<rparr>)"
    unfolding fs_def by (rule fopen_info_sample)
  have "open_data_file sample_abi sample_layout x86_64 sample_ext fs stack0 (opts0 ''d'')
      handle0 io0 =
    (Returned (0, (opts0 ''d'')\<lparr>o_exename := Some ''/bin/app''\<rparr>,
       handle0\<lparr>hd_dirname := ''d'',
         hd_hdr := \<lparr>h_magic = ''Ftrace!'' @ [CHR 0x00], h_version = 4, h_endian = 1,
           h_feat_mask = 2, h_info_mask = 0, h_max_stack = 1024\<rparr>,
         hd_info := \<lparr>i_exename = Some ''/bin/app'', i_argspec = None\<rparr>,
         hd_sessions :=
           \<lparr>sessions = [\<lparr>ss_sid = ''abc'', ss_pid = 5, ss_start_time = 7,
               ss_exename = ''hello'', ss_dirname = ''d'', ss_sym_rel_addr = False,
               ss_dlopens = []\<rparr>],
            tasks = []\<rparr>\<rparr>),
     \<lparr>opened = [''d/info'', ''d/task.txt'', ''d/task''],
      diags = [Warn ''invalid task file'']\<rparr>)"
    apply (simp add: open_data_file_sessions [OF f open_header_le_4_sess] load_sessions_def
        sample_consts sample_feat_consts Let_def)
    apply (simp add: opts0_def handle0_def tx old finish_open_plain
        sample_consts sample_feat_consts note_open_def emit_def)
    done
  then show ?thesis
    using tx old unfolding fs_def by simp
qed

subsection \<open>What \<open>read_task_txt_file\<close> reports\<close>

lemma fmt_dlop:
  "parse_fmt ''timestamp=%lu.%lu tid=%d sid=%s base=%lx'' =
     [Lit CHR ''t'', Lit CHR ''i'', Lit CHR ''m'', Lit CHR ''e'', Lit CHR ''s'', Lit CHR ''t'',
      Lit CHR ''a'', Lit CHR ''m'', Lit CHR ''p'', Lit CHR ''='', Conv_lu, Lit CHR ''.'', Conv_lu,
      Space, Lit CHR ''t'', Lit CHR ''i'', Lit CHR ''d'', Lit CHR ''='', Conv_d, Space,
      Lit CHR ''s'', Lit CHR ''i'', Lit CHR ''d'', Lit CHR ''='', Conv_s, Space,
      Lit CHR ''b'', Lit CHR ''a'', Lit CHR ''s'', Lit CHR ''e'', Lit CHR ''='', Conv_lx]"
  by (simp add: parse_fmt.simps isspace_def)

lemma fmt_sess:
  "parse_fmt ''timestamp=%lu.%lu %*[^i]id=%d sid=%s'' =
     [Lit CHR ''t'', Lit CHR ''i'', Lit CHR ''m'', Lit CHR ''e'', Lit CHR ''s'', Lit CHR ''t'',
      Lit CHR ''a'', Lit CHR ''m'', Lit CHR ''p'', Lit CHR ''='', Conv_lu, Lit CHR ''.'', Conv_lu,
      Space, Skip_not CHR ''i'', Lit CHR ''i'', Lit CHR ''d'', Lit CHR ''='', Conv_d, Space,
      Lit CHR ''s'', Lit CHR ''i'', Lit CHR ''d'', Lit CHR ''='', Conv_s]"
  by (simp add: parse_fmt.simps isspace_def)

lemma fmt_task:
  "parse_fmt ''timestamp=%lu.%lu tid=%d pid=%d'' =
     [Lit CHR ''t'', Lit CHR ''i'', Lit CHR ''m'', Lit CHR ''e'', Lit CHR ''s'', Lit CHR ''t'',
      Lit CHR ''a'', Lit CHR ''m'', Lit CHR ''p'', Lit CHR ''='', Conv_lu, Lit CHR ''.'', Conv_lu,
      Space, Lit CHR ''t'', Lit CHR ''i'', Lit CHR ''d'', Lit CHR ''='', Conv_d, Space,
      Lit CHR ''p'', Lit CHR ''i'', Lit CHR ''d'', Lit CHR ''='', Conv_d]"
  by (simp add: parse_fmt.simps isspace_def)

lemmas scan_defs = scan_lu_def scan_d_def scan_lx_def scan_s_def scan_sign_def strip_0x_def
  isspace_def isdigit_def isxdigit_def digits_value_def digit_val_def strtoul_value_def
  strtol_value_def

lemmas line_defs = dlop_line_sid_def sess_line_sid_def got_line_def getline_def store_def store_field_def cstr_def process_line_def
  task_line_def sess_line_def dlop_line_def scan_task_def scan_sess_def scan_dlop_def
  fmt_task fmt_sess fmt_dlop scan_defs stack0_def empty_link_def get_session_from_sid_def
  create_session_def create_task_def session_add_dlopen_def cut_last_quote_def
  cut_in_buffer_def compose_time_def NSEC_PER_SEC_def Let_def


lemma read_lines_append:
  "read_lines dirname ns sr st (xs @ ys) =
     (case read_lines dirname ns sr st xs of
        Aborted e \<Rightarrow> Aborted e
      | Returned st' \<Rightarrow> read_lines dirname ns sr st' ys)"
  by (induction xs arbitrary: st) (auto split: outcome.splits)










subsection \<open>The assertion of a \<open>DLOP\<close> line\<close>

















subsection \<open>Printing and scanning numbers\<close>

lemma isdigit_digit_char: "d < 10 \<Longrightarrow> isdigit (digit_char d)"
  by (simp add: isdigit_def digit_char_def)

lemma digit_val_digit_char: "d < 10 \<Longrightarrow> digit_val (digit_char d) = d"
  by (simp add: digit_val_def digit_char_def)

lemma digits_nonempty: "digits b n \<noteq> []"
  by (subst digits.simps) simp

lemma digits_isdigit: "c \<in> set (digits 10 n) \<Longrightarrow> isdigit c"
proof (induction "10 :: nat" n arbitrary: c rule: digits.induct)
  case (1 n)
  show ?case
  proof (cases "n < 10")
    case True
    with "1.prems" show ?thesis
      by (subst (asm) digits.simps) (simp add: isdigit_digit_char)
  next
    case False
    with "1.prems" have "c \<in> set (digits 10 (n div 10)) \<or> c = digit_char (n mod 10)"
      by (subst (asm) digits.simps) auto
    then show ?thesis
      using "1.hyps" False by (auto simp: isdigit_digit_char)
  qed
qed

lemma digits_value_snoc:
  "digits_value b (ds @ [c]) = b * digits_value b ds + digit_val c"
  by (simp add: digits_value_def)

lemma digits_value_digits: "digits_value 10 (digits 10 n) = n"
proof (induction "10 :: nat" n rule: digits.induct)
  case (1 n)
  show ?case
  proof (cases "n < 10")
    case True
    then show ?thesis
      by (subst digits.simps) (simp add: digits_value_def digit_val_digit_char)
  next
    case False
    then have "digits_value 10 (digits 10 n) =
        10 * digits_value 10 (digits 10 (n div 10)) + digit_val (digit_char (n mod 10))"
      by (subst digits.simps) (simp add: digits_value_snoc)
    also have "\<dots> = 10 * (n div 10) + n mod 10"
      using "1.hyps" False by (simp add: digit_val_digit_char)
    finally show ?thesis by simp
  qed
qed

lemma digits_length: "0 < k \<Longrightarrow> n < 10 ^ k \<Longrightarrow> length (digits 10 n) \<le> k"
proof (induction k arbitrary: n)
  case 0
  then show ?case by simp
next
  case (Suc k)
  show ?case
  proof (cases "n < 10")
    case True
    then show ?thesis by (subst digits.simps) simp
  next
    case False
    then have k: "0 < k"
      using Suc.prems by (cases k) simp_all
    have "n div 10 < 10 ^ k"
      using Suc.prems by (simp add: less_mult_imp_div_less mult.commute)
    then have "length (digits 10 (n div 10)) \<le> k"
      using k by (rule Suc.IH [rotated])
    then show ?thesis
      using False by (subst digits.simps) simp
  qed
qed

lemma digits_value_zeros: "digits_value 10 (replicate k CHR ''0'' @ ds) = digits_value 10 ds"
proof -
  have "foldl (\<lambda>acc c. 10 * acc + digit_val c) 0 (replicate k CHR ''0'') = 0"
    by (induction k) (simp_all add: digit_val_def)
  then show ?thesis
    by (simp add: digits_value_def)
qed

lemma isdigit_props:
  assumes "isdigit c"
  shows "\<not> isspace c" "c \<noteq> CHR ''-''" "c \<noteq> CHR ''+''" "c \<noteq> CHR 0x00" "c \<noteq> CHR 0x0A"
  using assms by (auto simp: isdigit_def isspace_def Let_def)

text \<open>\<open>%lu\<close> and \<open>%d\<close> on a string of digits that ends at a character that is no digit.\<close>

lemma scan_digits:
  assumes "ds \<noteq> []" and "\<forall>x \<in> set ds. isdigit x" and "\<not> isdigit c"
  shows "scan_sign (dropWhile isspace (ds @ c # rest)) = (False, ds @ c # rest)"
    and "takeWhile isdigit (ds @ c # rest) = ds"
    and "dropWhile isdigit (ds @ c # rest) = c # rest"
proof -
  from assms(1) obtain d ds' where ds: "ds = d # ds'"
    by (cases ds) auto
  with assms(2) have d: "isdigit d" by simp
  show "scan_sign (dropWhile isspace (ds @ c # rest)) = (False, ds @ c # rest)"
    using isdigit_props [OF d] by (simp add: ds scan_sign_def)
  show "takeWhile isdigit (ds @ c # rest) = ds"
    using assms(2,3) by (simp add: takeWhile_append2)
  show "dropWhile isdigit (ds @ c # rest) = c # rest"
    using assms(2,3) by (simp add: dropWhile_append2)
qed

lemma scan_lu_digits:
  assumes "ds \<noteq> []" and "\<forall>x \<in> set ds. isdigit x" and "\<not> isdigit c"
  shows "scan_lu (ds @ c # rest) = Some (strtoul_value False (digits_value 10 ds), c # rest)"
  using assms(1) by (simp add: scan_lu_def scan_digits [OF assms])

lemma scan_lu_print_lu:
  assumes "\<not> isdigit c"
  shows "scan_lu (print_lu v @ c # rest) = Some (v, c # rest)"
proof -
  have "unat v < 2 ^ 64"
    using unsigned_less [of v, where 'a = nat] by simp
  then have "strtoul_value False (digits_value 10 (digits 10 (unat v))) = v"
    by (simp add: digits_value_digits strtoul_value_def)
  then show ?thesis
    using scan_lu_digits [of "digits 10 (unat v)" c rest] assms
    by (simp add: print_lu_def digits_nonempty digits_isdigit)
qed

lemma length_print_09lu:
  assumes "unat v < 10 ^ 9"
  shows "length (print_09lu v) = 9"
proof -
  have "length (digits 10 (unat v)) \<le> 9"
    using assms by (intro digits_length) simp_all
  then show ?thesis
    by (simp add: print_09lu_def print_lu_def)
qed

lemma scan_lu_print_09lu:
  assumes "\<not> isdigit c"
  shows "scan_lu (print_09lu v @ c # rest) = Some (v, c # rest)"
proof -
  define ds where "ds = replicate (9 - length (print_lu v)) CHR ''0'' @ print_lu v"
  have z: "isdigit CHR ''0''"
    by (simp add: isdigit_def)
  have d: "ds \<noteq> []" "\<forall>x \<in> set ds. isdigit x"
    using z by (auto simp: ds_def print_lu_def digits_nonempty digits_isdigit)
  have "unat v < 2 ^ 64"
    using unsigned_less [of v, where 'a = nat] by simp
  then have "strtoul_value False (digits_value 10 ds) = v"
    by (simp add: ds_def print_lu_def digits_value_zeros digits_value_digits strtoul_value_def)
  then show ?thesis
    using scan_lu_digits [OF d assms, of rest] by (simp add: print_09lu_def ds_def)
qed

lemma scan_d_print_d:
  assumes "\<not> isdigit c"
  shows "scan_d (print_d w @ c # rest) = Some (w, c # rest)"
proof (cases "sint w < 0")
  case True
  define n where "n = nat (- sint w)"
  have b: "n \<le> 2 ^ 31"
    using sint_ge [of w] by (simp add: n_def)
  have d: "digits 10 n \<noteq> []" "\<forall>x \<in> set (digits 10 n). isdigit x"
    by (simp_all add: digits_nonempty digits_isdigit)
  have "scan_d (CHR ''-'' # digits 10 n @ c # rest) =
      Some (word_of_int (strtol_value True n), c # rest)"
    using d(1) scan_digits(2,3) [OF d assms, of rest]
    by (simp add: scan_d_def scan_sign_def isspace_def digits_value_digits)
  moreover have "strtol_value True n = sint w"
    using b True by (simp add: strtol_value_def n_def)
  ultimately show ?thesis
    using True by (simp add: print_d_def n_def)
next
  case False
  define n where "n = nat (sint w)"
  have b: "n < 2 ^ 31"
    using sint_lt [of w] False by (simp add: n_def)
  have d: "digits 10 n \<noteq> []" "\<forall>x \<in> set (digits 10 n). isdigit x"
    by (simp_all add: digits_nonempty digits_isdigit)
  have "scan_d (digits 10 n @ c # rest) =
      Some (word_of_int (strtol_value False n), c # rest)"
    using d(1) scan_digits [OF d assms, of rest]
    by (simp add: scan_d_def digits_value_digits)
  moreover have "strtol_value False n = sint w"
    using b False by (simp add: strtol_value_def n_def)
  ultimately show ?thesis
    using False by (simp add: print_d_def n_def)
qed

subsection \<open>A \<open>TASK\<close> line written and read back\<close>

lemma char_in_digits:
  "c \<in> set (digits 10 n) \<Longrightarrow> c \<noteq> CHR 0x00 \<and> c \<noteq> CHR 0x0A"
  using isdigit_props(4,5) [of c] digits_isdigit [of c n] by blast

lemma char_in_print_lu: "c \<in> set (print_lu v) \<Longrightarrow> c \<noteq> CHR 0x00 \<and> c \<noteq> CHR 0x0A"
  by (simp add: print_lu_def char_in_digits)

lemma char_in_print_09lu: "c \<in> set (print_09lu v) \<Longrightarrow> c \<noteq> CHR 0x00 \<and> c \<noteq> CHR 0x0A"
  using char_in_print_lu [of c v] by (auto simp: print_09lu_def)

lemma char_in_print_d: "c \<in> set (print_d v) \<Longrightarrow> c \<noteq> CHR 0x00 \<and> c \<noteq> CHR 0x0A"
  using char_in_digits [of c] by (auto simp: print_d_def split: if_splits)

lemma length_print_lu: "length (print_lu v) \<le> 20"
proof -
  have "unat v < 2 ^ 64"
    using unsigned_less [of v, where 'a = nat] by simp
  then have "unat v < 10 ^ 20"
    by simp
  then show ?thesis
    unfolding print_lu_def by (intro digits_length) simp_all
qed

lemma unat_nsec: "unat (t mod NSEC_PER_SEC) < 10 ^ 9"
proof -
  have "unat (t mod NSEC_PER_SEC) = unat t mod 1000000000"
    by (simp add: NSEC_PER_SEC_def unat_mod)
  then show ?thesis by simp
qed

text \<open>The timestamp fits the buffer of 128 bytes.\<close>

lemma snprint_timestamp_128:
  "snprint_timestamp 128 t =
     print_lu (t div NSEC_PER_SEC) @ CHR ''.'' # print_09lu (t mod NSEC_PER_SEC)"
  using length_print_lu [of "t div NSEC_PER_SEC"] length_print_09lu [OF unat_nsec, of t]
  by (simp add: snprint_timestamp_def snprintf_def)

lemma sec_nsec: "t div NSEC_PER_SEC * NSEC_PER_SEC + t mod NSEC_PER_SEC = (t :: u64)"
  by (simp add: div_mult_mod_eq)

lemma cstr_line:
  assumes "CHR 0x00 \<notin> set s"
  shows "cstr (s @ CHR 0x00 # rest) = s"
  using assms by (induction s) (auto simp: cstr_def)

lemma task_text_chars:
  "CHR 0x00 \<notin> set (snprint_timestamp 128 t @ '' tid='' @ print_d a @ '' pid='' @ print_d b)"
  "CHR 0x0A \<notin> set (snprint_timestamp 128 t @ '' tid='' @ print_d a @ '' pid='' @ print_d b)"
  using char_in_print_lu [of _ "t div NSEC_PER_SEC"] char_in_print_09lu [of _ "t mod NSEC_PER_SEC"]
    char_in_print_d [of _ a] char_in_print_d [of _ b]
  by (auto simp: snprint_timestamp_128)

text \<open>\<open>sscanf\<close> on the line that \<open>write_task_info\<close> prints gives back what was printed.\<close>

lemma sscanf_task_text:
  "sscanf (''timestamp='' @ snprint_timestamp 128 t @ '' tid='' @ print_d a @ '' pid='' @
       print_d b @ [CHR 0x0A])
     (parse_fmt ''timestamp=%lu.%lu tid=%d pid=%d'') =
   [C_ulong (t div NSEC_PER_SEC), C_ulong (t mod NSEC_PER_SEC), C_int a, C_int b]"
proof -
  have nd: "\<not> isdigit CHR ''.''" "\<not> isdigit CHR '' ''" "\<not> isdigit CHR 0x0A"
    by (simp_all add: isdigit_def)
  have sp: "isspace CHR '' ''" "\<not> isspace CHR ''t''" "\<not> isspace CHR ''p''"
    by (simp_all add: isspace_def)
  show ?thesis
    by (simp add: fmt_task snprint_timestamp_128 scan_lu_print_lu [OF nd(1)]
          scan_lu_print_09lu [OF nd(2)] scan_d_print_d [OF nd(2)] scan_d_print_d [OF nd(3)] sp)
qed

lemma task_text_line:
  fixes tmsg :: task_msg
  defines "line \<equiv> ''TASK timestamp='' @ snprint_timestamp 128 (t_time tmsg) @ '' tid='' @
      print_d (t_tid tmsg) @ '' pid='' @ print_d (t_pid tmsg) @ [CHR 0x0A]"
  shows "process_line dirname ns sr (got_line st line) =
     Returned ((fst st)\<lparr>l_line := getline (l_line (fst st)) line,
                  l_sec := t_time tmsg div NSEC_PER_SEC,
                  l_nsec := t_time tmsg mod NSEC_PER_SEC, l_tmsg := tmsg\<rparr>,
               create_task (snd st) tmsg False ns)"
proof -
  define body where "body = snprint_timestamp 128 (t_time tmsg) @ '' tid='' @
      print_d (t_tid tmsg) @ '' pid='' @ print_d (t_pid tmsg)"
  have line: "line = ''TASK timestamp='' @ body @ [CHR 0x0A]"
    by (simp add: line_def body_def)
  have z: "CHR 0x00 \<notin> set body"
    unfolding body_def by (rule task_text_chars)
  have b: "getline buf line = ''TASK timestamp='' @ body @ CHR 0x0A # CHR 0x00 # drop (length line + 1) buf"
    for buf
    by (simp add: getline_def store_def line)
  have tag: "take 4 (cstr (getline buf line)) = ''TASK''" for buf
    by (simp add: b cstr_def)
  have "cstr (drop 5 (getline buf line)) =
      cstr ((''timestamp='' @ body @ [CHR 0x0A]) @ CHR 0x00 # drop (length line + 1) buf)" for buf
    by (simp add: b)
  also have "\<dots> buf = ''timestamp='' @ body @ [CHR 0x0A]" for buf
    using z by (intro cstr_line) simp
  finally have rest: "cstr (drop 5 (getline buf line)) = ''timestamp='' @ body @ [CHR 0x0A]" for buf .
  have scan: "scan_task (getline buf line) l =
      l\<lparr>l_sec := t_time tmsg div NSEC_PER_SEC, l_nsec := t_time tmsg mod NSEC_PER_SEC,
        l_tmsg := (l_tmsg l)\<lparr>t_tid := t_tid tmsg, t_pid := t_pid tmsg\<rparr>\<rparr>" for buf l
    unfolding scan_task_def rest body_def
    using sscanf_task_text [of "t_time tmsg" "t_tid tmsg" "t_pid tmsg"] by simp
  have rec: "(x :: task_msg)\<lparr>t_tid := t_tid tmsg, t_pid := t_pid tmsg, t_time := t_time tmsg\<rparr> =
      tmsg" for x
    by (cases x, cases tmsg) simp
  show ?thesis
    by (simp add: process_line_def got_line_def tag task_line_def scan Let_def compose_time_def
          sec_nsec rec)
qed

lemma getlines_append:
  "c \<noteq> [] \<Longrightarrow> last c = CHR 0x0A \<Longrightarrow> getlines acc (c @ d) = getlines acc c @ getlines [] d"
proof (induction c arbitrary: acc)
  case Nil
  then show ?case by simp
next
  case (Cons x c)
  show ?case
  proof (cases "c = []")
    case True
    with Cons.prems show ?thesis by simp
  next
    case False
    with Cons.prems have "last c = CHR 0x0A" by simp
    with False Cons.IH show ?thesis by simp
  qed
qed

lemma getlines_one:
  "CHR 0x0A \<notin> set body \<Longrightarrow> getlines acc (body @ [CHR 0x0A]) = [rev acc @ body @ [CHR 0x0A]]"
  by (induction body arbitrary: acc) auto

lemma getlines_appended:
  assumes "c = [] \<or> last c = CHR 0x0A" and "CHR 0x0A \<notin> set body"
  shows "getlines [] (c @ body @ [CHR 0x0A]) = getlines [] c @ [body @ [CHR 0x0A]]"
proof (cases "c = []")
  case True
  then show ?thesis
    using getlines_one [OF assms(2), of "[]"] by simp
next
  case False
  with assms(1) have "last c = CHR 0x0A" by simp
  then show ?thesis
    using getlines_append [OF False, of "[]" "body @ [CHR 0x0A]"]
      getlines_one [OF assms(2), of "[]"]
    by simp
qed

text \<open>
  C7. The line that \<open>write_task_info\<close> prints for a task message, read by the loop of
  \<open>read_task_txt_file\<close> in any state, is a \<open>TASK\<close> line: \<open>sscanf\<close> leaves the seconds and the
  nanoseconds of the timestamp in \<open>sec\<close> and \<open>nsec\<close>, the recomposed time
  \<open>sec * NSEC_PER_SEC + nsec\<close> is the timestamp, and \<open>create_task\<close> is called with the task
  message that was written: the same \<open>tid\<close>, \<open>pid\<close> and \<open>time\<close>, for every \<open>tid\<close>, \<open>pid\<close> and
  \<open>time\<close>. On files: when \<open>task.txt\<close> can be opened for appending, \<open>write_task_info\<close> adds
  the line at its end; read back from a \<open>task.txt\<close> that was not there, the registry gets
  that task, and read back from a \<open>task.txt\<close> whose lines were complete and are read
  without ending the process, the registry gets that task after what the earlier lines
  put there.
\<close>

theorem task_roundtrip:
  fixes fs :: filesystem and dirname :: string and tmsg :: task_msg and ns sr :: bool
    and stack :: txt_locals and sess :: uftrace_session_link and w :: io
  defines "path \<equiv> dirname @ ''/task.txt''"
    and "line \<equiv> ''TASK timestamp='' @ snprint_timestamp 128 (t_time tmsg) @ '' tid='' @
      print_d (t_tid tmsg) @ '' pid='' @ print_d (t_pid tmsg) @ [CHR 0x0A]"
  shows "(\<forall>st. \<exists>l'. process_line dirname ns sr (got_line st line) =
          Returned (l', create_task (snd st) tmsg False ns) \<and>
        l_sec l' = t_time tmsg div NSEC_PER_SEC \<and> l_nsec l' = t_time tmsg mod NSEC_PER_SEC \<and>
        l_sec l' * NSEC_PER_SEC + l_nsec l' = t_time tmsg \<and> l_tmsg l' = tmsg) \<and>
     (append_error fs path = None \<longrightarrow>
        (\<exists>fs'. write_task_info fs dirname tmsg = Returned fs' \<and>
           files fs' path =
             (case files fs path of
                Inr c \<Rightarrow> Inr (c @ line)
              | Inl e \<Rightarrow> if e = ENOENT then Inr line else Inl e))) \<and>
     (append_error fs path = None \<and> files fs path = Inl ENOENT \<longrightarrow>
        (\<exists>fs'. write_task_info fs dirname tmsg = Returned fs' \<and>
           read_task_txt_file fs' stack sess dirname ns sr w =
             (Returned (0, create_task sess tmsg False ns), note_open path w))) \<and>
     (\<forall>c st. append_error fs path = None \<and> files fs path = Inr c \<and>
        (c = [] \<or> last c = CHR 0x0A) \<and>
        read_lines dirname ns sr (stack, sess) (getlines [] c) = Returned st \<longrightarrow>
        (\<exists>fs'. write_task_info fs dirname tmsg = Returned fs' \<and>
           read_task_txt_file fs' stack sess dirname ns sr w =
             (Returned (0, create_task (snd st) tmsg False ns), note_open path w)))"
proof -
  define body where "body = ''TASK timestamp='' @ snprint_timestamp 128 (t_time tmsg) @
      '' tid='' @ print_d (t_tid tmsg) @ '' pid='' @ print_d (t_pid tmsg)"
  have line: "line = body @ [CHR 0x0A]"
    by (simp add: line_def body_def)
  have nl: "CHR 0x0A \<notin> set body"
    using task_text_chars(2) [of "t_time tmsg" "t_tid tmsg" "t_pid tmsg"]
    by (simp add: body_def)
  have pl: "process_line dirname ns sr (got_line st line) =
     Returned ((fst st)\<lparr>l_line := getline (l_line (fst st)) line,
                  l_sec := t_time tmsg div NSEC_PER_SEC,
                  l_nsec := t_time tmsg mod NSEC_PER_SEC, l_tmsg := tmsg\<rparr>,
               create_task (snd st) tmsg False ns)" for st
    unfolding line_def by (rule task_text_line)
  have wr: "write_task_info fs dirname tmsg =
      Returned (fs\<lparr>files := (files fs)(path :=
        (case files fs path of
           Inr c \<Rightarrow> Inr (c @ line)
         | Inl e \<Rightarrow> if e = ENOENT then Inr line else Inl e))\<rparr>)"
    if "append_error fs path = None"
    using that unfolding write_task_info_def append_file_def path_def line_def by simp
  have rd: "read_task_txt_file fs' stack sess dirname ns sr w =
      (Returned (0, create_task (snd st) tmsg False ns), note_open path w)"
    if "files fs' path = Inr (c @ line)" and "c = [] \<or> last c = CHR 0x0A"
      and "read_lines dirname ns sr (stack, sess) (getlines [] c) = Returned st"
    for fs' c st
  proof -
    have "getlines [] (c @ line) = getlines [] c @ [line]"
      unfolding line using that(2) nl by (rule getlines_appended)
    then have "read_lines dirname ns sr (stack, sess) (getlines [] (c @ line)) =
        process_line dirname ns sr (got_line st line)"
      using that(3) by (simp add: read_lines_append split: outcome.splits)
    then show ?thesis
      using that(1) by (simp add: read_task_txt_file_result path_def [symmetric] pl)
  qed
  have c1: "\<forall>st. \<exists>l'. process_line dirname ns sr (got_line st line) =
          Returned (l', create_task (snd st) tmsg False ns) \<and>
        l_sec l' = t_time tmsg div NSEC_PER_SEC \<and> l_nsec l' = t_time tmsg mod NSEC_PER_SEC \<and>
        l_sec l' * NSEC_PER_SEC + l_nsec l' = t_time tmsg \<and> l_tmsg l' = tmsg"
    by (simp add: pl sec_nsec)
  have c2: "append_error fs path = None \<longrightarrow>
        (\<exists>fs'. write_task_info fs dirname tmsg = Returned fs' \<and>
           files fs' path =
             (case files fs path of
                Inr c \<Rightarrow> Inr (c @ line)
              | Inl e \<Rightarrow> if e = ENOENT then Inr line else Inl e))"
    by (simp add: wr)
  have c3: "append_error fs path = None \<and> files fs path = Inl ENOENT \<longrightarrow>
        (\<exists>fs'. write_task_info fs dirname tmsg = Returned fs' \<and>
           read_task_txt_file fs' stack sess dirname ns sr w =
             (Returned (0, create_task sess tmsg False ns), note_open path w))"
  proof
    assume h: "append_error fs path = None \<and> files fs path = Inl ENOENT"
    define fs' where "fs' = fs\<lparr>files := (files fs)(path := Inr line)\<rparr>"
    have "write_task_info fs dirname tmsg = Returned fs'"
      using h by (simp add: wr fs'_def)
    moreover have "read_task_txt_file fs' stack sess dirname ns sr w =
        (Returned (0, create_task (snd (stack, sess)) tmsg False ns), note_open path w)"
      by (rule rd [of fs' "[]"]) (simp_all add: fs'_def)
    ultimately show "\<exists>fs'. write_task_info fs dirname tmsg = Returned fs' \<and>
           read_task_txt_file fs' stack sess dirname ns sr w =
             (Returned (0, create_task sess tmsg False ns), note_open path w)"
      by simp
  qed
  have c4: "\<forall>c st. append_error fs path = None \<and> files fs path = Inr c \<and>
        (c = [] \<or> last c = CHR 0x0A) \<and>
        read_lines dirname ns sr (stack, sess) (getlines [] c) = Returned st \<longrightarrow>
        (\<exists>fs'. write_task_info fs dirname tmsg = Returned fs' \<and>
           read_task_txt_file fs' stack sess dirname ns sr w =
             (Returned (0, create_task (snd st) tmsg False ns), note_open path w))"
  proof (intro allI impI)
    fix c st
    assume h: "append_error fs path = None \<and> files fs path = Inr c \<and>
        (c = [] \<or> last c = CHR 0x0A) \<and>
        read_lines dirname ns sr (stack, sess) (getlines [] c) = Returned st"
    define fs' where "fs' = fs\<lparr>files := (files fs)(path := Inr (c @ line))\<rparr>"
    have "write_task_info fs dirname tmsg = Returned fs'"
      using h by (simp add: wr fs'_def)
    moreover have "read_task_txt_file fs' stack sess dirname ns sr w =
        (Returned (0, create_task (snd st) tmsg False ns), note_open path w)"
      using h by (intro rd [of fs' c]) (simp_all add: fs'_def)
    ultimately show "\<exists>fs'. write_task_info fs dirname tmsg = Returned fs' \<and>
           read_task_txt_file fs' stack sess dirname ns sr w =
             (Returned (0, create_task (snd st) tmsg False ns), note_open path w)"
      by simp
  qed
  show ?thesis
    using c1 c2 c3 c4 by (intro conjI)
qed

lemma sample_task_text:
  "snprint_timestamp 128 10000000001 = ''10.000000001''"
  "snprint_timestamp 128 (- 1) = ''18446744073.709551615''"
  "print_d 5 = ''5''" "print_d 7 = ''7''" "print_d (- 1) = ''-1''"
  by (simp_all add: snprint_timestamp_128 print_lu_def print_09lu_def print_d_def
        NSEC_PER_SEC_def digits.simps digit_char_def unat_div unat_mod) code_simp+

theorem task_roundtrip_witness:
  "append_error (fs_of []) ''d/task.txt'' = None \<and>
   files (fs_of []) ''d/task.txt'' = Inl ENOENT \<and>
   (\<exists>fs'. write_task_info (fs_of []) ''d'' \<lparr>t_time = 10000000001, t_pid = 5, t_tid = 5\<rparr> =
        Returned fs' \<and>
      files fs' ''d/task.txt'' = Inr (''TASK timestamp=10.000000001 tid=5 pid=5'' @ [CHR 0x0A]) \<and>
      read_task_txt_file fs' stack0 empty_link ''d'' True False io0 =
        (Returned (0, \<lparr>sessions = [],
           tasks = [\<lparr>tk_tid = 5, tk_pid = 5, tk_time = 10000000001, tk_forked = False\<rparr>]\<rparr>),
         \<lparr>opened = [''d/task.txt''], diags = []\<rparr>)) \<and>
   (\<exists>fs'. write_task_info (fs_of []) ''d'' \<lparr>t_time = - 1, t_pid = - 1, t_tid = 7\<rparr> =
        Returned fs' \<and>
      files fs' ''d/task.txt'' =
        Inr (''TASK timestamp=18446744073.709551615 tid=7 pid=-1'' @ [CHR 0x0A]) \<and>
      read_task_txt_file fs' stack0 empty_link ''d'' True False io0 =
        (Returned (0, \<lparr>sessions = [],
           tasks = [\<lparr>tk_tid = 7, tk_pid = - 1, tk_time = - 1, tk_forked = False\<rparr>]\<rparr>),
         \<lparr>opened = [''d/task.txt''], diags = []\<rparr>)) \<and>
   (\<exists>fs'. write_task_info
        (fs_of [(''d/task.txt'', ''TASK timestamp=1.000000002 tid=3 pid=4'' @ [CHR 0x0A])]) ''d''
        \<lparr>t_time = 10000000001, t_pid = 5, t_tid = 5\<rparr> = Returned fs' \<and>
      files fs' ''d/task.txt'' =
        Inr (''TASK timestamp=1.000000002 tid=3 pid=4'' @ [CHR 0x0A] @
             ''TASK timestamp=10.000000001 tid=5 pid=5'' @ [CHR 0x0A]) \<and>
      read_task_txt_file fs' stack0 empty_link ''d'' True False io0 =
        (Returned (0, \<lparr>sessions = [],
           tasks = [\<lparr>tk_tid = 3, tk_pid = 4, tk_time = 1000000002, tk_forked = False\<rparr>,
                    \<lparr>tk_tid = 5, tk_pid = 5, tk_time = 10000000001, tk_forked = False\<rparr>]\<rparr>),
         \<lparr>opened = [''d/task.txt''], diags = []\<rparr>))"
proof -
  have f: "append_error (fs_of []) ''d/task.txt'' = None"
    "files (fs_of []) ''d/task.txt'' = Inl ENOENT"
    by (simp_all add: fs_of_def)
  note t1 = task_roundtrip [where fs = "fs_of []" and dirname = "''d''"
      and tmsg = "\<lparr>t_time = 10000000001, t_pid = 5, t_tid = 5\<rparr>" and stack = stack0
      and sess = empty_link and ns = True and sr = False and w = io0]
  note t2 = task_roundtrip [where fs = "fs_of []" and dirname = "''d''"
      and tmsg = "\<lparr>t_time = - 1, t_pid = - 1, t_tid = 7\<rparr>" and stack = stack0
      and sess = empty_link and ns = True and sr = False and w = io0]
  have a: "\<exists>fs'. write_task_info (fs_of []) ''d'' \<lparr>t_time = 10000000001, t_pid = 5, t_tid = 5\<rparr> =
        Returned fs' \<and>
      files fs' ''d/task.txt'' = Inr (''TASK timestamp=10.000000001 tid=5 pid=5'' @ [CHR 0x0A]) \<and>
      read_task_txt_file fs' stack0 empty_link ''d'' True False io0 =
        (Returned (0, \<lparr>sessions = [],
           tasks = [\<lparr>tk_tid = 5, tk_pid = 5, tk_time = 10000000001, tk_forked = False\<rparr>]\<rparr>),
         \<lparr>opened = [''d/task.txt''], diags = []\<rparr>)"
    using t1 [THEN conjunct2, THEN conjunct1] t1 [THEN conjunct2, THEN conjunct2, THEN conjunct1]
    by (auto simp: f sample_task_text create_task_def empty_link_def note_open_def io0_def)
  have b: "\<exists>fs'. write_task_info (fs_of []) ''d'' \<lparr>t_time = - 1, t_pid = - 1, t_tid = 7\<rparr> =
        Returned fs' \<and>
      files fs' ''d/task.txt'' =
        Inr (''TASK timestamp=18446744073.709551615 tid=7 pid=-1'' @ [CHR 0x0A]) \<and>
      read_task_txt_file fs' stack0 empty_link ''d'' True False io0 =
        (Returned (0, \<lparr>sessions = [],
           tasks = [\<lparr>tk_tid = 7, tk_pid = - 1, tk_time = - 1, tk_forked = False\<rparr>]\<rparr>),
         \<lparr>opened = [''d/task.txt''], diags = []\<rparr>)"
    using t2 [THEN conjunct2, THEN conjunct1] t2 [THEN conjunct2, THEN conjunct2, THEN conjunct1]
    by (auto simp: f sample_task_text create_task_def empty_link_def note_open_def io0_def)
  define c0 where "c0 = ''TASK timestamp=1.000000002 tid=3 pid=4'' @ [CHR 0x0A]"
  define reg where "reg = \<lparr>sessions = [],
      tasks = [\<lparr>tk_tid = 3, tk_pid = 4, tk_time = 1000000002, tk_forked = False\<rparr>]\<rparr>"
  have "\<exists>l. read_lines ''d'' True False (stack0, empty_link) (getlines [] c0) = Returned (l, reg)"
    unfolding c0_def reg_def by (simp add: line_defs)
  then obtain l where r: "read_lines ''d'' True False (stack0, empty_link) (getlines [] c0) =
      Returned (l, reg)"
    by blast
  have g: "append_error (fs_of [(''d/task.txt'', c0)]) ''d/task.txt'' = None"
    "files (fs_of [(''d/task.txt'', c0)]) ''d/task.txt'' = Inr c0"
    "c0 = [] \<or> last c0 = CHR 0x0A"
    by (simp_all add: fs_of_def c0_def)
  note t3 = task_roundtrip [where fs = "fs_of [(''d/task.txt'', c0)]" and dirname = "''d''"
      and tmsg = "\<lparr>t_time = 10000000001, t_pid = 5, t_tid = 5\<rparr>" and stack = stack0
      and sess = empty_link and ns = True and sr = False and w = io0]
  note t3w = t3 [THEN conjunct2, THEN conjunct1]
  note t3r = t3 [THEN conjunct2, THEN conjunct2, THEN conjunct2, THEN spec [where x = c0],
      THEN spec [where x = "(l, reg)"]]
  have c: "\<exists>fs'. write_task_info (fs_of [(''d/task.txt'', c0)]) ''d''
        \<lparr>t_time = 10000000001, t_pid = 5, t_tid = 5\<rparr> = Returned fs' \<and>
      files fs' ''d/task.txt'' =
        Inr (c0 @ ''TASK timestamp=10.000000001 tid=5 pid=5'' @ [CHR 0x0A]) \<and>
      read_task_txt_file fs' stack0 empty_link ''d'' True False io0 =
        (Returned (0, \<lparr>sessions = [],
           tasks = [\<lparr>tk_tid = 3, tk_pid = 4, tk_time = 1000000002, tk_forked = False\<rparr>,
                    \<lparr>tk_tid = 5, tk_pid = 5, tk_time = 10000000001, tk_forked = False\<rparr>]\<rparr>),
         \<lparr>opened = [''d/task.txt''], diags = []\<rparr>)"
    using t3w t3r
    by (auto simp: g r reg_def sample_task_text create_task_def note_open_def io0_def)
  show ?thesis
    using f a b c unfolding c0_def by (intro conjI) simp_all
qed

end
